theory Spec2Isabelle
  imports Complex_Main "HOL-Library.Word"
begin

section \<open>The SoapySDR interface as seen by the rate test\<close>

text \<open>
  The macros of the SoapySDR headers (Constants.h, Errors.h) that the program compares
  against. Their values are not part of this repository, so the model takes them as a
  parameter; \<open>soapy_headers\<close> below holds the values of the released headers.
\<close>

record soapy_consts =
  SOAPY_SDR_TX :: int
  SOAPY_SDR_RX :: int
  SOAPY_SDR_TIMEOUT :: int
  SOAPY_SDR_OVERFLOW :: int
  SOAPY_SDR_UNDERFLOW :: int
  SOAPY_SDR_TIME_ERROR :: int

definition soapy_headers :: soapy_consts where
  "soapy_headers = \<lparr>SOAPY_SDR_TX = 0, SOAPY_SDR_RX = 1, SOAPY_SDR_TIMEOUT = - 1,
     SOAPY_SDR_OVERFLOW = - 4, SOAPY_SDR_UNDERFLOW = - 7, SOAPY_SDR_TIME_ERROR = - 6\<rparr>"

text \<open>What the code relies on: the two directions differ and the three error codes it
  tests one after the other differ.\<close>

definition distinct_codes :: "soapy_consts \<Rightarrow> bool" where
  "distinct_codes c =
     (SOAPY_SDR_RX c \<noteq> SOAPY_SDR_TX c \<and>
      distinct [SOAPY_SDR_TIMEOUT c, SOAPY_SDR_OVERFLOW c, SOAPY_SDR_UNDERFLOW c])"

datatype exit_code = EXIT_SUCCESS | EXIT_FAILURE

subsection \<open>Buffers\<close>

text \<open>
  A byte of a stream buffer is represented by where it comes from: \<open>Allocated\<close> is a
  byte as \<open>std::vector<char>(n)\<close> leaves it, \<open>Computed cmp i k\<close> is byte \<open>k\<close> of the
  \<open>float\<close> that the sample loop stores for component \<open>cmp\<close> of sample \<open>i\<close>. The numeric
  value of a computed byte is floating point and stays outside the model.
\<close>

datatype component = SampleRe | SampleIm

datatype byte = Allocated | Computed component nat nat

type_synonym buffers = "byte list list"

datatype thread_id = RxThread | TxThread

text \<open>
  A \<open>double\<close> value that the program computes for a message is kept as the expression
  the source evaluates: an integer converted to \<open>double\<close>, a \<open>double\<close> parameter or
  literal, a quotient, a product. What IEEE arithmetic makes of it (rounding, \<open>inf\<close> or
  \<open>nan\<close> for a zero divisor) is not modelled.
\<close>

datatype double_expr =
    FromUnsigned nat
  | FromSigned int
  | FromDouble real
  | Quotient double_expr double_expr
  | Product double_expr double_expr

datatype message =
    Omega
  | DoubleSample nat
  | FloatSample nat
  | StartingStream int
  | UnexpectedStreamError int
  | Spin nat
  | Stats int double_expr double_expr int
  | Overflows "32 word"
  | Underflows "32 word"
  | NewLine
  | Deactivate int
  | ErrorInRateTest
  | Formats string string
  | NumChannels nat
  | ElementSizes nat nat
  | BeginRateTest double_expr
  | CreateRxThread
  | CreateTxThread
  | JoinRxThread

datatype event =
    Make string
  | Unmake "nat option"
  | SetFrequency int nat real
  | SetBandwidth int nat real
  | SetSampleRate int nat real
  | SetGain int nat real
  | GetNativeStreamFormat int nat
  | SetupStream int string "nat list" nat
  | CloseStream nat
  | SignalSIGINT
  | SetLogLevel
  | GetStreamMTU nat
  | ActivateStream nat
  | ReadStream nat nat
  | WriteStream nat buffers nat
  | ReadStreamStatus nat
  | DeactivateStream nat
  | Spawn thread_id
  | Sleep nat
  | Join thread_id
  | Print message

datatype fault = OutOfBounds | NoReturn

subsection \<open>The sample loop of src/SoapyRateTest.cpp (lines 43-63)\<close>

definition store_float :: "byte list \<Rightarrow> nat \<Rightarrow> component \<Rightarrow> nat \<Rightarrow> byte list option" where
  "store_float buf off cmp i =
     (if off + 4 \<le> length buf
      then Some (buf[off := Computed cmp i 0, off + 1 := Computed cmp i 1,
                     off + 2 := Computed cmp i 2, off + 3 := Computed cmp i 3])
      else None)"

definition store_sample :: "buffers \<Rightarrow> nat \<Rightarrow> nat \<Rightarrow> buffers option" where
  "store_sample buffMem ch i =
     (if ch < length buffMem \<and> i < length (buffMem ! ch)
      then (case store_float (buffMem ! ch) i SampleRe i of
              None \<Rightarrow> None
            | Some b \<Rightarrow> (case store_float b (i + 4) SampleIm i of
                 None \<Rightarrow> None
               | Some b' \<Rightarrow> Some (buffMem[ch := b'])))
      else None)"

function generateSamples :: "nat \<Rightarrow> nat \<Rightarrow> buffers \<Rightarrow> buffers option" where
  "generateSamples i numElems buffMem =
     (if i < numElems
      then (case store_sample buffMem 0 i of
              None \<Rightarrow> None
            | Some m \<Rightarrow> (case store_sample m 1 i of
                 None \<Rightarrow> None
               | Some m' \<Rightarrow> generateSamples (Suc i) numElems m'))
      else Some buffMem)"
  by pat_completeness auto
termination
  by (relation "measure (\<lambda>(i, numElems, buffMem). numElems - i)") auto

declare generateSamples.simps [simp del]

definition allocate :: "nat \<Rightarrow> nat \<Rightarrow> nat \<Rightarrow> buffers" where
  "allocate numChans elemSize numElems = replicate numChans (replicate (elemSize * numElems) Allocated)"


subsection \<open>The stream loop (src/SoapyRateTest.cpp lines 68-152, part_000 lines 35-117)\<close>

text \<open>
  What one thread observes from outside while it runs the loop: the MTU of its stream,
  the successive values it reads from the flag \<open>loopDone\<close>, the successive results of
  \<open>readStream\<close>/\<open>writeStream\<close>, of \<open>high_resolution_clock::now()\<close> (in ticks of one
  nanosecond) and of \<open>readStreamStatus\<close>. A run that needs more observations than the
  lists hold has not returned within them (\<open>NoReturn\<close>).
\<close>

record loop_env =
  streamMTU :: nat
  loopDoneReads :: "bool list"
  streamRets :: "int list"
  clockReads :: "int list"
  statusRets :: "int list"

record loop_args =
  stream :: nat
  direction :: int
  numChans :: nat
  elemSize :: nat
  numElems :: nat
  buffs :: buffers
  startTime :: int

record loop_state =
  overflows :: "32 word"
  underflows :: "32 word"
  totalSamples :: "64 word"
  timeLastPrint :: int
  timeLastSpin :: int
  timeLastStatus :: int
  spinIndex :: nat

definition milliseconds :: "int \<Rightarrow> int" where
  "milliseconds n = n * 1000000"

definition seconds :: "int \<Rightarrow> int" where
  "seconds n = n * 1000000000"

text \<open>\<open>duration_cast<microseconds>\<close> of a nanosecond count truncates towards zero.\<close>

definition microseconds_count :: "int \<Rightarrow> int" where
  "microseconds_count d = (if d < 0 then - ((- d) div 1000) else d div 1000)"

text \<open>The \<open>switch (direction)\<close>: the result of the call, the results still to come, and
  the call made. Any other direction leaves \<open>ret\<close> at 0 and calls nothing.\<close>

definition streamCall :: "soapy_consts \<Rightarrow> loop_args \<Rightarrow> int list \<Rightarrow> (int \<times> int list \<times> event list) option" where
  "streamCall c a rets =
     (if direction a = SOAPY_SDR_RX c
      then (case rets of [] \<Rightarrow> None
            | r # rs \<Rightarrow> Some (r, rs, [ReadStream (stream a) (numElems a)]))
      else if direction a = SOAPY_SDR_TX c
      then (case rets of [] \<Rightarrow> None
            | r # rs \<Rightarrow> Some (r, rs, [WriteStream (stream a) (buffs a) (numElems a)]))
      else Some (0, rets, []))"

definition spinStep :: "loop_state \<Rightarrow> int \<Rightarrow> loop_state \<times> event list" where
  "spinStep st now =
     (if timeLastSpin st + milliseconds 300 < now
      then (st\<lparr>timeLastSpin := now, spinIndex := spinIndex st + 1\<rparr>,
            [Print (Spin (spinIndex st mod 4))])
      else (st, []))"

text \<open>The inner \<open>while (true)\<close> that drains the stream status.\<close>

fun statusLoop :: "soapy_consts \<Rightarrow> nat \<Rightarrow> int list \<Rightarrow> loop_state \<Rightarrow> (loop_state \<times> int list \<times> event list) option" where
  "statusLoop c s [] st = None"
| "statusLoop c s (ret # rs) st =
     (if ret = SOAPY_SDR_OVERFLOW c
      then map_option (\<lambda>(st', rs', evs). (st', rs', ReadStreamStatus s # evs))
             (statusLoop c s rs (st\<lparr>overflows := overflows st + 1\<rparr>))
      else if ret = SOAPY_SDR_UNDERFLOW c
      then map_option (\<lambda>(st', rs', evs). (st', rs', ReadStreamStatus s # evs))
             (statusLoop c s rs (st\<lparr>underflows := underflows st + 1\<rparr>))
      else if ret = SOAPY_SDR_TIME_ERROR c
      then map_option (\<lambda>(st', rs', evs). (st', rs', ReadStreamStatus s # evs))
             (statusLoop c s rs st)
      else Some (st, rs, [ReadStreamStatus s]))"

definition statusStep :: "soapy_consts \<Rightarrow> loop_args \<Rightarrow> int list \<Rightarrow> loop_state \<Rightarrow> int \<Rightarrow> (loop_state \<times> int list \<times> event list) option" where
  "statusStep c a status st now =
     (if timeLastStatus st + seconds 1 < now
      then statusLoop c (stream a) status (st\<lparr>timeLastStatus := now\<rparr>)
      else Some (st, status, []))"

text \<open>The statistics block: \<open>sampleRate = double(totalSamples)/timePassed.count()\<close>, and
  \<open>sampleRate*numChans*elemSize\<close>, kept as expressions. \<open>Stats\<close> also records the clock
  reading \<open>now\<close> of the iteration that printed the line.\<close>

definition printStep :: "loop_args \<Rightarrow> loop_state \<Rightarrow> int \<Rightarrow> loop_state \<times> event list" where
  "printStep a st now =
     (if timeLastPrint st + seconds 5 < now
      then (let timePassed = microseconds_count (now - startTime a);
                sampleRate = Quotient (FromUnsigned (unat (totalSamples st))) (FromSigned timePassed)
            in (st\<lparr>timeLastPrint := now\<rparr>,
                [Print (Stats now sampleRate
                   (Product (Product sampleRate (FromUnsigned (numChans a))) (FromUnsigned (elemSize a)))
                   (direction a))]
                @ (if overflows st \<noteq> 0 then [Print (Overflows (overflows st))] else [])
                @ (if underflows st \<noteq> 0 then [Print (Underflows (underflows st))] else [])
                @ [Print NewLine]))
      else (st, []))"

datatype iteration_result =
    Continue loop_state "int list" "int list" "int list" "event list"
  | Break int loop_state "event list"
  | Exhausted

text \<open>One pass through the body of \<open>while (not loopDone)\<close>.\<close>

definition iteration :: "soapy_consts \<Rightarrow> loop_args \<Rightarrow> int list \<Rightarrow> int list \<Rightarrow> int list \<Rightarrow> loop_state \<Rightarrow> iteration_result" where
  "iteration c a rets clock status st =
     (case streamCall c a rets of
        None \<Rightarrow> Exhausted
      | Some (ret, rets', call) \<Rightarrow>
          if ret = SOAPY_SDR_TIMEOUT c then Continue st rets' clock status call
          else if ret = SOAPY_SDR_OVERFLOW c
          then Continue (st\<lparr>overflows := overflows st + 1\<rparr>) rets' clock status call
          else if ret = SOAPY_SDR_UNDERFLOW c
          then Continue (st\<lparr>underflows := underflows st + 1\<rparr>) rets' clock status call
          else if ret < 0
          then Break ret st (call @ [Print (UnexpectedStreamError ret)])
          else (case clock of
                  [] \<Rightarrow> Exhausted
                | now # clock' \<Rightarrow>
                    (case spinStep (st\<lparr>totalSamples := totalSamples st + word_of_int ret\<rparr>) now of
                       (st1, spun) \<Rightarrow>
                         (case statusStep c a status st1 now of
                            None \<Rightarrow> Exhausted
                          | Some (st2, status', polled) \<Rightarrow>
                              (case printStep a st2 now of
                                 (st3, printed) \<Rightarrow>
                                   Continue st3 rets' clock' status' (call @ spun @ polled @ printed))))))"

datatype exit_reason = LoopDone | StreamError int

text \<open>The \<open>while (not loopDone)\<close> loop: one read of the flag per test of the condition.\<close>

fun rateLoop :: "soapy_consts \<Rightarrow> loop_args \<Rightarrow> bool list \<Rightarrow> int list \<Rightarrow> int list \<Rightarrow> int list \<Rightarrow> loop_state \<Rightarrow> (exit_reason \<times> loop_state \<times> event list) option" where
  "rateLoop c a [] rets clock status st = None"
| "rateLoop c a (flag # flags) rets clock status st =
     (if flag then Some (LoopDone, st, [])
      else (case iteration c a rets clock status st of
              Exhausted \<Rightarrow> None
            | Break ret st' evs \<Rightarrow> Some (StreamError ret, st', evs)
            | Continue st' rets' clock' status' evs \<Rightarrow>
                map_option (\<lambda>(r, st'', evs'). (r, st'', evs @ evs'))
                  (rateLoop c a flags rets' clock' status' st')))"

text \<open>The four clock readings taken before the loop, and the initial counters.\<close>

definition initialState :: "int \<Rightarrow> int \<Rightarrow> int \<Rightarrow> loop_state" where
  "initialState t1 t2 t3 =
     \<lparr>overflows = 0, underflows = 0, totalSamples = 0,
      timeLastPrint = t1, timeLastSpin = t2, timeLastStatus = t3, spinIndex = 0\<rparr>"

definition streamLoop :: "soapy_consts \<Rightarrow> loop_env \<Rightarrow> nat \<Rightarrow> int \<Rightarrow> nat \<Rightarrow> nat \<Rightarrow> buffers \<Rightarrow> (exit_reason \<times> loop_state \<times> event list) option" where
  "streamLoop c env strm dir nChans eSize mem =
     (case clockReads env of
        t0 # t1 # t2 # t3 # clock \<Rightarrow>
          map_option (\<lambda>(r, st, evs). (r, st, [Print (StartingStream dir), ActivateStream strm] @ evs))
            (rateLoop c
               \<lparr>stream = strm, direction = dir, numChans = nChans, elemSize = eSize,
                numElems = streamMTU env, buffs = mem, startTime = t0\<rparr>
               (loopDoneReads env) (streamRets env) clock (statusRets env)
               (initialState t1 t2 t3))
      | _ \<Rightarrow> None)"

text \<open>\<open>runRateTestStreamLoop\<close> of src/SoapyRateTest.cpp.\<close>

definition runRateTestStreamLoop :: "soapy_consts \<Rightarrow> loop_env \<Rightarrow> nat \<Rightarrow> int \<Rightarrow> nat \<Rightarrow> nat \<Rightarrow> real \<Rightarrow> real \<Rightarrow> fault + event list" where
  "runRateTestStreamLoop c env strm dir nChans eSize frequency sampleRate =
     (case generateSamples 0 (streamMTU env) (allocate nChans eSize (streamMTU env)) of
        None \<Rightarrow> Inl OutOfBounds
      | Some buffMem \<Rightarrow>
          (case streamLoop c env strm dir nChans eSize buffMem of
             None \<Rightarrow> Inl NoReturn
           | Some (r, st, evs) \<Rightarrow>
               Inr ([GetStreamMTU strm, Print Omega]
                    @ concat (map (\<lambda>i. [Print (DoubleSample i), Print (FloatSample i)]) [0..<streamMTU env])
                    @ evs @ [Print (Deactivate dir), DeactivateStream strm])))"

text \<open>\<open>runRateTestStreamLoop\<close> of src/unnamed/part_000: no sample loop, no parameters
  \<open>frequency\<close> and \<open>sampleRate\<close>, no message before \<open>deactivateStream\<close>.\<close>

definition runRateTestStreamLoop_part_000 :: "soapy_consts \<Rightarrow> loop_env \<Rightarrow> nat \<Rightarrow> int \<Rightarrow> nat \<Rightarrow> nat \<Rightarrow> fault + event list" where
  "runRateTestStreamLoop_part_000 c env strm dir nChans eSize =
     (case streamLoop c env strm dir nChans eSize (allocate nChans eSize (streamMTU env)) of
        None \<Rightarrow> Inl NoReturn
      | Some (r, st, evs) \<Rightarrow> Inr ([GetStreamMTU strm] @ evs @ [DeactivateStream strm]))"


subsection \<open>The main thread\<close>

text \<open>
  What the main thread observes from outside: which of its calls raise a
  \<open>std::exception\<close> (\<open>throws env n\<close>: the call that would be event number \<open>n\<close> of the
  main thread's trace raises), the results of the library's pure helpers and getters, the
  handles it is given, and the environments of the two threads it starts.
\<close>

record main_env =
  throws :: "nat \<Rightarrow> bool"
  KwargsFromString :: "string \<Rightarrow> (string \<times> string) list"
  stoi :: "string \<Rightarrow> int option"
  device :: nat
  getNativeStreamFormat :: "int \<Rightarrow> nat \<Rightarrow> string"
  formatToSize :: "string \<Rightarrow> nat"
  setupStream :: "int \<Rightarrow> string \<Rightarrow> nat list \<Rightarrow> nat"
  rxThreadEnv :: loop_env
  txThreadEnv :: loop_env

text \<open>\<open>channels.push_back(std::stoi(pair.first))\<close>: an \<open>int\<close> stored as \<open>size_t\<close>.\<close>

definition size_t_of_int :: "int \<Rightarrow> nat" where
  "size_t_of_int v = nat (v mod 2 ^ 64)"

fun parseChannels :: "(string \<Rightarrow> int option) \<Rightarrow> (string \<times> string) list \<Rightarrow> nat list option" where
  "parseChannels toInt [] = Some []"
| "parseChannels toInt (pair # pairs) =
     (case toInt (fst pair) of
        None \<Rightarrow> None
      | Some v \<Rightarrow> map_option (\<lambda>chans. size_t_of_int v # chans) (parseChannels toInt pairs))"

definition buildChannels :: "(string \<Rightarrow> int option) \<Rightarrow> (string \<times> string) list \<Rightarrow> nat list option" where
  "buildChannels toInt kwargs =
     map_option (\<lambda>channels. if channels = [] then [0] else channels) (parseChannels toInt kwargs)"

definition front :: "'a list \<Rightarrow> 'a option" where
  "front xs = (case xs of [] \<Rightarrow> None | x # _ \<Rightarrow> Some x)"

text \<open>
  The body of the \<open>try\<close> block is a straight line of statements: an observable action, a
  statement that raises (\<open>std::stoi\<close> on a key it cannot convert), or one without defined
  behaviour (\<open>front()\<close> of an empty vector).
\<close>

datatype stmt = Do event | Raise | UndefinedBehaviour

datatype status = Completed | Thrown | Terminated | Blocked | Undefined

fun may_raise :: "event \<Rightarrow> bool" where
  "may_raise (Print m) = False"
| "may_raise (Sleep n) = False"
| "may_raise SignalSIGINT = False"
| "may_raise e = True"

text \<open>
  Running the statements. \<open>joinable\<close> holds the \<open>std::thread\<close> objects that were started
  and not joined, with what their body does; leaving the block while one of them is
  joinable, by an exception or at its end, runs \<open>std::terminate\<close>. \<open>join\<close> returns once the
  thread's body has returned, and never if it does not.
\<close>

fun exec :: "(nat \<Rightarrow> bool) \<Rightarrow> (thread_id \<Rightarrow> fault + event list) \<Rightarrow> stmt list
    \<Rightarrow> thread_id list \<Rightarrow> event list \<Rightarrow> (thread_id \<times> event list) list
    \<Rightarrow> status \<times> event list \<times> (thread_id \<times> event list) list" where
  "exec th body [] joinable tr jd = (if joinable = [] then Completed else Terminated, tr, jd)"
| "exec th body (Raise # ss) joinable tr jd = (if joinable = [] then Thrown else Terminated, tr, jd)"
| "exec th body (UndefinedBehaviour # ss) joinable tr jd = (Undefined, tr, jd)"
| "exec th body (Do e # ss) joinable tr jd =
     (if may_raise e \<and> th (length tr)
      then (if joinable = [] then Thrown else Terminated, tr @ [e], jd)
      else (case e of
              Spawn t \<Rightarrow> exec th body ss (joinable @ [t]) (tr @ [e]) jd
            | Join t \<Rightarrow>
                (if t \<in> set joinable
                 then (case body t of
                         Inl NoReturn \<Rightarrow> (Blocked, tr @ [e], jd)
                       | Inl OutOfBounds \<Rightarrow> (Undefined, tr @ [e], jd)
                       | Inr calls \<Rightarrow> exec th body ss (removeAll t joinable) (tr @ [e]) (jd @ [(t, calls)]))
                 else (if joinable = [] then Thrown else Terminated, tr @ [e], jd))
            | _ \<Rightarrow> exec th body ss joinable (tr @ [e]) jd))"

datatype outcome = Returns exit_code | Escapes | Terminates | NeverReturns | UndefinedOutcome

record run =
  outcome :: outcome
  trace :: "event list"
  joined :: "(thread_id \<times> event list) list"

text \<open>The \<open>catch\<close> block and the two \<open>return\<close> statements (src/SoapyRateTest.cpp lines
  236-242, part_000 lines 190-196). \<open>device\<close> is still null when \<open>Device::make\<close> raised.\<close>

definition finish :: "main_env \<Rightarrow> status \<times> event list \<times> (thread_id \<times> event list) list \<Rightarrow> run" where
  "finish env r =
     (case r of (st, tr, jd) \<Rightarrow>
        (case st of
           Completed \<Rightarrow> \<lparr>outcome = Returns EXIT_FAILURE, trace = tr, joined = jd\<rparr>
         | Thrown \<Rightarrow>
             \<lparr>outcome = (if throws env (length tr + 1) then Escapes else Returns EXIT_FAILURE),
              trace = tr @ [Print ErrorInRateTest,
                            Unmake (if throws env 0 then None else Some (device env))],
              joined = jd\<rparr>
         | Terminated \<Rightarrow> \<lparr>outcome = Terminates, trace = tr, joined = jd\<rparr>
         | Blocked \<Rightarrow> \<lparr>outcome = NeverReturns, trace = tr, joined = jd\<rparr>
         | Undefined \<Rightarrow> \<lparr>outcome = UndefinedOutcome, trace = tr, joined = jd\<rparr>))"

text \<open>The loop over the channels, src/SoapyRateTest.cpp lines 180-193.\<close>

definition configureChannel :: "soapy_consts \<Rightarrow> real \<Rightarrow> real \<Rightarrow> real \<Rightarrow> real \<Rightarrow> real \<Rightarrow> nat \<Rightarrow> event list" where
  "configureChannel c frequency bandwidth sampleRate rxGain txGain chan =
     [SetFrequency (SOAPY_SDR_RX c) chan frequency,
      SetFrequency (SOAPY_SDR_TX c) chan frequency,
      SetBandwidth (SOAPY_SDR_RX c) chan bandwidth,
      SetBandwidth (SOAPY_SDR_TX c) chan bandwidth,
      SetSampleRate (SOAPY_SDR_RX c) chan sampleRate,
      SetSampleRate (SOAPY_SDR_TX c) chan sampleRate,
      SetGain (SOAPY_SDR_RX c) chan rxGain,
      SetGain (SOAPY_SDR_TX c) chan txGain]"

text \<open>The same loop in part_000, lines 142-149.\<close>

definition configureChannel_part_000 :: "soapy_consts \<Rightarrow> real \<Rightarrow> real \<Rightarrow> nat \<Rightarrow> event list" where
  "configureChannel_part_000 c frequency sampleRate chan =
     [SetFrequency (SOAPY_SDR_RX c) chan frequency,
      SetFrequency (SOAPY_SDR_TX c) chan frequency,
      SetSampleRate (SOAPY_SDR_RX c) chan sampleRate,
      SetSampleRate (SOAPY_SDR_TX c) chan sampleRate]"

text \<open>\<open>formatStr.empty() ? device->getNativeStreamFormat(SOAPY_SDR_RX, channels.front(),
  fullScale) : formatStr\<close>, for both streams with the direction \<open>SOAPY_SDR_RX\<close>: the
  statement it runs and the format it yields.\<close>

definition nativeFormatStmt :: "soapy_consts \<Rightarrow> string \<Rightarrow> nat list \<Rightarrow> stmt list" where
  "nativeFormatStmt c formatStr channels =
     (if formatStr = [] then
        (case front channels of
           None \<Rightarrow> [UndefinedBehaviour]
         | Some chan \<Rightarrow> [Do (GetNativeStreamFormat (SOAPY_SDR_RX c) chan)])
      else [])"

definition streamFormat :: "soapy_consts \<Rightarrow> main_env \<Rightarrow> string \<Rightarrow> nat list \<Rightarrow> string" where
  "streamFormat c env formatStr channels =
     (if formatStr = [] then
        (case front channels of
           None \<Rightarrow> []
         | Some chan \<Rightarrow> getNativeStreamFormat env (SOAPY_SDR_RX c) chan)
      else formatStr)"

text \<open>The statements of the \<open>try\<close> block after the channel list is built,
  src/SoapyRateTest.cpp lines 180-234.\<close>

definition tryBlock :: "soapy_consts \<Rightarrow> main_env \<Rightarrow> real \<Rightarrow> real \<Rightarrow> real \<Rightarrow> real \<Rightarrow> real \<Rightarrow> string \<Rightarrow> nat list \<Rightarrow> stmt list" where
  "tryBlock c env frequency bandwidth sampleRate rxGain txGain formatStr channels =
     (let rxFormat = streamFormat c env formatStr channels;
          rxElemSize = formatToSize env rxFormat;
          rxStream = setupStream env (SOAPY_SDR_RX c) rxFormat channels;
          txFormat = streamFormat c env formatStr channels;
          txElemSize = formatToSize env txFormat;
          txStream = setupStream env (SOAPY_SDR_TX c) txFormat channels
      in map Do (concat (map (configureChannel c frequency bandwidth sampleRate rxGain txGain) channels))
         @ nativeFormatStmt c formatStr channels
         @ [Do (SetupStream (SOAPY_SDR_RX c) rxFormat channels rxStream)]
         @ nativeFormatStmt c formatStr channels
         @ [Do (SetupStream (SOAPY_SDR_TX c) txFormat channels txStream),
            Do (Print (Formats rxFormat txFormat)),
            Do (Print (NumChannels (length channels))),
            Do (Print (ElementSizes rxElemSize txElemSize)),
            Do (Print (BeginRateTest (Quotient (FromDouble sampleRate) (FromDouble 1000000)))),
            Do SignalSIGINT,
            Do SetLogLevel,
            Do (Print CreateRxThread),
            Do (Spawn RxThread),
            Do (Sleep 2),
            Do (Print CreateTxThread),
            Do (Spawn TxThread),
            Do (Print JoinRxThread),
            Do (Join RxThread),
            Do (Join TxThread),
            Do (CloseStream rxStream),
            Do (CloseStream txStream),
            Do (Unmake (Some (device env)))])"

text \<open>The bodies of the two lambdas given to \<open>std::thread\<close>, lines 216-218 and 223-225.\<close>

definition threadBody :: "soapy_consts \<Rightarrow> main_env \<Rightarrow> real \<Rightarrow> real \<Rightarrow> string \<Rightarrow> nat list \<Rightarrow> thread_id \<Rightarrow> fault + event list" where
  "threadBody c env frequency sampleRate formatStr channels t =
     (let rxFormat = streamFormat c env formatStr channels;
          rxElemSize = formatToSize env rxFormat;
          rxStream = setupStream env (SOAPY_SDR_RX c) rxFormat channels;
          txFormat = streamFormat c env formatStr channels;
          txElemSize = formatToSize env txFormat;
          txStream = setupStream env (SOAPY_SDR_TX c) txFormat channels
      in (case t of
            RxThread \<Rightarrow> runRateTestStreamLoop c (rxThreadEnv env) rxStream (SOAPY_SDR_RX c)
                          (length channels) rxElemSize frequency sampleRate
          | TxThread \<Rightarrow> runRateTestStreamLoop c (txThreadEnv env) txStream (SOAPY_SDR_TX c)
                          (length channels) txElemSize frequency sampleRate))"

text \<open>\<open>SoapySDRRateTest\<close> of src/SoapyRateTest.cpp.\<close>

definition SoapySDRRateTest :: "soapy_consts \<Rightarrow> main_env \<Rightarrow> string \<Rightarrow> real \<Rightarrow> real \<Rightarrow> real \<Rightarrow> real \<Rightarrow> real \<Rightarrow> string \<Rightarrow> string \<Rightarrow> run" where
  "SoapySDRRateTest c env argStr frequency bandwidth sampleRate rxGain txGain formatStr channelStr =
     finish env
       (case buildChannels (stoi env) (KwargsFromString env channelStr) of
          None \<Rightarrow> exec (throws env) (\<lambda>t. Inl NoReturn) [Do (Make argStr), Raise] [] [] []
        | Some channels \<Rightarrow>
            exec (throws env) (threadBody c env frequency sampleRate formatStr channels)
              (Do (Make argStr)
               # tryBlock c env frequency bandwidth sampleRate rxGain txGain formatStr channels)
              [] [] [])"

text \<open>The same for part_000 (lines 142-188): no bandwidth, no gains, no log level, and
  only \<open>rxThread\<close> is joined.\<close>

definition tryBlock_part_000 :: "soapy_consts \<Rightarrow> main_env \<Rightarrow> real \<Rightarrow> real \<Rightarrow> string \<Rightarrow> nat list \<Rightarrow> stmt list" where
  "tryBlock_part_000 c env frequency sampleRate formatStr channels =
     (let rxFormat = streamFormat c env formatStr channels;
          rxElemSize = formatToSize env rxFormat;
          rxStream = setupStream env (SOAPY_SDR_RX c) rxFormat channels;
          txFormat = streamFormat c env formatStr channels;
          txElemSize = formatToSize env txFormat;
          txStream = setupStream env (SOAPY_SDR_TX c) txFormat channels
      in map Do (concat (map (configureChannel_part_000 c frequency sampleRate) channels))
         @ nativeFormatStmt c formatStr channels
         @ [Do (SetupStream (SOAPY_SDR_RX c) rxFormat channels rxStream)]
         @ nativeFormatStmt c formatStr channels
         @ [Do (SetupStream (SOAPY_SDR_TX c) txFormat channels txStream),
            Do (Print (Formats rxFormat txFormat)),
            Do (Print (NumChannels (length channels))),
            Do (Print (ElementSizes rxElemSize txElemSize)),
            Do (Print (BeginRateTest (Quotient (FromDouble sampleRate) (FromDouble 1000000)))),
            Do SignalSIGINT,
            Do (Print CreateRxThread),
            Do (Spawn RxThread),
            Do (Sleep 2),
            Do (Print CreateTxThread),
            Do (Spawn TxThread),
            Do (Print JoinRxThread),
            Do (Join RxThread),
            Do (CloseStream rxStream),
            Do (CloseStream txStream),
            Do (Unmake (Some (device env)))])"

definition threadBody_part_000 :: "soapy_consts \<Rightarrow> main_env \<Rightarrow> string \<Rightarrow> nat list \<Rightarrow> thread_id \<Rightarrow> fault + event list" where
  "threadBody_part_000 c env formatStr channels t =
     (let rxFormat = streamFormat c env formatStr channels;
          rxElemSize = formatToSize env rxFormat;
          rxStream = setupStream env (SOAPY_SDR_RX c) rxFormat channels;
          txFormat = streamFormat c env formatStr channels;
          txElemSize = formatToSize env txFormat;
          txStream = setupStream env (SOAPY_SDR_TX c) txFormat channels
      in (case t of
            RxThread \<Rightarrow> runRateTestStreamLoop_part_000 c (rxThreadEnv env) rxStream (SOAPY_SDR_RX c)
                          (length channels) rxElemSize
          | TxThread \<Rightarrow> runRateTestStreamLoop_part_000 c (txThreadEnv env) txStream (SOAPY_SDR_TX c)
                          (length channels) txElemSize))"

definition SoapySDRRateTest_part_000 :: "soapy_consts \<Rightarrow> main_env \<Rightarrow> string \<Rightarrow> real \<Rightarrow> real \<Rightarrow> string \<Rightarrow> string \<Rightarrow> run" where
  "SoapySDRRateTest_part_000 c env argStr frequency sampleRate formatStr channelStr =
     finish env
       (case buildChannels (stoi env) (KwargsFromString env channelStr) of
          None \<Rightarrow> exec (throws env) (\<lambda>t. Inl NoReturn) [Do (Make argStr), Raise] [] [] []
        | Some channels \<Rightarrow>
            exec (throws env) (threadBody_part_000 c env formatStr channels)
              (Do (Make argStr) # tryBlock_part_000 c env frequency sampleRate formatStr channels)
              [] [] [])"


subsection \<open>Notions used to state the properties\<close>

text \<open>The clock readings at which a trace printed its statistics line.\<close>

definition stats_time :: "event \<Rightarrow> int list" where
  "stats_time e =
     (case e of
        Print m \<Rightarrow> (case m of Stats now rate byteRate dir \<Rightarrow> [now] | _ \<Rightarrow> [])
      | _ \<Rightarrow> [])"

definition stats_times :: "event list \<Rightarrow> int list" where
  "stats_times evs = concat (map stats_time evs)"


text \<open>The stream a library call works on, and the calls of a trace on one stream.\<close>

fun stream_of :: "event \<Rightarrow> nat option" where
  "stream_of (SetupStream d f chans s) = Some s"
| "stream_of (CloseStream s) = Some s"
| "stream_of (GetStreamMTU s) = Some s"
| "stream_of (ActivateStream s) = Some s"
| "stream_of (ReadStream s n) = Some s"
| "stream_of (WriteStream s b n) = Some s"
| "stream_of (ReadStreamStatus s) = Some s"
| "stream_of (DeactivateStream s) = Some s"
| "stream_of e = None"

definition calls_on :: "nat \<Rightarrow> event list \<Rightarrow> event list" where
  "calls_on s evs = filter (\<lambda>e. stream_of e = Some s) evs"

fun is_read :: "event \<Rightarrow> bool" where
  "is_read (ReadStream s n) = True"
| "is_read e = False"

fun is_write :: "event \<Rightarrow> bool" where
  "is_write (WriteStream s b n) = True"
| "is_write e = False"

fun is_status :: "event \<Rightarrow> bool" where
  "is_status (ReadStreamStatus s) = True"
| "is_status e = False"

fun is_setup :: "event \<Rightarrow> bool" where
  "is_setup (SetupStream d f chans s) = True"
| "is_setup e = False"


text \<open>What the loop may do while it runs on the stream \<open>strm\<close> in direction \<open>dir\<close>
  with \<open>n\<close> elements per call and the buffers \<open>mem\<close>: print, read the stream if the
  direction is RX, write the buffers to the stream if the direction is TX (the \<open>switch\<close>
  tests RX first), or poll the status of the stream.\<close>

definition loop_event :: "soapy_consts \<Rightarrow> nat \<Rightarrow> int \<Rightarrow> nat \<Rightarrow> buffers \<Rightarrow> event \<Rightarrow> bool" where
  "loop_event c strm dir n mem e =
     (case e of
        Print m \<Rightarrow> True
      | ReadStream s k \<Rightarrow> s = strm \<and> k = n \<and> dir = SOAPY_SDR_RX c
      | WriteStream s b k \<Rightarrow> s = strm \<and> b = mem \<and> k = n
          \<and> dir = SOAPY_SDR_TX c \<and> dir \<noteq> SOAPY_SDR_RX c
      | ReadStreamStatus s \<Rightarrow> s = strm
      | _ \<Rightarrow> False)"


fun is_thread_op :: "event \<Rightarrow> bool" where
  "is_thread_op (Spawn t) = True"
| "is_thread_op (Join t) = True"
| "is_thread_op e = False"

fun is_transfer :: "event \<Rightarrow> bool" where
  "is_transfer (ReadStream s n) = True"
| "is_transfer (WriteStream s b n) = True"
| "is_transfer (ReadStreamStatus s) = True"
| "is_transfer e = False"

text \<open>
  The main thread's trace around one of its threads: what it did before it started the
  thread, while the thread may be running, and after \<open>join\<close> returned. Starting a thread
  happens before everything the thread does, and everything the thread does happens
  before \<open>join\<close> returns; so the calls on a stream that only this thread and the main
  thread use are ordered as \<open>stream_history\<close> lists them, provided the main thread
  leaves the stream alone while the thread may be running.
\<close>

definition before_spawn :: "thread_id \<Rightarrow> event list \<Rightarrow> event list" where
  "before_spawn t tr = takeWhile (\<lambda>e. e \<noteq> Spawn t) tr"

definition while_running :: "thread_id \<Rightarrow> event list \<Rightarrow> event list" where
  "while_running t tr = takeWhile (\<lambda>e. e \<noteq> Join t) (dropWhile (\<lambda>e. e \<noteq> Spawn t) tr)"

definition after_join :: "thread_id \<Rightarrow> event list \<Rightarrow> event list" where
  "after_join t tr = drop 1 (dropWhile (\<lambda>e. e \<noteq> Join t) tr)"

definition joined_calls :: "thread_id \<Rightarrow> run \<Rightarrow> event list" where
  "joined_calls t r = (case map_of (joined r) t of None \<Rightarrow> [] | Some calls \<Rightarrow> calls)"

definition stream_history :: "nat \<Rightarrow> thread_id \<Rightarrow> run \<Rightarrow> event list" where
  "stream_history s t r =
     calls_on s (before_spawn t (trace r)) @ calls_on s (joined_calls t r)
     @ calls_on s (after_join t (trace r))"

text \<open>The order of the calls on one stream: set up, MTU queried, activated, then only
  reads, writes and status polls, then deactivated, then closed, and nothing after.\<close>

definition lifecycle :: "nat \<Rightarrow> event list \<Rightarrow> bool" where
  "lifecycle s h =
     (case h of
        SetupStream d f chans s0 # GetStreamMTU s1 # ActivateStream s2 # rest \<Rightarrow>
          s0 = s \<and> s1 = s \<and> s2 = s \<and> 2 \<le> length rest
          \<and> list_all (\<lambda>e. is_transfer e \<and> stream_of e = Some s) (take (length rest - 2) rest)
          \<and> drop (length rest - 2) rest = [DeactivateStream s, CloseStream s]
      | _ \<Rightarrow> False)"


text \<open>The call that \<open>nativeFormatStmt\<close> makes on a channel list that is not empty.\<close>

definition nativeFormatCall :: "soapy_consts \<Rightarrow> string \<Rightarrow> nat list \<Rightarrow> event list" where
  "nativeFormatCall c formatStr channels =
     (if formatStr = [] then
        (case front channels of
           None \<Rightarrow> []
         | Some chan \<Rightarrow> [GetNativeStreamFormat (SOAPY_SDR_RX c) chan])
      else [])"


text \<open>The actions of a statement list in order, up to the first statement that raises or
  has no defined behaviour; and of these the ones that come before any thread is started.\<close>

fun planned :: "stmt list \<Rightarrow> event list" where
  "planned [] = []"
| "planned (Do e # ss) = e # planned ss"
| "planned (Raise # ss) = []"
| "planned (UndefinedBehaviour # ss) = []"

definition before_threads :: "stmt list \<Rightarrow> event list" where
  "before_threads ss = takeWhile (\<lambda>e. \<not> is_thread_op e) (planned ss)"

subsection \<open>An example run\<close>

text \<open>
  A concrete environment at which the theorems are instantiated: no call raises, the
  channel string "0, 1" yields the keys "0" and "1", the streams get the handles 10 (RX)
  and 20 (TX), "CF32" has 8 bytes per element, and each thread sees an MTU of 1, one
  successful transfer of 100 elements two seconds after its start, and then the flag.
\<close>

definition example_loop_env :: loop_env where
  "example_loop_env =
     \<lparr>streamMTU = 1, loopDoneReads = [False, True], streamRets = [100],
      clockReads = [0, 1, 2, 3, 2000000000], statusRets = [0]\<rparr>"

definition example_env :: main_env where
  "example_env =
     \<lparr>throws = (\<lambda>n. False),
      KwargsFromString = (\<lambda>s. if s = ''0, 1'' then [(''0'', ''''), (''1'', '''')] else []),
      stoi = (\<lambda>s. if s = ''0'' then Some 0 else if s = ''1'' then Some 1 else None),
      device = 42,
      getNativeStreamFormat = (\<lambda>d chan. ''CS16''),
      formatToSize = (\<lambda>f. if f = ''CF32'' then 8 else 4),
      setupStream = (\<lambda>d f chans. if d = 1 then 10 else 20),
      rxThreadEnv = example_loop_env,
      txThreadEnv = example_loop_env\<rparr>"

text \<open>The example run in which \<open>setupStream\<close> for TX, action number 18 of the main thread
  (after \<open>Device::make\<close>, sixteen setter calls and \<open>setupStream\<close> for RX), raises.\<close>

definition setup_fails_env :: main_env where
  "setup_fails_env = example_env\<lparr>throws := (\<lambda>n. n = 18)\<rparr>"

text \<open>The example run in which the constructor of \<open>txThread\<close>, action number 29 of the main
  thread, raises \<open>std::system_error\<close> while \<open>rxThread\<close> is running.\<close>

definition thread_fails_env :: main_env where
  "thread_fails_env = example_env\<lparr>throws := (\<lambda>n. n = 29)\<rparr>"

text \<open>The example run for a channel string whose only key is not a number.\<close>

definition bad_channel_env :: main_env where
  "bad_channel_env = example_env\<lparr>KwargsFromString := (\<lambda>s. [(''a'', [])])\<rparr>"

section \<open>Properties\<close>

lemma parseChannels_Some:
  "parseChannels toInt kwargs = Some chans \<Longrightarrow>
     \<exists>vs. map (\<lambda>pair. toInt (fst pair)) kwargs = map Some vs \<and> chans = map size_t_of_int vs"
proof (induction kwargs arbitrary: chans)
  case Nil
  then show ?case by simp
next
  case (Cons pair pairs)
  from Cons.prems obtain v rest where v: "toInt (fst pair) = Some v"
    and rest: "parseChannels toInt pairs = Some rest" and chans: "chans = size_t_of_int v # rest"
    by (auto split: option.splits)
  from Cons.IH [OF rest] obtain vs where
    "map (\<lambda>pair. toInt (fst pair)) pairs = map Some vs" "rest = map size_t_of_int vs" by blast
  with v chans have "map (\<lambda>pair. toInt (fst pair)) (pair # pairs) = map Some (v # vs)
      \<and> chans = map size_t_of_int (v # vs)" by simp
  then show ?case by blast
qed

text \<open>
  C10. The channel list that \<open>SoapySDRRateTest\<close> builds (both files) is never empty: it
  has one entry for each pair of \<open>KwargsFromString(channelStr)\<close>, the key converted by
  \<open>std::stoi\<close> and stored as \<open>size_t\<close>, in the order of the pairs; when there is no pair
  it is exactly \<open>[0]\<close>; so \<open>channels.front()\<close> is defined. The list exists only when every
  key converts: otherwise \<open>std::stoi\<close> raises and no list is used.
\<close>

theorem channels_nonempty:
  assumes "buildChannels toInt kwargs = Some channels"
  shows "channels \<noteq> [] \<and> (\<exists>chan. front channels = Some chan)
     \<and> (kwargs = [] \<longrightarrow> channels = [0])
     \<and> (kwargs \<noteq> [] \<longrightarrow> (\<exists>vs. map (\<lambda>pair. toInt (fst pair)) kwargs = map Some vs
            \<and> channels = map size_t_of_int vs))"
proof -
  from assms obtain chans where p: "parseChannels toInt kwargs = Some chans"
    and c: "channels = (if chans = [] then [0] else chans)"
    by (auto simp: buildChannels_def)
  from parseChannels_Some [OF p] obtain vs where
    vs: "map (\<lambda>pair. toInt (fst pair)) kwargs = map Some vs" "chans = map size_t_of_int vs" by blast
  have ne: "channels \<noteq> []" using c by simp
  then have fr: "\<exists>chan. front channels = Some chan"
    by (cases channels) (simp_all add: front_def)
  have e: "kwargs = [] \<longrightarrow> channels = [0]" using p c by auto
  have n: "kwargs \<noteq> [] \<longrightarrow> (\<exists>vs. map (\<lambda>pair. toInt (fst pair)) kwargs = map Some vs
            \<and> channels = map size_t_of_int vs)"
  proof
    assume "kwargs \<noteq> []"
    with vs have "chans \<noteq> []" by auto
    with c vs show "\<exists>vs. map (\<lambda>pair. toInt (fst pair)) kwargs = map Some vs
            \<and> channels = map size_t_of_int vs" by auto
  qed
  from ne fr e n show ?thesis by blast
qed

lemma store_float_Some:
  "(store_float buf off cmp i = Some b) =
     (off + 4 \<le> length buf \<and>
      b = buf[off := Computed cmp i 0, off + 1 := Computed cmp i 1,
              off + 2 := Computed cmp i 2, off + 3 := Computed cmp i 3])"
  by (auto simp: store_float_def)

lemma store_float_length: "store_float buf off cmp i = Some b \<Longrightarrow> length b = length buf"
  by (auto simp: store_float_def split: if_splits)

lemma store_sample_None:
  "(store_sample m ch i = None) = (\<not> (ch < length m \<and> i + 8 \<le> length (m ! ch)))"
  by (auto simp: store_sample_def store_float_def split: option.splits)

lemma store_sample_lengths:
  "store_sample m ch i = Some m' \<Longrightarrow> map length m' = map length m"
  by (auto simp: store_sample_def store_float_def map_update list_update_same_conv split: option.splits if_splits)

lemma generateSamples_defined:
  "(generateSamples i n m \<noteq> None) =
     (n \<le> i \<or> (2 \<le> length m \<and> n + 7 \<le> length (m ! 0) \<and> n + 7 \<le> length (m ! 1)))"
proof (induction i n m rule: generateSamples.induct)
  case (1 i numElems buffMem)
  show ?case
  proof (cases "i < numElems")
    case False
    then show ?thesis by (simp add: generateSamples.simps [of i numElems buffMem])
  next
    case True
    show ?thesis
    proof (cases "store_sample buffMem 0 i")
      case None
      have "generateSamples i numElems buffMem = None"
        using True None by (simp add: generateSamples.simps [of i numElems buffMem])
      moreover have "\<not> (0 < length buffMem \<and> i + 8 \<le> length (buffMem ! 0))"
        using None by (simp add: store_sample_None)
      ultimately show ?thesis using True by auto
    next
      case (Some m)
      note s0 = this
      have l0: "map length m = map length buffMem" using store_sample_lengths [OF s0] .
      then have len: "length m = length buffMem" using map_eq_imp_length_eq by blast
      have a0: "0 < length buffMem \<and> i + 8 \<le> length (buffMem ! 0)"
        using s0 store_sample_None [of buffMem 0 i] by simp
      show ?thesis
      proof (cases "store_sample m 1 i")
        case None
        have g: "generateSamples i numElems buffMem = None"
          using True None s0 by (simp add: generateSamples.simps [of i numElems buffMem])
        have n1: "\<not> (1 < length m \<and> i + 8 \<le> length (m ! 1))" using None by (simp add: store_sample_None)
        have "1 < length m \<Longrightarrow> length (m ! 1) = length (buffMem ! 1)"
          using l0 len by (metis nth_map)
        with n1 have "\<not> (2 \<le> length buffMem \<and> i + 8 \<le> length (buffMem ! 1))" using len by auto
        then show ?thesis using g True by auto
      next
        case (Some m')
        note s1 = this
        have l1: "map length m' = map length buffMem" using store_sample_lengths [OF s1] l0 by simp
        then have len': "length m' = length buffMem" using map_eq_imp_length_eq by blast
        have a1: "1 < length m \<and> i + 8 \<le> length (m ! 1)"
          using s1 store_sample_None [of m 1 i] by simp
        have e1: "length (m ! 1) = length (buffMem ! 1)" using a1 l0 len by (metis nth_map)
        have e0': "length (m' ! 0) = length (buffMem ! 0)" using a0 l1 len' by (metis nth_map)
        have e1': "length (m' ! 1) = length (buffMem ! 1)" using a1 l1 len len' by (metis nth_map)
        have "(generateSamples i numElems buffMem \<noteq> None) = (generateSamples (Suc i) numElems m' \<noteq> None)"
          using True s0 s1 by (simp add: generateSamples.simps [of i numElems buffMem])
        also have "\<dots> = (numElems \<le> Suc i \<or> (2 \<le> length m' \<and> numElems + 7 \<le> length (m' ! 0) \<and> numElems + 7 \<le> length (m' ! 1)))"
          using "1.IH" [OF True s0 s1] .
        also have "\<dots> = (numElems \<le> i \<or> (2 \<le> length buffMem \<and> numElems + 7 \<le> length (buffMem ! 0) \<and> numElems + 7 \<le> length (buffMem ! 1)))"
          using True a0 a1 e1 e0' e1' len len' by auto
        finally show ?thesis .
      qed
    qed
  qed
qed

lemma generateSamples_allocate:
  "(generateSamples 0 n (allocate nChans eSize n) \<noteq> None) =
     (n = 0 \<or> (2 \<le> nChans \<and> n + 7 \<le> eSize * n))"
  unfolding generateSamples_defined by (auto simp: allocate_def)

lemma stats_times_append [simp]: "stats_times (xs @ ys) = stats_times xs @ stats_times ys"
  by (simp add: stats_times_def)

lemma stats_times_Nil [simp]: "stats_times [] = []"
  by (simp add: stats_times_def)


lemma statusLoop_facts:
  "statusLoop c (stream a) rs st = Some (st', rs', evs) \<Longrightarrow>
     timeLastPrint st' = timeLastPrint st
     \<and> list_all (loop_event c (stream a) (direction a) (numElems a) (buffs a)) evs \<and> stats_times evs = []
     \<and> Print (Overflows 0) \<notin> set evs \<and> Print (Underflows 0) \<notin> set evs"
proof (induction rs arbitrary: st st' rs' evs)
  case Nil
  then show ?case by simp
next
  case (Cons ret rs)
  show ?case
  proof (cases "ret = SOAPY_SDR_OVERFLOW c \<or> ret = SOAPY_SDR_UNDERFLOW c \<or> ret = SOAPY_SDR_TIME_ERROR c")
    case False
    with Cons.prems show ?thesis by (auto simp: loop_event_def stats_times_def stats_time_def)
  next
    case True
    with Cons.prems obtain st0 evs0 where
      rec: "statusLoop c (stream a) rs st0 = Some (st', rs', evs0)"
      and st0: "timeLastPrint st0 = timeLastPrint st"
      and evs: "evs = ReadStreamStatus (stream a) # evs0"
      by (auto split: if_splits)
    from Cons.IH [OF rec] st0 evs show ?thesis
      by (auto simp: loop_event_def stats_times_def stats_time_def)
  qed
qed

lemma spinStep_facts:
  "spinStep st now = (st', evs) \<Longrightarrow>
     timeLastPrint st' = timeLastPrint st
     \<and> list_all (loop_event c strm dir n mem) evs \<and> stats_times evs = []
     \<and> Print (Overflows 0) \<notin> set evs \<and> Print (Underflows 0) \<notin> set evs"
  by (auto simp: spinStep_def loop_event_def stats_times_def stats_time_def split: if_splits)

lemma statusStep_facts:
  "statusStep c a status st now = Some (st', status', evs) \<Longrightarrow>
     timeLastPrint st' = timeLastPrint st
     \<and> list_all (loop_event c (stream a) (direction a) (numElems a) (buffs a)) evs \<and> stats_times evs = []
     \<and> Print (Overflows 0) \<notin> set evs \<and> Print (Underflows 0) \<notin> set evs"
  by (auto simp: statusStep_def dest!: statusLoop_facts split: if_splits)

lemma printStep_facts:
  "printStep a st now = (st', evs) \<Longrightarrow>
     list_all (loop_event c strm dir n mem) evs
     \<and> Print (Overflows 0) \<notin> set evs \<and> Print (Underflows 0) \<notin> set evs
     \<and> ((timeLastPrint st' = timeLastPrint st \<and> stats_times evs = [])
        \<or> (timeLastPrint st + 5000000000 < now \<and> timeLastPrint st' = now \<and> stats_times evs = [now]))"
  by (auto simp: printStep_def seconds_def Let_def loop_event_def stats_times_def stats_time_def
           split: if_splits)

lemma streamCall_Some:
  "streamCall c a rets = Some (ret, rets', call) \<Longrightarrow>
     list_all (loop_event c (stream a) (direction a) (numElems a) (buffs a)) call \<and> stats_times call = []
     \<and> Print (Overflows 0) \<notin> set call \<and> Print (Underflows 0) \<notin> set call
     \<and> set rets' \<subseteq> set rets \<and> (ret < 0 \<longrightarrow> ret \<in> set rets)"
  by (auto simp: streamCall_def loop_event_def stats_times_def stats_time_def
           split: if_splits list.splits)

lemma iteration_Continue:
  assumes "iteration c a rets clock status st = Continue st' rets' clock' status' evs"
  shows "list_all (loop_event c (stream a) (direction a) (numElems a) (buffs a)) evs
     \<and> Print (Overflows 0) \<notin> set evs \<and> Print (Underflows 0) \<notin> set evs
     \<and> set rets' \<subseteq> set rets
     \<and> ((timeLastPrint st' = timeLastPrint st \<and> stats_times evs = [])
        \<or> (timeLastPrint st + 5000000000 < timeLastPrint st' \<and> stats_times evs = [timeLastPrint st']))"
proof -
  from assms obtain ret rets0 call where sc: "streamCall c a rets = Some (ret, rets0, call)"
    by (auto simp: iteration_def split: option.splits)
  note f = streamCall_Some [OF sc]
  show ?thesis
  proof (cases "ret = SOAPY_SDR_TIMEOUT c \<or> ret = SOAPY_SDR_OVERFLOW c \<or> ret = SOAPY_SDR_UNDERFLOW c")
    case True
    with assms sc f show ?thesis by (auto simp: iteration_def split: if_splits)
  next
    case False
    with assms sc obtain now st1 spun st2 polled printed where
      "clock = now # clock'"
      and sp: "spinStep (st\<lparr>totalSamples := totalSamples st + word_of_int ret\<rparr>) now = (st1, spun)"
      and ss: "statusStep c a status st1 now = Some (st2, status', polled)"
      and ps: "printStep a st2 now = (st', printed)"
      and evs: "evs = call @ spun @ polled @ printed" and r: "rets' = rets0"
      by (auto simp: iteration_def split: if_splits list.splits prod.splits option.splits)
    from spinStep_facts [OF sp, of c "stream a" "direction a" "numElems a" "buffs a"] statusStep_facts [OF ss]
      printStep_facts [OF ps, of c "stream a" "direction a" "numElems a" "buffs a"] f evs r
    show ?thesis by auto
  qed
qed

lemma iteration_Break:
  assumes "iteration c a rets clock status st = Break ret st' evs"
  shows "list_all (loop_event c (stream a) (direction a) (numElems a) (buffs a)) evs
     \<and> Print (Overflows 0) \<notin> set evs \<and> Print (Underflows 0) \<notin> set evs
     \<and> stats_times evs = [] \<and> st' = st
     \<and> ret < 0 \<and> ret \<noteq> SOAPY_SDR_TIMEOUT c \<and> ret \<noteq> SOAPY_SDR_OVERFLOW c
     \<and> ret \<noteq> SOAPY_SDR_UNDERFLOW c \<and> ret \<in> set rets"
proof -
  from assms obtain r rets0 call where sc: "streamCall c a rets = Some (r, rets0, call)"
    by (auto simp: iteration_def split: option.splits)
  note f = streamCall_Some [OF sc]
  from assms sc have "r = ret \<and> evs = call @ [Print (UnexpectedStreamError ret)] \<and> st' = st
      \<and> ret < 0 \<and> ret \<noteq> SOAPY_SDR_TIMEOUT c \<and> ret \<noteq> SOAPY_SDR_OVERFLOW c \<and> ret \<noteq> SOAPY_SDR_UNDERFLOW c"
    by (auto simp: iteration_def split: if_splits list.splits prod.splits option.splits)
  with f show ?thesis by (auto simp: loop_event_def stats_times_def stats_time_def)
qed

lemma rateLoop_facts:
  "rateLoop c a flags rets clock status st = Some (reason, st', evs) \<Longrightarrow>
     list_all (loop_event c (stream a) (direction a) (numElems a) (buffs a)) evs
     \<and> Print (Overflows 0) \<notin> set evs \<and> Print (Underflows 0) \<notin> set evs
     \<and> sorted_wrt (\<lambda>t t'. t + 5000000000 < t') (timeLastPrint st # stats_times evs)
     \<and> ((reason = LoopDone \<and> (\<exists>n<length flags. flags ! n \<and> (\<forall>m<n. \<not> flags ! m)))
        \<or> (\<exists>ret. reason = StreamError ret \<and> ret < 0 \<and> ret \<noteq> SOAPY_SDR_TIMEOUT c
              \<and> ret \<noteq> SOAPY_SDR_OVERFLOW c \<and> ret \<noteq> SOAPY_SDR_UNDERFLOW c \<and> ret \<in> set rets))"
proof (induction flags arbitrary: rets clock status st reason st' evs)
  case Nil
  then show ?case by simp
next
  case (Cons flag flags)
  show ?case
  proof (cases flag)
    case True
    with Cons.prems show ?thesis by auto
  next
    case False
    note nd = this
    show ?thesis
    proof (cases "iteration c a rets clock status st")
      case Exhausted
      with Cons.prems nd show ?thesis by simp
    next
      case (Break ret st0 evs0)
      with Cons.prems nd have e: "reason = StreamError ret" "st' = st0" "evs = evs0" by auto
      from iteration_Break [OF Break] e show ?thesis by auto
    next
      case (Continue st0 rets0 clock0 status0 evs0)
      with Cons.prems nd obtain evs1 where
        rec: "rateLoop c a flags rets0 clock0 status0 st0 = Some (reason, st', evs1)"
        and evs: "evs = evs0 @ evs1" by auto
      note ih = Cons.IH [OF rec]
      note it = iteration_Continue [OF Continue]
      have s: "sorted_wrt (\<lambda>t t'. t + 5000000000 < t') (timeLastPrint st # stats_times evs)"
      proof (cases "stats_times evs0 = []")
        case True
        with it have "timeLastPrint st0 = timeLastPrint st" by auto
        with ih True evs show ?thesis by simp
      next
        case False
        with it have a: "timeLastPrint st + 5000000000 < timeLastPrint st0"
          and b: "stats_times evs0 = [timeLastPrint st0]" by auto
        from ih have c: "sorted_wrt (\<lambda>t t'. t + 5000000000 < t') (timeLastPrint st0 # stats_times evs1)" by simp
        then have "\<forall>t\<in>set (stats_times evs1). timeLastPrint st0 + 5000000000 < t" by simp
        with a have "\<forall>t\<in>set (stats_times evs1). timeLastPrint st + 5000000000 < t" by auto
        with a b c evs show ?thesis by simp
      qed
      have r: "(reason = LoopDone \<and> (\<exists>n<length (flag # flags). (flag # flags) ! n \<and> (\<forall>m<n. \<not> (flag # flags) ! m)))
        \<or> (\<exists>ret. reason = StreamError ret \<and> ret < 0 \<and> ret \<noteq> SOAPY_SDR_TIMEOUT c
              \<and> ret \<noteq> SOAPY_SDR_OVERFLOW c \<and> ret \<noteq> SOAPY_SDR_UNDERFLOW c \<and> ret \<in> set rets)"
      proof (cases "reason = LoopDone")
        case True
        with ih obtain n where n: "n < length flags" "flags ! n" "\<forall>m<n. \<not> flags ! m" by auto
        have "Suc n < length (flag # flags) \<and> (flag # flags) ! Suc n \<and> (\<forall>m<Suc n. \<not> (flag # flags) ! m)"
          using n nd by (auto simp: less_Suc_eq_0_disj)
        with True show ?thesis by blast
      next
        case False
        with ih it show ?thesis by auto
      qed
      from ih it evs s r show ?thesis by auto
    qed
  qed
qed

lemma streamLoop_facts:
  assumes "streamLoop c env strm d nC eS mem = Some (reason, st, evs)"
  shows "\<exists>a loop t0 t1 t2 t3 clock.
      clockReads env = t0 # t1 # t2 # t3 # clock
      \<and> a = \<lparr>stream = strm, direction = d, numChans = nC, elemSize = eS,
              numElems = streamMTU env, buffs = mem, startTime = t0\<rparr>
      \<and> rateLoop c a (loopDoneReads env) (streamRets env) clock (statusRets env) (initialState t1 t2 t3)
           = Some (reason, st, loop)
      \<and> evs = [Print (StartingStream d), ActivateStream strm] @ loop"
  using assms
  by (auto simp: streamLoop_def split: list.splits)

lemma sample_prints_facts:
  "list_all (\<lambda>e. \<exists>m. e = Print m \<and> (\<forall>n r b d. m \<noteq> Stats n r b d) \<and> (\<forall>w. m \<noteq> Overflows w) \<and> (\<forall>w. m \<noteq> Underflows w))
     (concat (map (\<lambda>i. [Print (DoubleSample i), Print (FloatSample i)]) xs))"
  by (induction xs) auto

lemma sample_prints_stats [simp]:
  "stats_times (concat (map (\<lambda>i. [Print (DoubleSample i), Print (FloatSample i)]) xs)) = []"
  by (induction xs) (auto simp: stats_times_def stats_time_def)

lemma sample_prints_calls [simp]:
  "calls_on s (concat (map (\<lambda>i. [Print (DoubleSample i), Print (FloatSample i)]) xs)) = []"
  by (induction xs) (auto simp: calls_on_def)

lemma sample_prints_counts [simp]:
  "Print (Overflows w) \<notin> set (concat (map (\<lambda>i. [Print (DoubleSample i), Print (FloatSample i)]) xs))"
  "Print (Underflows w) \<notin> set (concat (map (\<lambda>i. [Print (DoubleSample i), Print (FloatSample i)]) xs))"
  by auto

lemma stats_sorted_shift:
  "sorted_wrt (\<lambda>t t'. t + 5000000000 < t') (t0 # ts) \<Longrightarrow> sorted_wrt (\<lambda>t t'. t + (5000000000::int) < t') ts"
  by simp

lemma thread_trace:
  assumes "runRateTestStreamLoop c env strm d nC eS f r = Inr tr"
  shows "\<exists>mem loop reason st.
      generateSamples 0 (streamMTU env) (allocate nC eS (streamMTU env)) = Some mem
      \<and> list_all (loop_event c strm d (streamMTU env) mem) loop
      \<and> streamLoop c env strm d nC eS mem = Some (reason, st, [Print (StartingStream d), ActivateStream strm] @ loop)
      \<and> tr = [GetStreamMTU strm, Print Omega]
             @ concat (map (\<lambda>i. [Print (DoubleSample i), Print (FloatSample i)]) [0..<streamMTU env])
             @ [Print (StartingStream d), ActivateStream strm] @ loop
             @ [Print (Deactivate d), DeactivateStream strm]"
proof -
  from assms obtain mem reason st evs where
    g: "generateSamples 0 (streamMTU env) (allocate nC eS (streamMTU env)) = Some mem"
    and sl: "streamLoop c env strm d nC eS mem = Some (reason, st, evs)"
    and tr: "tr = [GetStreamMTU strm, Print Omega]
             @ concat (map (\<lambda>i. [Print (DoubleSample i), Print (FloatSample i)]) [0..<streamMTU env])
             @ evs @ [Print (Deactivate d), DeactivateStream strm]"
    by (auto simp: runRateTestStreamLoop_def split: option.splits)
  from streamLoop_facts [OF sl] obtain a loop t0 t1 t2 t3 clock where
    a: "a = \<lparr>stream = strm, direction = d, numChans = nC, elemSize = eS,
              numElems = streamMTU env, buffs = mem, startTime = t0\<rparr>"
    and rl: "rateLoop c a (loopDoneReads env) (streamRets env) clock (statusRets env) (initialState t1 t2 t3)
           = Some (reason, st, loop)"
    and evs: "evs = [Print (StartingStream d), ActivateStream strm] @ loop" by blast
  from rateLoop_facts [OF rl] have "list_all (loop_event c (stream a) (direction a) (numElems a) (buffs a)) loop" by simp
  with g a sl evs tr show ?thesis by auto
qed

lemma thread_trace_part_000:
  assumes "runRateTestStreamLoop_part_000 c env strm d nC eS = Inr tr"
  shows "\<exists>loop reason st.
      list_all (loop_event c strm d (streamMTU env) (allocate nC eS (streamMTU env))) loop
      \<and> streamLoop c env strm d nC eS (allocate nC eS (streamMTU env))
           = Some (reason, st, [Print (StartingStream d), ActivateStream strm] @ loop)
      \<and> tr = [GetStreamMTU strm, Print (StartingStream d), ActivateStream strm] @ loop
             @ [DeactivateStream strm]"
proof -
  from assms obtain reason st evs where
    sl: "streamLoop c env strm d nC eS (allocate nC eS (streamMTU env)) = Some (reason, st, evs)"
    and tr: "tr = [GetStreamMTU strm] @ evs @ [DeactivateStream strm]"
    by (auto simp: runRateTestStreamLoop_part_000_def split: option.splits)
  from streamLoop_facts [OF sl] obtain a loop t0 t1 t2 t3 clock where
    a: "a = \<lparr>stream = strm, direction = d, numChans = nC, elemSize = eS,
              numElems = streamMTU env, buffs = allocate nC eS (streamMTU env), startTime = t0\<rparr>"
    and rl: "rateLoop c a (loopDoneReads env) (streamRets env) clock (statusRets env) (initialState t1 t2 t3)
           = Some (reason, st, loop)"
    and evs: "evs = [Print (StartingStream d), ActivateStream strm] @ loop" by blast
  from rateLoop_facts [OF rl] have "list_all (loop_event c (stream a) (direction a) (numElems a) (buffs a)) loop" by simp
  with a sl evs tr show ?thesis by auto
qed




lemma store_sample_Some:
  "store_sample m ch i = Some m' \<Longrightarrow>
     ch < length m \<and> i + 8 \<le> length (m ! ch)
     \<and> m' = m[ch := (m ! ch)[i := Computed SampleRe i 0, i + 1 := Computed SampleRe i 1,
                             i + 2 := Computed SampleRe i 2, i + 3 := Computed SampleRe i 3,
                             i + 4 := Computed SampleIm i 0, i + 5 := Computed SampleIm i 1,
                             i + 6 := Computed SampleIm i 2, i + 7 := Computed SampleIm i 3]]"
  by (auto simp: store_sample_def store_float_def ac_simps split: option.splits if_splits)

lemma generateSamples_step:
  "generateSamples i n m = Some m' \<Longrightarrow> i < n \<Longrightarrow>
     \<exists>m1 m2. store_sample m 0 i = Some m1 \<and> store_sample m1 1 i = Some m2
        \<and> generateSamples (Suc i) n m2 = Some m'"
  by (subst (asm) generateSamples.simps) (auto split: option.splits)

lemma generateSamples_untouched:
  "generateSamples i n m = Some m' \<Longrightarrow> 2 \<le> ch \<Longrightarrow> m' ! ch = m ! ch"
proof (induction i n m rule: generateSamples.induct)
  case (1 i numElems buffMem)
  show ?case
  proof (cases "i < numElems")
    case False
    with "1.prems" show ?thesis by (simp add: generateSamples.simps [of i numElems buffMem])
  next
    case True
    from generateSamples_step [OF "1.prems"(1) True] obtain m1 m2 where
      s: "store_sample buffMem 0 i = Some m1" "store_sample m1 1 i = Some m2"
      and g: "generateSamples (Suc i) numElems m2 = Some m'" by blast
    from "1.IH" [OF True s g "1.prems"(2)] have "m' ! ch = m2 ! ch" .
    also have "m2 ! ch = m1 ! ch" using store_sample_Some [OF s(2)] "1.prems"(2) by auto
    also have "m1 ! ch = buffMem ! ch" using store_sample_Some [OF s(1)] "1.prems"(2) by auto
    finally show ?thesis .
  qed
qed

lemma generateSamples_last:
  "generateSamples i n m = Some m' \<Longrightarrow> i < n \<Longrightarrow>
     m' ! 0 ! (n + 6) = Computed SampleIm (n - 1) 3 \<and> m' ! 1 ! (n + 6) = Computed SampleIm (n - 1) 3"
proof (induction i n m rule: generateSamples.induct)
  case (1 i numElems buffMem)
  from generateSamples_step [OF "1.prems"] obtain m1 m2 where
    s: "store_sample buffMem 0 i = Some m1" "store_sample m1 1 i = Some m2"
    and g: "generateSamples (Suc i) numElems m2 = Some m'" by blast
  show ?case
  proof (cases "Suc i < numElems")
    case True
    from "1.IH" [OF "1.prems"(2) s g True] show ?thesis .
  next
    case False
    with "1.prems"(2) have n: "numElems = Suc i" by simp
    with g have m': "m' = m2" by (simp add: generateSamples.simps [of "Suc i" "Suc i" m2])
    note a = store_sample_Some [OF s(1)]
    note b = store_sample_Some [OF s(2)]
    from a have l1: "length m1 = length buffMem" by simp
    from b l1 have two: "1 < length buffMem" by simp
    have "m2 ! 1 ! (i + 7) = Computed SampleIm i 3" using b by simp
    moreover have "m2 ! 0 = m1 ! 0" using b by simp
    moreover have "m1 ! 0 ! (i + 7) = Computed SampleIm i 3" using a by simp
    ultimately show ?thesis using n m' by (simp add: ac_simps)
  qed
qed











text \<open>C10 at the channel string "0, 1" (two pairs) and at the empty string (no pair).\<close>

theorem channels_nonempty_witness:
  "buildChannels (\<lambda>s. if s = ''0'' then Some 0 else if s = ''1'' then Some 1 else None)
     [(''0'', ''''), (''1'', '''')] = Some [0, 1]
   \<and> [0, 1] \<noteq> ([] :: nat list) \<and> front [0, 1 :: nat] = Some 0
   \<and> buildChannels (\<lambda>s. None) [] = Some [0]"
  using channels_nonempty
    [of "\<lambda>s. if s = ''0'' then Some 0 else if s = ''1'' then Some 1 else None"
        "[(''0'', ''''), (''1'', '''')]" "[0, 1]"]
  by (simp add: buildChannels_def size_t_of_int_def front_def)



text \<open>
  C9, as amended. In src/SoapyRateTest.cpp, when the sample loop runs at least once
  (\<open>numElems \<ge> 1\<close>), all its buffer accesses are within bounds exactly when
  \<open>numChans \<ge> 2\<close> and \<open>numElems + 7 \<le> elemSize * numElems\<close> (the two \<open>float\<close> stores at
  byte offset \<open>i\<close> need eight bytes); so with \<open>numChans = 1\<close> the lookup \<open>buffMem[1]\<close>
  fails and \<open>runRateTestStreamLoop\<close> runs out of bounds. With \<open>numElems = 0\<close> the loop body
  does not run and there is no access at all, whatever \<open>numChans\<close> is.
\<close>

theorem sample_loop_bounds:
  "(0 < n \<longrightarrow>
      (generateSamples 0 n (allocate nChans eSize n) \<noteq> None) = (2 \<le> nChans \<and> n + 7 \<le> eSize * n))
   \<and> (0 < n \<longrightarrow> generateSamples 0 n (allocate 1 eSize n) = None)
   \<and> (length m = 1 \<longrightarrow> store_sample m 1 i = None)
   \<and> (0 < streamMTU env \<longrightarrow> runRateTestStreamLoop c env strm dir 1 eSize f r = Inl OutOfBounds)
   \<and> generateSamples 0 0 (allocate nChans eSize 0) = Some (allocate nChans eSize 0)"
proof -
  have a: "0 < n \<longrightarrow>
      (generateSamples 0 n (allocate nChans eSize n) \<noteq> None) = (2 \<le> nChans \<and> n + 7 \<le> eSize * n)"
    using generateSamples_allocate [of n nChans eSize] by auto
  have b: "0 < k \<longrightarrow> generateSamples 0 k (allocate 1 eSize k) = None" for k
    using generateSamples_allocate [of k 1 eSize] by auto
  have s: "length m = 1 \<longrightarrow> store_sample m 1 i = None"
    by (simp add: store_sample_def)
  have t: "0 < streamMTU env \<longrightarrow> runRateTestStreamLoop c env strm dir 1 eSize f r = Inl OutOfBounds"
    using b [of "streamMTU env"] by (simp add: runRateTestStreamLoop_def)
  have z: "generateSamples 0 0 (allocate nChans eSize 0) = Some (allocate nChans eSize 0)"
    by (simp add: generateSamples.simps [of 0 0])
  from a b [of n] s t z show ?thesis by blast
qed

text \<open>C9 as amended, at an MTU of 1 and 8-byte elements, with two channels and with one.\<close>

theorem sample_loop_bounds_witness:
  "generateSamples 0 1 (allocate 2 8 1) \<noteq> None
   \<and> generateSamples 0 1 (allocate 1 8 1) = None
   \<and> store_sample [[Allocated, Allocated, Allocated, Allocated, Allocated, Allocated, Allocated, Allocated]] 1 0 = None
   \<and> runRateTestStreamLoop soapy_headers
        \<lparr>streamMTU = 1, loopDoneReads = [True], streamRets = [], clockReads = [0, 0, 0, 0], statusRets = []\<rparr>
        20 0 1 8 1 1 = Inl OutOfBounds"
  using sample_loop_bounds
    [of 1 2 8 "[[Allocated, Allocated, Allocated, Allocated, Allocated, Allocated, Allocated, Allocated]]" 0
        "\<lparr>streamMTU = 1, loopDoneReads = [True], streamRets = [], clockReads = [0, 0, 0, 0], statusRets = []\<rparr>"
        soapy_headers 20 0 1 1]
  by simp

text \<open>C9 as stated fails for an MTU of 0: with one channel every access is within
  bounds, since there is none, and \<open>runRateTestStreamLoop\<close> returns.\<close>

theorem sample_loop_bounds_counterexample:
  "generateSamples 0 0 (allocate 1 8 0) = Some (allocate 1 8 0) \<and> \<not> (2 :: nat) \<le> 1
   \<and> runRateTestStreamLoop soapy_headers
        \<lparr>streamMTU = 0, loopDoneReads = [True], streamRets = [], clockReads = [0, 0, 0, 0], statusRets = []\<rparr>
        20 0 1 8 1 1
      = Inr [GetStreamMTU 20, Print Omega, Print (StartingStream 0), ActivateStream 20,
             Print (Deactivate 0), DeactivateStream 20]"
  by (simp add: generateSamples.simps [of 0 0] runRateTestStreamLoop_def streamLoop_def)

text \<open>
  C1, as amended. In part_000 every buffer given to \<open>writeStream\<close> is as allocated. In
  src/SoapyRateTest.cpp the buffers given to \<open>writeStream\<close> are the allocated buffers
  after the sample loop has run over them: the buffers of channels 2 and above are as
  allocated, and when the MTU is positive the buffers of channels 0 and 1 hold bytes of
  computed samples, so they are not as allocated. In both files the stream loop itself
  writes nothing into the buffers: every \<open>writeStream\<close> call of a run is given the same
  contents.
\<close>

theorem stream_buffers:
  "(runRateTestStreamLoop_part_000 c env strm dir nC eS = Inr tr0 \<longrightarrow>
      (\<forall>s b n. WriteStream s b n \<in> set tr0 \<longrightarrow> b = allocate nC eS (streamMTU env)))
   \<and> (runRateTestStreamLoop c env strm dir nC eS f r = Inr tr \<longrightarrow>
      (\<exists>mem. generateSamples 0 (streamMTU env) (allocate nC eS (streamMTU env)) = Some mem
         \<and> (\<forall>s b n. WriteStream s b n \<in> set tr \<longrightarrow> b = mem)
         \<and> (\<forall>ch. 2 \<le> ch \<longrightarrow> ch < nC \<longrightarrow> mem ! ch = replicate (eS * streamMTU env) Allocated)
         \<and> (0 < streamMTU env \<longrightarrow>
              mem ! 0 ! (streamMTU env + 6) = Computed SampleIm (streamMTU env - 1) 3
              \<and> mem ! 1 ! (streamMTU env + 6) = Computed SampleIm (streamMTU env - 1) 3
              \<and> mem \<noteq> allocate nC eS (streamMTU env))))"
proof -
  have p0: "runRateTestStreamLoop_part_000 c env strm dir nC eS = Inr tr0 \<longrightarrow>
      (\<forall>s b n. WriteStream s b n \<in> set tr0 \<longrightarrow> b = allocate nC eS (streamMTU env))"
  proof
    assume "runRateTestStreamLoop_part_000 c env strm dir nC eS = Inr tr0"
    from thread_trace_part_000 [OF this] obtain loop where
      l: "list_all (loop_event c strm dir (streamMTU env) (allocate nC eS (streamMTU env))) loop"
      and tr: "tr0 = [GetStreamMTU strm, Print (StartingStream dir), ActivateStream strm] @ loop
             @ [DeactivateStream strm]" by auto
    show "\<forall>s b n. WriteStream s b n \<in> set tr0 \<longrightarrow> b = allocate nC eS (streamMTU env)"
      using l tr by (auto simp: list_all_iff loop_event_def)
  qed
  have p1: "runRateTestStreamLoop c env strm dir nC eS f r = Inr tr \<longrightarrow>
      (\<exists>mem. generateSamples 0 (streamMTU env) (allocate nC eS (streamMTU env)) = Some mem
         \<and> (\<forall>s b n. WriteStream s b n \<in> set tr \<longrightarrow> b = mem)
         \<and> (\<forall>ch. 2 \<le> ch \<longrightarrow> ch < nC \<longrightarrow> mem ! ch = replicate (eS * streamMTU env) Allocated)
         \<and> (0 < streamMTU env \<longrightarrow>
              mem ! 0 ! (streamMTU env + 6) = Computed SampleIm (streamMTU env - 1) 3
              \<and> mem ! 1 ! (streamMTU env + 6) = Computed SampleIm (streamMTU env - 1) 3
              \<and> mem \<noteq> allocate nC eS (streamMTU env)))"
  proof
    assume "runRateTestStreamLoop c env strm dir nC eS f r = Inr tr"
    from thread_trace [OF this] obtain mem loop where
      g: "generateSamples 0 (streamMTU env) (allocate nC eS (streamMTU env)) = Some mem"
      and l: "list_all (loop_event c strm dir (streamMTU env) mem) loop"
      and tr: "tr = [GetStreamMTU strm, Print Omega]
             @ concat (map (\<lambda>i. [Print (DoubleSample i), Print (FloatSample i)]) [0..<streamMTU env])
             @ [Print (StartingStream dir), ActivateStream strm] @ loop
             @ [Print (Deactivate dir), DeactivateStream strm]" by auto
    have w: "\<forall>s b n. WriteStream s b n \<in> set tr \<longrightarrow> b = mem"
      using l tr by (auto simp: list_all_iff loop_event_def)
    have u: "\<forall>ch. 2 \<le> ch \<longrightarrow> ch < nC \<longrightarrow> mem ! ch = replicate (eS * streamMTU env) Allocated"
      using generateSamples_untouched [OF g] by (simp add: allocate_def)
    have v: "0 < streamMTU env \<longrightarrow>
              mem ! 0 ! (streamMTU env + 6) = Computed SampleIm (streamMTU env - 1) 3
              \<and> mem ! 1 ! (streamMTU env + 6) = Computed SampleIm (streamMTU env - 1) 3
              \<and> mem \<noteq> allocate nC eS (streamMTU env)"
    proof
      assume pos: "0 < streamMTU env"
      from generateSamples_last [OF g pos] have
        c0: "mem ! 0 ! (streamMTU env + 6) = Computed SampleIm (streamMTU env - 1) 3"
        and c1: "mem ! 1 ! (streamMTU env + 6) = Computed SampleIm (streamMTU env - 1) 3" by simp_all
      from g pos have "2 \<le> nC \<and> streamMTU env + 7 \<le> eS * streamMTU env"
        using generateSamples_allocate [of "streamMTU env" nC eS] by auto
      then have "allocate nC eS (streamMTU env) ! 0 ! (streamMTU env + 6) = Allocated"
        by (simp add: allocate_def)
      with c0 have "mem \<noteq> allocate nC eS (streamMTU env)" by auto
      with c0 c1 show "mem ! 0 ! (streamMTU env + 6) = Computed SampleIm (streamMTU env - 1) 3
              \<and> mem ! 1 ! (streamMTU env + 6) = Computed SampleIm (streamMTU env - 1) 3
              \<and> mem \<noteq> allocate nC eS (streamMTU env)" by simp
    qed
    show "\<exists>mem. generateSamples 0 (streamMTU env) (allocate nC eS (streamMTU env)) = Some mem
         \<and> (\<forall>s b n. WriteStream s b n \<in> set tr \<longrightarrow> b = mem)
         \<and> (\<forall>ch. 2 \<le> ch \<longrightarrow> ch < nC \<longrightarrow> mem ! ch = replicate (eS * streamMTU env) Allocated)
         \<and> (0 < streamMTU env \<longrightarrow>
              mem ! 0 ! (streamMTU env + 6) = Computed SampleIm (streamMTU env - 1) 3
              \<and> mem ! 1 ! (streamMTU env + 6) = Computed SampleIm (streamMTU env - 1) 3
              \<and> mem \<noteq> allocate nC eS (streamMTU env))"
      by (rule exI [of _ mem]) (rule conjI g w u v)+
  qed
  from p0 p1 show ?thesis by blast
qed

text \<open>C1 as stated fails in src/SoapyRateTest.cpp: with two channels, 8-byte elements and
  an MTU of 1, the buffers given to \<open>writeStream\<close> hold computed sample bytes.\<close>

theorem stream_buffers_counterexample:
  "runRateTestStreamLoop soapy_headers
     \<lparr>streamMTU = 1, loopDoneReads = [False, True], streamRets = [- 1], clockReads = [0, 0, 0, 0], statusRets = []\<rparr>
     20 0 2 8 1 1
   = Inr [GetStreamMTU 20, Print Omega, Print (DoubleSample 0), Print (FloatSample 0),
          Print (StartingStream 0), ActivateStream 20,
          WriteStream 20
            [[Computed SampleRe 0 0, Computed SampleRe 0 1, Computed SampleRe 0 2, Computed SampleRe 0 3,
              Computed SampleIm 0 0, Computed SampleIm 0 1, Computed SampleIm 0 2, Computed SampleIm 0 3],
             [Computed SampleRe 0 0, Computed SampleRe 0 1, Computed SampleRe 0 2, Computed SampleRe 0 3,
              Computed SampleIm 0 0, Computed SampleIm 0 1, Computed SampleIm 0 2, Computed SampleIm 0 3]] 1,
          Print (Deactivate 0), DeactivateStream 20]
   \<and> [[Computed SampleRe 0 0, Computed SampleRe 0 1, Computed SampleRe 0 2, Computed SampleRe 0 3,
        Computed SampleIm 0 0, Computed SampleIm 0 1, Computed SampleIm 0 2, Computed SampleIm 0 3],
       [Computed SampleRe 0 0, Computed SampleRe 0 1, Computed SampleRe 0 2, Computed SampleRe 0 3,
        Computed SampleIm 0 0, Computed SampleIm 0 1, Computed SampleIm 0 2, Computed SampleIm 0 3]]
     \<noteq> allocate 2 8 1"
  by code_simp

text \<open>C1 as amended, on the same run in both files.\<close>

theorem stream_buffers_witness:
  "runRateTestStreamLoop_part_000 soapy_headers
     \<lparr>streamMTU = 1, loopDoneReads = [False, True], streamRets = [- 1], clockReads = [0, 0, 0, 0], statusRets = []\<rparr>
     20 0 2 8
   = Inr [GetStreamMTU 20, Print (StartingStream 0), ActivateStream 20,
          WriteStream 20 (allocate 2 8 1) 1, DeactivateStream 20]
   \<and> (\<exists>mem. generateSamples 0 1 (allocate 2 8 1) = Some mem \<and> mem ! 0 ! 7 = Computed SampleIm 0 3)"
proof -
  have a: "runRateTestStreamLoop_part_000 soapy_headers
     \<lparr>streamMTU = 1, loopDoneReads = [False, True], streamRets = [- 1], clockReads = [0, 0, 0, 0], statusRets = []\<rparr>
     20 0 2 8
   = Inr [GetStreamMTU 20, Print (StartingStream 0), ActivateStream 20,
          WriteStream 20 (allocate 2 8 1) 1, DeactivateStream 20]"
    by code_simp
  have b: "runRateTestStreamLoop soapy_headers
     \<lparr>streamMTU = 1, loopDoneReads = [False, True], streamRets = [- 1], clockReads = [0, 0, 0, 0], statusRets = []\<rparr>
     20 0 2 8 1 1
   = Inr [GetStreamMTU 20, Print Omega, Print (DoubleSample 0), Print (FloatSample 0),
          Print (StartingStream 0), ActivateStream 20,
          WriteStream 20
            [[Computed SampleRe 0 0, Computed SampleRe 0 1, Computed SampleRe 0 2, Computed SampleRe 0 3,
              Computed SampleIm 0 0, Computed SampleIm 0 1, Computed SampleIm 0 2, Computed SampleIm 0 3],
             [Computed SampleRe 0 0, Computed SampleRe 0 1, Computed SampleRe 0 2, Computed SampleRe 0 3,
              Computed SampleIm 0 0, Computed SampleIm 0 1, Computed SampleIm 0 2, Computed SampleIm 0 3]] 1,
          Print (Deactivate 0), DeactivateStream 20]"
    by code_simp
  from stream_buffers [THEN conjunct2, THEN mp, OF b] obtain mem where
    "generateSamples 0 1 (allocate 2 8 1) = Some mem" "mem ! 0 ! 7 = Computed SampleIm 0 3"
    by auto
  with a show ?thesis by blast
qed

lemma exec_Do_plain:
  "\<not> is_thread_op e \<Longrightarrow>
     exec th body (Do e # ss) j tr jd =
       (if may_raise e \<and> th (length tr)
        then (if j = [] then Thrown else Terminated, tr @ [e], jd)
        else exec th body ss j (tr @ [e]) jd)"
  by (cases e) auto

lemma exec_Do_Spawn:
  "exec th body (Do (Spawn t) # ss) j tr jd =
     (if th (length tr)
      then (if j = [] then Thrown else Terminated, tr @ [Spawn t], jd)
      else exec th body ss (j @ [t]) (tr @ [Spawn t]) jd)"
  by simp

lemma exec_Do_Join:
  "exec th body (Do (Join t) # ss) j tr jd =
     (if th (length tr) \<or> t \<notin> set j
      then (if j = [] then Thrown else Terminated, tr @ [Join t], jd)
      else (case body t of
              Inl NoReturn \<Rightarrow> (Blocked, tr @ [Join t], jd)
            | Inl OutOfBounds \<Rightarrow> (Undefined, tr @ [Join t], jd)
            | Inr calls \<Rightarrow> exec th body ss (removeAll t j) (tr @ [Join t]) (jd @ [(t, calls)])))"
  by simp

declare exec.simps(4) [simp del]

lemma exec_plain_quiet:
  "list_all (\<lambda>e. \<not> is_thread_op e) evs \<Longrightarrow> \<forall>n. \<not> th n \<Longrightarrow>
     exec th body (map Do evs @ ss) j tr jd = exec th body ss j (tr @ evs) jd"
  by (induction evs arbitrary: tr) (simp_all add: exec_Do_plain)

lemma exec_plain:
  "list_all (\<lambda>e. \<not> is_thread_op e) evs \<Longrightarrow>
     exec th body (map Do evs @ ss) j tr jd = exec th body ss j (tr @ evs) jd
     \<or> (\<exists>k<length evs. exec th body (map Do evs @ ss) j tr jd
            = (if j = [] then Thrown else Terminated, tr @ take (Suc k) evs, jd))"
proof (induction evs arbitrary: tr)
  case Nil
  then show ?case by simp
next
  case (Cons e evs)
  then have p: "\<not> is_thread_op e" and ps: "list_all (\<lambda>e. \<not> is_thread_op e) evs" by simp_all
  show ?case
  proof (cases "may_raise e \<and> th (length tr)")
    case True
    then have "exec th body (map Do (e # evs) @ ss) j tr jd
        = (if j = [] then Thrown else Terminated, tr @ take (Suc 0) (e # evs), jd)"
      using p by (simp add: exec_Do_plain)
    then show ?thesis by blast
  next
    case False
    then have s: "exec th body (map Do (e # evs) @ ss) j tr jd
        = exec th body (map Do evs @ ss) j (tr @ [e]) jd"
      using p by (auto simp: exec_Do_plain)
    from Cons.IH [OF ps, of "tr @ [e]"] show ?thesis
    proof
      assume "exec th body (map Do evs @ ss) j (tr @ [e]) jd = exec th body ss j ((tr @ [e]) @ evs) jd"
      with s show ?thesis by simp
    next
      assume "\<exists>k<length evs. exec th body (map Do evs @ ss) j (tr @ [e]) jd
            = (if j = [] then Thrown else Terminated, (tr @ [e]) @ take (Suc k) evs, jd)"
      then obtain k where k: "k < length evs"
        "exec th body (map Do evs @ ss) j (tr @ [e]) jd
            = (if j = [] then Thrown else Terminated, (tr @ [e]) @ take (Suc k) evs, jd)" by blast
      with s have "Suc k < length (e # evs) \<and> exec th body (map Do (e # evs) @ ss) j tr jd
            = (if j = [] then Thrown else Terminated, tr @ take (Suc (Suc k)) (e # evs), jd)" by simp
      then show ?thesis by blast
    qed
  qed
qed

lemma exec_extends:
  "\<exists>more. fst (snd (exec th body ss j tr jd)) = tr @ more \<and> set more \<subseteq> {e. Do e \<in> set ss}"
proof (induction ss arbitrary: j tr jd)
  case Nil
  then show ?case by simp
next
  case (Cons s ss)
  show ?case
  proof (cases s)
    case Raise
    then show ?thesis by simp
  next
    case UndefinedBehaviour
    then show ?thesis by simp
  next
    case (Do e)
    have step: "\<exists>more. fst (snd (exec th body ss j' (tr @ [e]) jd')) = tr @ more
        \<and> set more \<subseteq> {x. Do x \<in> set (Do e # ss)}" for j' jd'
    proof -
      from Cons.IH [of j' "tr @ [e]" jd'] obtain more where
        "fst (snd (exec th body ss j' (tr @ [e]) jd')) = (tr @ [e]) @ more"
        "set more \<subseteq> {x. Do x \<in> set ss}" by blast
      then have "fst (snd (exec th body ss j' (tr @ [e]) jd')) = tr @ (e # more)
        \<and> set (e # more) \<subseteq> {x. Do x \<in> set (Do e # ss)}" by auto
      then show ?thesis by blast
    qed
    have stop: "\<exists>more. tr @ [e] = tr @ more \<and> set more \<subseteq> {x. Do x \<in> set (Do e # ss)}"
      by (rule exI [of _ "[e]"]) simp
    show ?thesis
    proof (cases "may_raise e \<and> th (length tr)")
      case True
      with Do stop show ?thesis by (cases "is_thread_op e") (auto simp: exec_Do_plain exec_Do_Spawn exec_Do_Join elim!: is_thread_op.elims)
    next
      case False
      note nr = this
      show ?thesis
      proof (cases "is_thread_op e")
        case False
        with nr Do step [of j jd] show ?thesis by (simp add: exec_Do_plain)
      next
        case True
        then consider t where "e = Spawn t" | t where "e = Join t" by (cases e) auto
        then show ?thesis
        proof cases
          case 1
          with nr Do step [of "j @ [t]" jd] show ?thesis by (simp add: exec_Do_Spawn)
        next
          case 2
          show ?thesis
          proof (cases "t \<in> set j")
            case False
            with 2 nr Do stop show ?thesis by (simp add: exec_Do_Join)
          next
            case True
            show ?thesis
            proof (cases "body t")
              case (Inl flt)
              with 2 nr Do True stop show ?thesis by (cases flt) (simp_all add: exec_Do_Join)
            next
              case (Inr calls)
              with 2 nr Do True step [of "removeAll t j" "jd @ [(t, calls)]"] show ?thesis by (simp add: exec_Do_Join)
            qed
          qed
        qed
      qed
    qed
  qed
qed

lemma buildChannels_nonempty: "buildChannels toInt kwargs = Some channels \<Longrightarrow> channels \<noteq> []"
  by (auto simp: buildChannels_def split: if_splits)

lemma nativeFormatStmt_calls:
  "channels \<noteq> [] \<Longrightarrow> nativeFormatStmt c formatStr channels = map Do (nativeFormatCall c formatStr channels)"
  by (cases channels) (simp_all add: nativeFormatStmt_def nativeFormatCall_def front_def)

lemma nativeFormatCall_plain [simp]:
  "list_all (\<lambda>e. \<not> is_thread_op e) (nativeFormatCall c formatStr channels)"
  "list_all (\<lambda>e. \<not> is_setup e) (nativeFormatCall c formatStr channels)"
  "list_all (\<lambda>e. stream_of e = None) (nativeFormatCall c formatStr channels)"
  "Print m \<notin> set (nativeFormatCall c formatStr channels)"
  by (cases "formatStr = []"; cases "front channels"; simp add: nativeFormatCall_def)+

lemma configure_plain [simp]:
  "list_all (\<lambda>e. \<not> is_thread_op e)
     (concat (map (configureChannel c frequency bandwidth sampleRate rxGain txGain) channels))"
  "list_all (\<lambda>e. \<not> is_setup e)
     (concat (map (configureChannel c frequency bandwidth sampleRate rxGain txGain) channels))"
  "list_all (\<lambda>e. stream_of e = None)
     (concat (map (configureChannel c frequency bandwidth sampleRate rxGain txGain) channels))"
  "Print m \<notin> set (concat (map (configureChannel c frequency bandwidth sampleRate rxGain txGain) channels))"
  by (auto simp: list_all_iff configureChannel_def)

lemma configure_part_000_plain [simp]:
  "list_all (\<lambda>e. \<not> is_thread_op e)
     (concat (map (configureChannel_part_000 c frequency sampleRate) channels))"
  "list_all (\<lambda>e. \<not> is_setup e)
     (concat (map (configureChannel_part_000 c frequency sampleRate) channels))"
  "list_all (\<lambda>e. stream_of e = None)
     (concat (map (configureChannel_part_000 c frequency sampleRate) channels))"
  "Print m \<notin> set (concat (map (configureChannel_part_000 c frequency sampleRate) channels))"
  by (auto simp: list_all_iff configureChannel_part_000_def)

lemma rate_test_completes:
  assumes nt: "\<forall>n. \<not> throws env n"
    and ch: "buildChannels (stoi env) (KwargsFromString env channelStr) = Some channels"
    and rx: "threadBody c env frequency sampleRate formatStr channels RxThread = Inr rxCalls"
    and tx: "threadBody c env frequency sampleRate formatStr channels TxThread = Inr txCalls"
  shows "SoapySDRRateTest c env argStr frequency bandwidth sampleRate rxGain txGain formatStr channelStr
    = \<lparr>outcome = Returns EXIT_FAILURE,
       trace = Make argStr
         # concat (map (configureChannel c frequency bandwidth sampleRate rxGain txGain) channels)
         @ nativeFormatCall c formatStr channels
         @ [SetupStream (SOAPY_SDR_RX c) (streamFormat c env formatStr channels) channels
              (setupStream env (SOAPY_SDR_RX c) (streamFormat c env formatStr channels) channels)]
         @ nativeFormatCall c formatStr channels
         @ [SetupStream (SOAPY_SDR_TX c) (streamFormat c env formatStr channels) channels
              (setupStream env (SOAPY_SDR_TX c) (streamFormat c env formatStr channels) channels),
            Print (Formats (streamFormat c env formatStr channels) (streamFormat c env formatStr channels)),
            Print (NumChannels (length channels)),
            Print (ElementSizes (formatToSize env (streamFormat c env formatStr channels))
                                (formatToSize env (streamFormat c env formatStr channels))),
            Print (BeginRateTest (Quotient (FromDouble sampleRate) (FromDouble 1000000))),
            SignalSIGINT, SetLogLevel,
            Print CreateRxThread, Spawn RxThread, Sleep 2,
            Print CreateTxThread, Spawn TxThread,
            Print JoinRxThread, Join RxThread, Join TxThread,
            CloseStream (setupStream env (SOAPY_SDR_RX c) (streamFormat c env formatStr channels) channels),
            CloseStream (setupStream env (SOAPY_SDR_TX c) (streamFormat c env formatStr channels) channels),
            Unmake (Some (device env))],
       joined = [(RxThread, rxCalls), (TxThread, txCalls)]\<rparr>"
proof -
  from ch have ne: "channels \<noteq> []" by (rule buildChannels_nonempty)
  show ?thesis
    unfolding SoapySDRRateTest_def ch tryBlock_def Let_def
    using nt rx tx
    by (simp add: nativeFormatStmt_calls [OF ne] exec_Do_plain exec_Do_Spawn exec_Do_Join
          exec_plain_quiet finish_def)
qed

lemma calls_on_append [simp]: "calls_on s (xs @ ys) = calls_on s xs @ calls_on s ys"
  by (simp add: calls_on_def)

lemma calls_on_Nil [simp]: "calls_on s [] = []"
  by (simp add: calls_on_def)

lemma calls_on_Cons:
  "calls_on s (e # es) = (if stream_of e = Some s then e # calls_on s es else calls_on s es)"
  by (simp add: calls_on_def)

lemma calls_on_none: "list_all (\<lambda>e. stream_of e = None) evs \<Longrightarrow> calls_on s evs = []"
  by (induction evs) (simp_all add: calls_on_Cons)

lemma filter_close_none:
  "list_all (\<lambda>e. stream_of e = None) evs \<Longrightarrow> filter (\<lambda>e. e = CloseStream s) evs = []"
  by (induction evs) auto

lemma takeWhile_not_spawn:
  "list_all (\<lambda>e. \<not> is_thread_op e) xs \<Longrightarrow>
     takeWhile (\<lambda>e. e \<noteq> Spawn t) (xs @ ys) = xs @ takeWhile (\<lambda>e. e \<noteq> Spawn t) ys"
  by (induction xs) auto

lemma dropWhile_not_spawn:
  "list_all (\<lambda>e. \<not> is_thread_op e) xs \<Longrightarrow>
     dropWhile (\<lambda>e. e \<noteq> Spawn t) (xs @ ys) = dropWhile (\<lambda>e. e \<noteq> Spawn t) ys"
  by (induction xs) auto

lemma dropWhile_not_join:
  "list_all (\<lambda>e. \<not> is_thread_op e) xs \<Longrightarrow>
     dropWhile (\<lambda>e. e \<noteq> Join t) (xs @ ys) = dropWhile (\<lambda>e. e \<noteq> Join t) ys"
  by (induction xs) auto

lemma lifecycleI:
  "list_all (\<lambda>e. is_transfer e \<and> stream_of e = Some s) ts \<Longrightarrow>
     lifecycle s (SetupStream d f chans s # GetStreamMTU s # ActivateStream s # ts
                  @ [DeactivateStream s, CloseStream s])"
  by (simp add: lifecycle_def)

lemma loop_event_calls:
  "list_all (loop_event c s d n mem) loop \<Longrightarrow>
     list_all (\<lambda>e. is_transfer e \<and> stream_of e = Some s) (calls_on s loop)
     \<and> (s' \<noteq> s \<longrightarrow> calls_on s' loop = [])"
  by (induction loop) (auto simp: loop_event_def calls_on_Cons split: event.splits)

lemma thread_calls:
  assumes "runRateTestStreamLoop c env s d nC eS f r = Inr tr"
  shows "\<exists>ts. calls_on s tr = GetStreamMTU s # ActivateStream s # ts @ [DeactivateStream s]
      \<and> list_all (\<lambda>e. is_transfer e \<and> stream_of e = Some s) ts
      \<and> (\<forall>s'. s' \<noteq> s \<longrightarrow> calls_on s' tr = [])"
proof -
  from thread_trace [OF assms] obtain mem loop where
    l: "list_all (loop_event c s d (streamMTU env) mem) loop"
    and tr: "tr = [GetStreamMTU s, Print Omega]
             @ concat (map (\<lambda>i. [Print (DoubleSample i), Print (FloatSample i)]) [0..<streamMTU env])
             @ [Print (StartingStream d), ActivateStream s] @ loop
             @ [Print (Deactivate d), DeactivateStream s]" by auto
  have a: "calls_on s tr = GetStreamMTU s # ActivateStream s # calls_on s loop @ [DeactivateStream s]"
    using tr by (simp add: calls_on_Cons)
  have b: "\<forall>s'. s' \<noteq> s \<longrightarrow> calls_on s' tr = []"
    using tr loop_event_calls [OF l] by (simp add: calls_on_Cons)
  from a b loop_event_calls [OF l, of s] show ?thesis by blast
qed

text \<open>
  C3, as amended. In a run of src/SoapyRateTest.cpp in which no call raises and both stream
  loops return, with two distinct stream handles: for each of the two streams the calls on it
  are, in this order, \<open>setupStream\<close>, \<open>getStreamMTU\<close>, \<open>activateStream\<close>, then only
  \<open>readStream\<close>/\<open>writeStream\<close>/\<open>readStreamStatus\<close> calls, then \<open>deactivateStream\<close>, then
  \<open>closeStream\<close>, which is the last call on the stream and is made exactly once. The
  main thread sets the stream up before it starts the thread and closes it after it has
  joined the thread; between the two it makes no call on the stream, and neither thread
  makes a call on the other thread's stream.
\<close>

theorem stream_lifecycle:
  assumes nt: "\<forall>n. \<not> throws env n"
    and ch: "buildChannels (stoi env) (KwargsFromString env channelStr) = Some channels"
    and rx: "threadBody c env frequency sampleRate formatStr channels RxThread = Inr rxCalls"
    and tx: "threadBody c env frequency sampleRate formatStr channels TxThread = Inr txCalls"
    and rxs: "rxStream = setupStream env (SOAPY_SDR_RX c) (streamFormat c env formatStr channels) channels"
    and txs: "txStream = setupStream env (SOAPY_SDR_TX c) (streamFormat c env formatStr channels) channels"
    and ds: "rxStream \<noteq> txStream"
    and r: "r = SoapySDRRateTest c env argStr frequency bandwidth sampleRate rxGain txGain formatStr channelStr"
  shows "outcome r = Returns EXIT_FAILURE
     \<and> joined r = [(RxThread, rxCalls), (TxThread, txCalls)]
     \<and> lifecycle rxStream (stream_history rxStream RxThread r)
     \<and> lifecycle txStream (stream_history txStream TxThread r)
     \<and> calls_on rxStream (while_running RxThread (trace r)) = []
     \<and> calls_on txStream (while_running TxThread (trace r)) = []
     \<and> calls_on txStream rxCalls = [] \<and> calls_on rxStream txCalls = []
     \<and> length (filter (\<lambda>e. e = CloseStream rxStream) (trace r)) = 1
     \<and> length (filter (\<lambda>e. e = CloseStream txStream) (trace r)) = 1"
proof -
  note run = rate_test_completes [OF nt ch rx tx, of argStr bandwidth rxGain txGain, folded r rxs txs]
  from rx rxs have "runRateTestStreamLoop c (rxThreadEnv env) rxStream (SOAPY_SDR_RX c) (length channels)
      (formatToSize env (streamFormat c env formatStr channels)) frequency sampleRate = Inr rxCalls"
    by (simp add: threadBody_def Let_def)
  from thread_calls [OF this] obtain rts where
    rc: "calls_on rxStream rxCalls = GetStreamMTU rxStream # ActivateStream rxStream # rts @ [DeactivateStream rxStream]"
    and rt: "list_all (\<lambda>e. is_transfer e \<and> stream_of e = Some rxStream) rts"
    and ro: "\<forall>s'. s' \<noteq> rxStream \<longrightarrow> calls_on s' rxCalls = []" by blast
  from tx txs have "runRateTestStreamLoop c (txThreadEnv env) txStream (SOAPY_SDR_TX c) (length channels)
      (formatToSize env (streamFormat c env formatStr channels)) frequency sampleRate = Inr txCalls"
    by (simp add: threadBody_def Let_def)
  from thread_calls [OF this] obtain tts where
    tc: "calls_on txStream txCalls = GetStreamMTU txStream # ActivateStream txStream # tts @ [DeactivateStream txStream]"
    and tt: "list_all (\<lambda>e. is_transfer e \<and> stream_of e = Some txStream) tts"
    and to: "\<forall>s'. s' \<noteq> txStream \<longrightarrow> calls_on s' txCalls = []" by blast
  have o: "outcome r = Returns EXIT_FAILURE" and j: "joined r = [(RxThread, rxCalls), (TxThread, txCalls)]"
    using run by simp_all
  have hr: "stream_history rxStream RxThread r
      = SetupStream (SOAPY_SDR_RX c) (streamFormat c env formatStr channels) channels rxStream
        # GetStreamMTU rxStream # ActivateStream rxStream # rts
        @ [DeactivateStream rxStream, CloseStream rxStream]"
    using ds rc unfolding stream_history_def before_spawn_def after_join_def joined_calls_def run
    by (simp add: takeWhile_not_spawn dropWhile_not_join calls_on_none calls_on_Cons)
  have ht: "stream_history txStream TxThread r
      = SetupStream (SOAPY_SDR_TX c) (streamFormat c env formatStr channels) channels txStream
        # GetStreamMTU txStream # ActivateStream txStream # tts
        @ [DeactivateStream txStream, CloseStream txStream]"
    using ds tc unfolding stream_history_def before_spawn_def after_join_def joined_calls_def run
    by (simp add: takeWhile_not_spawn dropWhile_not_join calls_on_none calls_on_Cons)
  have wr: "calls_on rxStream (while_running RxThread (trace r)) = []"
    unfolding while_running_def run
    by (simp add: dropWhile_not_spawn calls_on_Cons)
  have wt: "calls_on txStream (while_running TxThread (trace r)) = []"
    unfolding while_running_def run
    by (simp add: dropWhile_not_spawn calls_on_Cons)
  have cr: "length (filter (\<lambda>e. e = CloseStream rxStream) (trace r)) = 1"
    using ds unfolding run
    by (simp add: filter_close_none)
  have ct: "length (filter (\<lambda>e. e = CloseStream txStream) (trace r)) = 1"
    using ds unfolding run
    by (simp add: filter_close_none)
  from o j hr ht wr wt ro to ds lifecycleI [OF rt] lifecycleI [OF tt] cr ct show ?thesis by simp
qed

text \<open>C3 as amended, on the example run.\<close>

theorem stream_lifecycle_witness:
  "outcome (SoapySDRRateTest soapy_headers example_env ''driver=x'' 1 2 3 4 5 ''CF32'' ''0, 1'')
     = Returns EXIT_FAILURE
   \<and> stream_history 10 RxThread
        (SoapySDRRateTest soapy_headers example_env ''driver=x'' 1 2 3 4 5 ''CF32'' ''0, 1'')
     = [SetupStream 1 ''CF32'' [0, 1] 10, GetStreamMTU 10, ActivateStream 10,
        ReadStream 10 1, ReadStreamStatus 10, DeactivateStream 10, CloseStream 10]
   \<and> lifecycle 10 (stream_history 10 RxThread
        (SoapySDRRateTest soapy_headers example_env ''driver=x'' 1 2 3 4 5 ''CF32'' ''0, 1''))
   \<and> lifecycle 20 (stream_history 20 TxThread
        (SoapySDRRateTest soapy_headers example_env ''driver=x'' 1 2 3 4 5 ''CF32'' ''0, 1''))"
proof -
  have nt: "\<forall>n. \<not> throws example_env n" by (simp add: example_env_def)
  have ch: "buildChannels (stoi example_env) (KwargsFromString example_env ''0, 1'') = Some [0, 1]"
    by code_simp
  have rx: "threadBody soapy_headers example_env 1 3 ''CF32'' [0, 1] RxThread
    = Inr [GetStreamMTU 10, Print Omega, Print (DoubleSample 0), Print (FloatSample 0),
           Print (StartingStream 1), ActivateStream 10, ReadStream 10 1, Print (Spin 0),
           ReadStreamStatus 10, Print (Deactivate 1), DeactivateStream 10]"
    by code_simp
  have tx: "threadBody soapy_headers example_env 1 3 ''CF32'' [0, 1] TxThread
    = Inr [GetStreamMTU 20, Print Omega, Print (DoubleSample 0), Print (FloatSample 0),
           Print (StartingStream 0), ActivateStream 20,
           WriteStream 20
             [[Computed SampleRe 0 0, Computed SampleRe 0 1, Computed SampleRe 0 2, Computed SampleRe 0 3,
               Computed SampleIm 0 0, Computed SampleIm 0 1, Computed SampleIm 0 2, Computed SampleIm 0 3],
              [Computed SampleRe 0 0, Computed SampleRe 0 1, Computed SampleRe 0 2, Computed SampleRe 0 3,
               Computed SampleIm 0 0, Computed SampleIm 0 1, Computed SampleIm 0 2, Computed SampleIm 0 3]] 1,
           Print (Spin 0), ReadStreamStatus 20, Print (Deactivate 0), DeactivateStream 20]"
    by code_simp
  have rs: "(10::nat) = setupStream example_env (SOAPY_SDR_RX soapy_headers)
      (streamFormat soapy_headers example_env ''CF32'' [0, 1]) [0, 1]"
    by (simp add: example_env_def soapy_headers_def)
  have ts: "(20::nat) = setupStream example_env (SOAPY_SDR_TX soapy_headers)
      (streamFormat soapy_headers example_env ''CF32'' [0, 1]) [0, 1]"
    by (simp add: example_env_def soapy_headers_def)
  have ds: "(10::nat) \<noteq> 20" by simp
  have h: "stream_history 10 RxThread
        (SoapySDRRateTest soapy_headers example_env ''driver=x'' 1 2 3 4 5 ''CF32'' ''0, 1'')
     = [SetupStream 1 ''CF32'' [0, 1] 10, GetStreamMTU 10, ActivateStream 10,
        ReadStream 10 1, ReadStreamStatus 10, DeactivateStream 10, CloseStream 10]"
    by code_simp
  from stream_lifecycle [OF nt ch rx tx rs ts ds refl, of "''driver=x''" 2 4 5] h
  show ?thesis by simp
qed

text \<open>C3 as stated fails when a call raises after a stream is set up: in the example run
  where \<open>setupStream\<close> for TX raises, the RX stream has been set up, the handler prints the
  error and releases the device, and the RX stream is never activated or closed.\<close>

theorem stream_lifecycle_counterexample:
  "SoapySDRRateTest soapy_headers setup_fails_env ''driver=x'' 1 2 3 4 5 ''CF32'' ''0, 1''
   = \<lparr>outcome = Returns EXIT_FAILURE,
      trace = [Make ''driver=x'',
        SetFrequency 1 0 1, SetFrequency 0 0 1, SetBandwidth 1 0 2, SetBandwidth 0 0 2,
        SetSampleRate 1 0 3, SetSampleRate 0 0 3, SetGain 1 0 4, SetGain 0 0 5,
        SetFrequency 1 1 1, SetFrequency 0 1 1, SetBandwidth 1 1 2, SetBandwidth 0 1 2,
        SetSampleRate 1 1 3, SetSampleRate 0 1 3, SetGain 1 1 4, SetGain 0 1 5,
        SetupStream 1 ''CF32'' [0, 1] 10, SetupStream 0 ''CF32'' [0, 1] 20,
        Print ErrorInRateTest, Unmake (Some 42)],
      joined = []\<rparr>
   \<and> calls_on 10 (trace (SoapySDRRateTest soapy_headers setup_fails_env ''driver=x'' 1 2 3 4 5 ''CF32'' ''0, 1''))
     = [SetupStream 1 ''CF32'' [0, 1] 10]
   \<and> \<not> lifecycle 10 (stream_history 10 RxThread
        (SoapySDRRateTest soapy_headers setup_fails_env ''driver=x'' 1 2 3 4 5 ''CF32'' ''0, 1''))"
  by code_simp

lemma nativeFormatStmt_events:
  "Do e \<in> set (nativeFormatStmt c formatStr channels) \<Longrightarrow> \<exists>d chan. e = GetNativeStreamFormat d chan"
  by (cases "formatStr = []"; cases "front channels"; simp add: nativeFormatStmt_def)

lemma configure_events:
  "Do e \<in> set (map Do (concat (map (configureChannel c frequency bandwidth sampleRate rxGain txGain) channels)))
     \<Longrightarrow> stream_of e = None \<and> \<not> is_thread_op e \<and> (\<forall>m. e \<noteq> Print m)"
  by (auto simp: configureChannel_def)

lemma configure_part_000_events:
  "Do e \<in> set (map Do (concat (map (configureChannel_part_000 c frequency sampleRate) channels)))
     \<Longrightarrow> stream_of e = None \<and> \<not> is_thread_op e \<and> (\<forall>m. e \<noteq> Print m)"
  by (auto simp: configureChannel_part_000_def)

lemma finish_outcome: "outcome (finish env x) \<noteq> Returns EXIT_SUCCESS"
  by (cases x) (auto simp: finish_def split: status.splits)

lemma finish_handler:
  assumes "x = exec th body ss j [] []" and "Do (Print ErrorInRateTest) \<notin> set ss"
  shows "Print ErrorInRateTest \<in> set (trace (finish env x)) \<longrightarrow>
     (\<exists>pre. trace (finish env x)
         = pre @ [Print ErrorInRateTest, Unmake (if throws env 0 then None else Some (device env))]
       \<and> Print ErrorInRateTest \<notin> set pre
       \<and> outcome (finish env x) = (if throws env (length pre + 1) then Escapes else Returns EXIT_FAILURE))"
proof -
  obtain st tr jd where x: "x = (st, tr, jd)" by (cases x) auto
  from x assms(1) have t: "fst (snd (exec th body ss j [] [])) = tr" by (metis fst_conv snd_conv)
  from exec_extends [of th body ss j "[]" "[]"] obtain more where
    "fst (snd (exec th body ss j [] [])) = [] @ more" "set more \<subseteq> {e. Do e \<in> set ss}" by blast
  with t have "set tr \<subseteq> {e. Do e \<in> set ss}" by simp
  with assms(2) have n: "Print ErrorInRateTest \<notin> set tr" by auto
  show ?thesis
  proof (cases st)
    case Thrown
    with x n show ?thesis by (simp add: finish_def)
  qed (use x n in \<open>simp_all add: finish_def\<close>)
qed

lemma tryBlock_events:
  "Do e \<in> set (tryBlock c env frequency bandwidth sampleRate rxGain txGain formatStr channels)
     \<Longrightarrow> e \<noteq> Print ErrorInRateTest"
  unfolding tryBlock_def Let_def
  by (auto simp: configureChannel_def dest: nativeFormatStmt_events)

lemma tryBlock_part_000_events:
  "Do e \<in> set (tryBlock_part_000 c env frequency sampleRate formatStr channels)
     \<Longrightarrow> e \<noteq> Print ErrorInRateTest \<and> e \<noteq> Join TxThread"
  unfolding tryBlock_part_000_def Let_def
  by (auto simp: configureChannel_part_000_def dest: nativeFormatStmt_events)

lemma finish_trace: "\<exists>suffix. trace (finish env x) = fst (snd x) @ suffix
    \<and> (suffix = [] \<or> (\<exists>d. suffix = [Print ErrorInRateTest, Unmake d]))"
  by (cases x) (auto simp: finish_def split: status.splits)

lemma takeWhile_not_setup:
  "list_all (\<lambda>e. \<not> is_setup e) xs \<Longrightarrow>
     takeWhile (\<lambda>e. \<not> is_setup e) (xs @ ys) = xs @ takeWhile (\<lambda>e. \<not> is_setup e) ys"
  by (induction xs) auto

lemma setup_reached:
  assumes x: "x = exec th body (Do (Make argStr) # map Do cfg @ rest) [] [] []"
    and e: "e \<in> set (trace (finish env x))" "is_setup e"
    and cfg: "list_all (\<lambda>e. \<not> is_thread_op e) cfg" "list_all (\<lambda>e. \<not> is_setup e) cfg"
  shows "\<exists>more. trace (finish env x) = (Make argStr # cfg) @ more"
proof -
  have p: "list_all (\<lambda>e. \<not> is_thread_op e) (Make argStr # cfg)" using cfg by simp
  have q: "list_all (\<lambda>e. \<not> is_setup e) (Make argStr # cfg)" using cfg by simp
  from finish_trace [of env x] obtain suffix where
    t: "trace (finish env x) = fst (snd x) @ suffix"
    and s: "suffix = [] \<or> (\<exists>d. suffix = [Print ErrorInRateTest, Unmake d])" by blast
  have d: "x = exec th body rest [] (Make argStr # cfg) []
      \<or> (\<exists>k. x = (Thrown, take (Suc k) (Make argStr # cfg), []))"
    using exec_plain [OF p, of th body rest "[]" "[]" "[]"] unfolding x by auto
  from d show ?thesis
  proof
    assume "x = exec th body rest [] (Make argStr # cfg) []"
    with exec_extends [of th body rest "[]" "Make argStr # cfg" "[]"] obtain more where
      "fst (snd x) = (Make argStr # cfg) @ more" by auto
    with t have "trace (finish env x) = (Make argStr # cfg) @ (more @ suffix)" by simp
    then show ?thesis by blast
  next
    assume "\<exists>k. x = (Thrown, take (Suc k) (Make argStr # cfg), [])"
    then obtain k where "x = (Thrown, take (Suc k) (Make argStr # cfg), [])" by blast
    then have "fst (snd x) = take (Suc k) (Make argStr # cfg)" by simp
    with t have tr: "trace (finish env x) = take (Suc k) (Make argStr # cfg) @ suffix" by simp
    have "\<forall>e\<in>set (take (Suc k) (Make argStr # cfg)). \<not> is_setup e"
      using q in_set_takeD [of _ "Suc k" "Make argStr # cfg"] unfolding list_all_iff by blast
    moreover have "\<forall>e\<in>set suffix. \<not> is_setup e" using s by auto
    ultimately have "\<forall>e\<in>set (trace (finish env x)). \<not> is_setup e" using tr by auto
    with e show ?thesis by blast
  qed
qed

lemma no_channels_no_setup:
  "e \<in> set (trace (finish env (exec th body [Do (Make argStr), Raise] [] [] []))) \<Longrightarrow> \<not> is_setup e"
  by (auto simp: exec_Do_plain finish_def split: if_splits)

text \<open>
  C5, as amended. In src/SoapyRateTest.cpp, before any stream is created,
  \<open>SoapySDRRateTest\<close> has called, for every channel of the channel list, \<open>setFrequency\<close>,
  \<open>setBandwidth\<close>, \<open>setSampleRate\<close> and \<open>setGain\<close> for RX and for TX, with the same
  frequency, bandwidth and sample rate for both directions, the gain \<open>rxGain\<close> for RX and
  \<open>txGain\<close> for TX: these calls come right after \<open>Device::make\<close>, channel by channel. In
  part_000, which has no bandwidth and no gain parameter, it has called \<open>setFrequency\<close> and
  \<open>setSampleRate\<close> for RX and for TX for every channel, and no other setter.
\<close>

theorem configuration_before_streams:
  "(e \<in> set (trace (SoapySDRRateTest c env argStr frequency bandwidth sampleRate rxGain txGain formatStr channelStr))
      \<and> is_setup e \<longrightarrow>
      (\<exists>channels rest.
         buildChannels (stoi env) (KwargsFromString env channelStr) = Some channels
         \<and> takeWhile (\<lambda>e. \<not> is_setup e)
             (trace (SoapySDRRateTest c env argStr frequency bandwidth sampleRate rxGain txGain formatStr channelStr))
           = Make argStr
             # concat (map (configureChannel c frequency bandwidth sampleRate rxGain txGain) channels)
             @ rest
         \<and> (\<forall>chan\<in>set channels.
               set [SetFrequency (SOAPY_SDR_RX c) chan frequency,
                    SetFrequency (SOAPY_SDR_TX c) chan frequency,
                    SetBandwidth (SOAPY_SDR_RX c) chan bandwidth,
                    SetBandwidth (SOAPY_SDR_TX c) chan bandwidth,
                    SetSampleRate (SOAPY_SDR_RX c) chan sampleRate,
                    SetSampleRate (SOAPY_SDR_TX c) chan sampleRate,
                    SetGain (SOAPY_SDR_RX c) chan rxGain,
                    SetGain (SOAPY_SDR_TX c) chan txGain]
               \<subseteq> set (takeWhile (\<lambda>e. \<not> is_setup e)
                   (trace (SoapySDRRateTest c env argStr frequency bandwidth sampleRate rxGain txGain formatStr channelStr))))))
   \<and> (e' \<in> set (trace (SoapySDRRateTest_part_000 c env argStr frequency sampleRate formatStr channelStr))
      \<and> is_setup e' \<longrightarrow>
      (\<exists>channels rest.
         buildChannels (stoi env) (KwargsFromString env channelStr) = Some channels
         \<and> takeWhile (\<lambda>e. \<not> is_setup e)
             (trace (SoapySDRRateTest_part_000 c env argStr frequency sampleRate formatStr channelStr))
           = Make argStr
             # concat (map (configureChannel_part_000 c frequency sampleRate) channels)
             @ rest
         \<and> (\<forall>chan\<in>set channels.
               set [SetFrequency (SOAPY_SDR_RX c) chan frequency,
                    SetFrequency (SOAPY_SDR_TX c) chan frequency,
                    SetSampleRate (SOAPY_SDR_RX c) chan sampleRate,
                    SetSampleRate (SOAPY_SDR_TX c) chan sampleRate]
               \<subseteq> set (takeWhile (\<lambda>e. \<not> is_setup e)
                   (trace (SoapySDRRateTest_part_000 c env argStr frequency sampleRate formatStr channelStr))))))"
proof -
  have a: "e \<in> set (trace (SoapySDRRateTest c env argStr frequency bandwidth sampleRate rxGain txGain formatStr channelStr))
      \<and> is_setup e \<longrightarrow>
      (\<exists>channels rest.
         buildChannels (stoi env) (KwargsFromString env channelStr) = Some channels
         \<and> takeWhile (\<lambda>e. \<not> is_setup e)
             (trace (SoapySDRRateTest c env argStr frequency bandwidth sampleRate rxGain txGain formatStr channelStr))
           = Make argStr
             # concat (map (configureChannel c frequency bandwidth sampleRate rxGain txGain) channels)
             @ rest
         \<and> (\<forall>chan\<in>set channels.
               set [SetFrequency (SOAPY_SDR_RX c) chan frequency,
                    SetFrequency (SOAPY_SDR_TX c) chan frequency,
                    SetBandwidth (SOAPY_SDR_RX c) chan bandwidth,
                    SetBandwidth (SOAPY_SDR_TX c) chan bandwidth,
                    SetSampleRate (SOAPY_SDR_RX c) chan sampleRate,
                    SetSampleRate (SOAPY_SDR_TX c) chan sampleRate,
                    SetGain (SOAPY_SDR_RX c) chan rxGain,
                    SetGain (SOAPY_SDR_TX c) chan txGain]
               \<subseteq> set (takeWhile (\<lambda>e. \<not> is_setup e)
                   (trace (SoapySDRRateTest c env argStr frequency bandwidth sampleRate rxGain txGain formatStr channelStr)))))"
  proof
    assume h: "e \<in> set (trace (SoapySDRRateTest c env argStr frequency bandwidth sampleRate rxGain txGain formatStr channelStr))
      \<and> is_setup e"
    show "\<exists>channels rest.
         buildChannels (stoi env) (KwargsFromString env channelStr) = Some channels
         \<and> takeWhile (\<lambda>e. \<not> is_setup e)
             (trace (SoapySDRRateTest c env argStr frequency bandwidth sampleRate rxGain txGain formatStr channelStr))
           = Make argStr
             # concat (map (configureChannel c frequency bandwidth sampleRate rxGain txGain) channels)
             @ rest
         \<and> (\<forall>chan\<in>set channels.
               set [SetFrequency (SOAPY_SDR_RX c) chan frequency,
                    SetFrequency (SOAPY_SDR_TX c) chan frequency,
                    SetBandwidth (SOAPY_SDR_RX c) chan bandwidth,
                    SetBandwidth (SOAPY_SDR_TX c) chan bandwidth,
                    SetSampleRate (SOAPY_SDR_RX c) chan sampleRate,
                    SetSampleRate (SOAPY_SDR_TX c) chan sampleRate,
                    SetGain (SOAPY_SDR_RX c) chan rxGain,
                    SetGain (SOAPY_SDR_TX c) chan txGain]
               \<subseteq> set (takeWhile (\<lambda>e. \<not> is_setup e)
                   (trace (SoapySDRRateTest c env argStr frequency bandwidth sampleRate rxGain txGain formatStr channelStr))))"
    proof (cases "buildChannels (stoi env) (KwargsFromString env channelStr)")
      case None
      with h no_channels_no_setup [of e env "throws env" "\<lambda>t. Inl NoReturn" argStr]
      show ?thesis by (simp add: SoapySDRRateTest_def)
    next
      case (Some channels)
      define cfg where "cfg = concat (map (configureChannel c frequency bandwidth sampleRate rxGain txGain) channels)"
      have p: "list_all (\<lambda>e. \<not> is_thread_op e) cfg" "list_all (\<lambda>e. \<not> is_setup e) cfg"
        unfolding cfg_def by simp_all
      obtain rest where r: "tryBlock c env frequency bandwidth sampleRate rxGain txGain formatStr channels
          = map Do cfg @ rest"
        unfolding tryBlock_def Let_def cfg_def by blast
      have run: "SoapySDRRateTest c env argStr frequency bandwidth sampleRate rxGain txGain formatStr channelStr
          = finish env (exec (throws env) (threadBody c env frequency sampleRate formatStr channels)
              (Do (Make argStr) # map Do cfg @ rest) [] [] [])"
        using Some r by (simp add: SoapySDRRateTest_def)
      from setup_reached [OF refl _ _ p, of e env "throws env"
          "threadBody c env frequency sampleRate formatStr channels" argStr rest] h run
      obtain more where t: "trace (SoapySDRRateTest c env argStr frequency bandwidth sampleRate rxGain txGain formatStr channelStr)
          = (Make argStr # cfg) @ more" by auto
      have q: "list_all (\<lambda>e. \<not> is_setup e) (Make argStr # cfg)" using p by simp
      have tw: "takeWhile (\<lambda>e. \<not> is_setup e)
             (trace (SoapySDRRateTest c env argStr frequency bandwidth sampleRate rxGain txGain formatStr channelStr))
           = Make argStr # cfg @ takeWhile (\<lambda>e. \<not> is_setup e) more"
        unfolding t using takeWhile_not_setup [OF q, of more] by simp
      have mem: "\<forall>chan\<in>set channels.
               set [SetFrequency (SOAPY_SDR_RX c) chan frequency,
                    SetFrequency (SOAPY_SDR_TX c) chan frequency,
                    SetBandwidth (SOAPY_SDR_RX c) chan bandwidth,
                    SetBandwidth (SOAPY_SDR_TX c) chan bandwidth,
                    SetSampleRate (SOAPY_SDR_RX c) chan sampleRate,
                    SetSampleRate (SOAPY_SDR_TX c) chan sampleRate,
                    SetGain (SOAPY_SDR_RX c) chan rxGain,
                    SetGain (SOAPY_SDR_TX c) chan txGain]
               \<subseteq> set (takeWhile (\<lambda>e. \<not> is_setup e)
                   (trace (SoapySDRRateTest c env argStr frequency bandwidth sampleRate rxGain txGain formatStr channelStr)))"
        unfolding tw cfg_def by (auto simp: configureChannel_def)
      from Some tw mem show ?thesis unfolding cfg_def by blast
    qed
  qed
  have b: "e' \<in> set (trace (SoapySDRRateTest_part_000 c env argStr frequency sampleRate formatStr channelStr))
      \<and> is_setup e' \<longrightarrow>
      (\<exists>channels rest.
         buildChannels (stoi env) (KwargsFromString env channelStr) = Some channels
         \<and> takeWhile (\<lambda>e. \<not> is_setup e)
             (trace (SoapySDRRateTest_part_000 c env argStr frequency sampleRate formatStr channelStr))
           = Make argStr
             # concat (map (configureChannel_part_000 c frequency sampleRate) channels)
             @ rest
         \<and> (\<forall>chan\<in>set channels.
               set [SetFrequency (SOAPY_SDR_RX c) chan frequency,
                    SetFrequency (SOAPY_SDR_TX c) chan frequency,
                    SetSampleRate (SOAPY_SDR_RX c) chan sampleRate,
                    SetSampleRate (SOAPY_SDR_TX c) chan sampleRate]
               \<subseteq> set (takeWhile (\<lambda>e. \<not> is_setup e)
                   (trace (SoapySDRRateTest_part_000 c env argStr frequency sampleRate formatStr channelStr)))))"
  proof
    assume h: "e' \<in> set (trace (SoapySDRRateTest_part_000 c env argStr frequency sampleRate formatStr channelStr))
      \<and> is_setup e'"
    show "\<exists>channels rest.
         buildChannels (stoi env) (KwargsFromString env channelStr) = Some channels
         \<and> takeWhile (\<lambda>e. \<not> is_setup e)
             (trace (SoapySDRRateTest_part_000 c env argStr frequency sampleRate formatStr channelStr))
           = Make argStr
             # concat (map (configureChannel_part_000 c frequency sampleRate) channels)
             @ rest
         \<and> (\<forall>chan\<in>set channels.
               set [SetFrequency (SOAPY_SDR_RX c) chan frequency,
                    SetFrequency (SOAPY_SDR_TX c) chan frequency,
                    SetSampleRate (SOAPY_SDR_RX c) chan sampleRate,
                    SetSampleRate (SOAPY_SDR_TX c) chan sampleRate]
               \<subseteq> set (takeWhile (\<lambda>e. \<not> is_setup e)
                   (trace (SoapySDRRateTest_part_000 c env argStr frequency sampleRate formatStr channelStr))))"
    proof (cases "buildChannels (stoi env) (KwargsFromString env channelStr)")
      case None
      with h no_channels_no_setup [of e' env "throws env" "\<lambda>t. Inl NoReturn" argStr]
      show ?thesis by (simp add: SoapySDRRateTest_part_000_def)
    next
      case (Some channels)
      define cfg where "cfg = concat (map (configureChannel_part_000 c frequency sampleRate) channels)"
      have p: "list_all (\<lambda>e. \<not> is_thread_op e) cfg" "list_all (\<lambda>e. \<not> is_setup e) cfg"
        unfolding cfg_def by simp_all
      obtain rest where r: "tryBlock_part_000 c env frequency sampleRate formatStr channels
          = map Do cfg @ rest"
        unfolding tryBlock_part_000_def Let_def cfg_def by blast
      have run: "SoapySDRRateTest_part_000 c env argStr frequency sampleRate formatStr channelStr
          = finish env (exec (throws env) (threadBody_part_000 c env formatStr channels)
              (Do (Make argStr) # map Do cfg @ rest) [] [] [])"
        using Some r by (simp add: SoapySDRRateTest_part_000_def)
      from setup_reached [OF refl _ _ p, of e' env "throws env"
          "threadBody_part_000 c env formatStr channels" argStr rest] h run
      obtain more where t: "trace (SoapySDRRateTest_part_000 c env argStr frequency sampleRate formatStr channelStr)
          = (Make argStr # cfg) @ more" by auto
      have q: "list_all (\<lambda>e. \<not> is_setup e) (Make argStr # cfg)" using p by simp
      have tw: "takeWhile (\<lambda>e. \<not> is_setup e)
             (trace (SoapySDRRateTest_part_000 c env argStr frequency sampleRate formatStr channelStr))
           = Make argStr # cfg @ takeWhile (\<lambda>e. \<not> is_setup e) more"
        unfolding t using takeWhile_not_setup [OF q, of more] by simp
      have mem: "\<forall>chan\<in>set channels.
               set [SetFrequency (SOAPY_SDR_RX c) chan frequency,
                    SetFrequency (SOAPY_SDR_TX c) chan frequency,
                    SetSampleRate (SOAPY_SDR_RX c) chan sampleRate,
                    SetSampleRate (SOAPY_SDR_TX c) chan sampleRate]
               \<subseteq> set (takeWhile (\<lambda>e. \<not> is_setup e)
                   (trace (SoapySDRRateTest_part_000 c env argStr frequency sampleRate formatStr channelStr)))"
        unfolding tw cfg_def by (auto simp: configureChannel_part_000_def)
      from Some tw mem show ?thesis unfolding cfg_def by blast
    qed
  qed
  from a b show ?thesis by blast
qed

text \<open>C5 as stated fails in part_000: on the example run, the calls made before the first
  stream is created are \<open>Device::make\<close>, \<open>setFrequency\<close> and \<open>setSampleRate\<close> only.\<close>

theorem configuration_before_streams_counterexample:
  "takeWhile (\<lambda>e. \<not> is_setup e)
     (trace (SoapySDRRateTest_part_000 soapy_headers example_env ''driver=x'' 1 3 ''CF32'' ''0, 1''))
   = [Make ''driver=x'',
      SetFrequency 1 0 1, SetFrequency 0 0 1, SetSampleRate 1 0 3, SetSampleRate 0 0 3,
      SetFrequency 1 1 1, SetFrequency 0 1 1, SetSampleRate 1 1 3, SetSampleRate 0 1 3]
   \<and> list_ex is_setup
       (trace (SoapySDRRateTest_part_000 soapy_headers example_env ''driver=x'' 1 3 ''CF32'' ''0, 1''))"
  by code_simp

text \<open>C5 as amended, on the example run of src/SoapyRateTest.cpp.\<close>

theorem configuration_before_streams_witness:
  "SetupStream 1 ''CF32'' [0, 1] 10
     \<in> set (trace (SoapySDRRateTest soapy_headers example_env ''driver=x'' 1 2 3 4 5 ''CF32'' ''0, 1''))
   \<and> is_setup (SetupStream 1 ''CF32'' [0, 1] 10)
   \<and> SetGain 1 1 4
     \<in> set (takeWhile (\<lambda>e. \<not> is_setup e)
         (trace (SoapySDRRateTest soapy_headers example_env ''driver=x'' 1 2 3 4 5 ''CF32'' ''0, 1'')))
   \<and> SetGain 0 1 5
     \<in> set (takeWhile (\<lambda>e. \<not> is_setup e)
         (trace (SoapySDRRateTest soapy_headers example_env ''driver=x'' 1 2 3 4 5 ''CF32'' ''0, 1'')))"
proof -
  have m: "SetupStream 1 ''CF32'' [0, 1] 10
     \<in> set (trace (SoapySDRRateTest soapy_headers example_env ''driver=x'' 1 2 3 4 5 ''CF32'' ''0, 1''))"
    by code_simp
  have s: "is_setup (SetupStream 1 ''CF32'' [0, 1] 10)" by simp
  have ch: "buildChannels (stoi example_env) (KwargsFromString example_env ''0, 1'') = Some [0, 1]"
    by code_simp
  from configuration_before_streams [THEN conjunct1, THEN mp, OF conjI [OF m s]] ch
  have "\<forall>chan\<in>set [0, 1 :: nat].
      set [SetFrequency (SOAPY_SDR_RX soapy_headers) chan 1,
           SetFrequency (SOAPY_SDR_TX soapy_headers) chan 1,
           SetBandwidth (SOAPY_SDR_RX soapy_headers) chan 2,
           SetBandwidth (SOAPY_SDR_TX soapy_headers) chan 2,
           SetSampleRate (SOAPY_SDR_RX soapy_headers) chan 3,
           SetSampleRate (SOAPY_SDR_TX soapy_headers) chan 3,
           SetGain (SOAPY_SDR_RX soapy_headers) chan 4,
           SetGain (SOAPY_SDR_TX soapy_headers) chan 5]
      \<subseteq> set (takeWhile (\<lambda>e. \<not> is_setup e)
         (trace (SoapySDRRateTest soapy_headers example_env ''driver=x'' 1 2 3 4 5 ''CF32'' ''0, 1'')))"
    by auto
  with m s show ?thesis by (simp add: soapy_headers_def)
qed

lemma part_000_events:
  assumes "e \<in> set (trace (SoapySDRRateTest_part_000 c env argStr frequency sampleRate formatStr channelStr))"
  shows "e \<noteq> Join TxThread"
proof -
  have g: "e \<in> set (trace (finish env (exec th body ss [] [] []))) \<Longrightarrow> Do (Join TxThread) \<notin> set ss
      \<Longrightarrow> e \<noteq> Join TxThread" for th body ss
  proof -
    assume a: "e \<in> set (trace (finish env (exec th body ss [] [] [])))" and b: "Do (Join TxThread) \<notin> set ss"
    from finish_trace [of env "exec th body ss [] [] []"] obtain suffix where
      t: "trace (finish env (exec th body ss [] [] [])) = fst (snd (exec th body ss [] [] [])) @ suffix"
      and s: "suffix = [] \<or> (\<exists>d. suffix = [Print ErrorInRateTest, Unmake d])" by blast
    from exec_extends [of th body ss "[]" "[]" "[]"] obtain more where
      "fst (snd (exec th body ss [] [] [])) = [] @ more" "set more \<subseteq> {e. Do e \<in> set ss}" by blast
    with t have "set (trace (finish env (exec th body ss [] [] []))) \<subseteq> {e. Do e \<in> set ss} \<union> set suffix"
      by auto
    with a b s show "e \<noteq> Join TxThread" by auto
  qed
  show ?thesis
  proof (cases "buildChannels (stoi env) (KwargsFromString env channelStr)")
    case None
    with assms g [of "throws env" "\<lambda>t. Inl NoReturn" "[Do (Make argStr), Raise]"]
    show ?thesis by (simp add: SoapySDRRateTest_part_000_def)
  next
    case (Some channels)
    have "Do (Join TxThread) \<notin> set (Do (Make argStr)
        # tryBlock_part_000 c env frequency sampleRate formatStr channels)"
      using tryBlock_part_000_events [of "Join TxThread" c env frequency sampleRate formatStr channels]
      by auto
    with Some assms g [of "throws env" "threadBody_part_000 c env formatStr channels"
        "Do (Make argStr) # tryBlock_part_000 c env frequency sampleRate formatStr channels"]
    show ?thesis by (simp add: SoapySDRRateTest_part_000_def)
  qed
qed

text \<open>
  C2, in part_000: \<open>txThread\<close> is never joined. No run of its \<open>SoapySDRRateTest\<close> joins
  the TX thread; on the example run, in which no call raises and both loops return, the
  main thread joins only the RX thread, closes both streams and releases the device
  while the TX thread is still joinable, and leaving the \<open>try\<close> block then ends the
  program in \<open>std::terminate\<close> instead of returning.
\<close>

theorem tx_thread_not_joined_part_000:
  "Join TxThread
     \<notin> set (trace (SoapySDRRateTest_part_000 c env argStr frequency sampleRate formatStr channelStr))
   \<and> SoapySDRRateTest_part_000 soapy_headers example_env ''driver=x'' 1 3 ''CF32'' ''0, 1''
     = \<lparr>outcome = Terminates,
        trace =
          [Make ''driver=x'',
           SetFrequency 1 0 1, SetFrequency 0 0 1, SetSampleRate 1 0 3, SetSampleRate 0 0 3,
           SetFrequency 1 1 1, SetFrequency 0 1 1, SetSampleRate 1 1 3, SetSampleRate 0 1 3,
           SetupStream 1 ''CF32'' [0, 1] 10, SetupStream 0 ''CF32'' [0, 1] 20,
           Print (Formats ''CF32'' ''CF32''), Print (NumChannels 2),
           Print (ElementSizes 8 8), Print (BeginRateTest (Quotient (FromDouble 3) (FromDouble 1000000))),
           SignalSIGINT, Print CreateRxThread, Spawn RxThread, Sleep 2,
           Print CreateTxThread, Spawn TxThread, Print JoinRxThread,
           Join RxThread, CloseStream 10, CloseStream 20, Unmake (Some 42)],
        joined =
          [(RxThread,
            [GetStreamMTU 10, Print (StartingStream 1), ActivateStream 10,
             ReadStream 10 1, Print (Spin 0), ReadStreamStatus 10,
             DeactivateStream 10])]\<rparr>"
proof -
  have a: "Join TxThread
     \<notin> set (trace (SoapySDRRateTest_part_000 c env argStr frequency sampleRate formatStr channelStr))"
    using part_000_events [of "Join TxThread" c env argStr frequency sampleRate formatStr channelStr]
    by blast
  have b: "SoapySDRRateTest_part_000 soapy_headers example_env ''driver=x'' 1 3 ''CF32'' ''0, 1''
     = \<lparr>outcome = Terminates,
        trace =
          [Make ''driver=x'',
           SetFrequency 1 0 1, SetFrequency 0 0 1, SetSampleRate 1 0 3, SetSampleRate 0 0 3,
           SetFrequency 1 1 1, SetFrequency 0 1 1, SetSampleRate 1 1 3, SetSampleRate 0 1 3,
           SetupStream 1 ''CF32'' [0, 1] 10, SetupStream 0 ''CF32'' [0, 1] 20,
           Print (Formats ''CF32'' ''CF32''), Print (NumChannels 2),
           Print (ElementSizes 8 8), Print (BeginRateTest (Quotient (FromDouble 3) (FromDouble 1000000))),
           SignalSIGINT, Print CreateRxThread, Spawn RxThread, Sleep 2,
           Print CreateTxThread, Spawn TxThread, Print JoinRxThread,
           Join RxThread, CloseStream 10, CloseStream 20, Unmake (Some 42)],
        joined =
          [(RxThread,
            [GetStreamMTU 10, Print (StartingStream 1), ActivateStream 10,
             ReadStream 10 1, Print (Spin 0), ReadStreamStatus 10,
             DeactivateStream 10])]\<rparr>"
    by code_simp
  from a b show ?thesis by blast
qed

lemma loops_use_one_direction:
  assumes "distinct_codes c"
  shows "runRateTestStreamLoop c env s (SOAPY_SDR_RX c) nC eS f r = Inr tr \<Longrightarrow> \<not> list_ex is_write tr"
    and "runRateTestStreamLoop c env s (SOAPY_SDR_TX c) nC eS f r = Inr tr \<Longrightarrow> \<not> list_ex is_read tr"
    and "runRateTestStreamLoop_part_000 c env s (SOAPY_SDR_RX c) nC eS = Inr tr \<Longrightarrow> \<not> list_ex is_write tr"
    and "runRateTestStreamLoop_part_000 c env s (SOAPY_SDR_TX c) nC eS = Inr tr \<Longrightarrow> \<not> list_ex is_read tr"
proof -
  from assms have d: "SOAPY_SDR_RX c \<noteq> SOAPY_SDR_TX c" by (simp add: distinct_codes_def)
  have w: "list_all (loop_event c s (SOAPY_SDR_RX c) n mem) loop \<Longrightarrow> \<not> list_ex is_write loop" for n mem loop
    by (induction loop) (auto simp: loop_event_def split: event.splits)
  have rd: "list_all (loop_event c s (SOAPY_SDR_TX c) n mem) loop \<Longrightarrow> \<not> list_ex is_read loop" for n mem loop
    using d by (induction loop) (auto simp: loop_event_def split: event.splits)
  have sp: "\<not> list_ex is_write (concat (map (\<lambda>i. [Print (DoubleSample i), Print (FloatSample i)]) xs))
      \<and> \<not> list_ex is_read (concat (map (\<lambda>i. [Print (DoubleSample i), Print (FloatSample i)]) xs))" for xs
    by (induction xs) auto
  show "runRateTestStreamLoop c env s (SOAPY_SDR_RX c) nC eS f r = Inr tr \<Longrightarrow> \<not> list_ex is_write tr"
    using w sp by (auto dest!: thread_trace)
  show "runRateTestStreamLoop c env s (SOAPY_SDR_TX c) nC eS f r = Inr tr \<Longrightarrow> \<not> list_ex is_read tr"
    using rd sp by (auto dest!: thread_trace)
  show "runRateTestStreamLoop_part_000 c env s (SOAPY_SDR_RX c) nC eS = Inr tr \<Longrightarrow> \<not> list_ex is_write tr"
    using w by (auto dest!: thread_trace_part_000)
  show "runRateTestStreamLoop_part_000 c env s (SOAPY_SDR_TX c) nC eS = Inr tr \<Longrightarrow> \<not> list_ex is_read tr"
    using rd by (auto dest!: thread_trace_part_000)
qed

lemma planned_map_Do: "planned (map Do xs @ ss) = xs @ planned ss"
  by (induction xs) simp_all

lemma planned_map_Do_only: "planned (map Do xs) = xs"
  using planned_map_Do [of xs "[]"] by simp

lemma takeWhile_plain_append:
  "list_all (\<lambda>e. \<not> is_thread_op e) xs \<Longrightarrow>
     takeWhile (\<lambda>e. \<not> is_thread_op e) (xs @ ys) = xs @ takeWhile (\<lambda>e. \<not> is_thread_op e) ys"
  by (induction xs) simp_all

lemma exec_first_raise:
  "k \<le> length (takeWhile (\<lambda>e. \<not> is_thread_op e) (planned ss)) \<Longrightarrow> k < length (planned ss)
   \<Longrightarrow> may_raise (planned ss ! k) \<Longrightarrow> th (length tr + k)
   \<Longrightarrow> \<forall>i<k. \<not> (may_raise (planned ss ! i) \<and> th (length tr + i))
   \<Longrightarrow> exec th body ss [] tr jd = (Thrown, tr @ take (Suc k) (planned ss), jd)"
proof (induction ss arbitrary: k tr)
  case Nil
  then show ?case by simp
next
  case (Cons s ss)
  show ?case
  proof (cases s)
    case Raise
    with Cons.prems show ?thesis by simp
  next
    case UndefinedBehaviour
    with Cons.prems show ?thesis by simp
  next
    case (Do e)
    show ?thesis
    proof (cases k)
      case 0
      with Cons.prems Do show ?thesis by (simp add: exec.simps(4))
    next
      case (Suc k')
      with Cons.prems(1) Do have p: "\<not> is_thread_op e" by (auto split: if_splits)
      from Cons.prems(5) Suc Do have n: "\<not> (may_raise e \<and> th (length tr))" by auto
      have a: "k' \<le> length (takeWhile (\<lambda>e. \<not> is_thread_op e) (planned ss))"
        using Cons.prems(1) Suc Do p by simp
      have a': "k' < length (planned ss)" using Cons.prems(2) Suc Do by simp
      have b: "may_raise (planned ss ! k')" using Cons.prems(3) Suc Do by simp
      have c: "th (length (tr @ [e]) + k')" using Cons.prems(4) Suc by simp
      have d: "\<forall>i<k'. \<not> (may_raise (planned ss ! i) \<and> th (length (tr @ [e]) + i))"
      proof (intro allI impI)
        fix i assume "i < k'"
        then have "Suc i < k" using Suc by simp
        with Cons.prems(5) have "\<not> (may_raise (planned (s # ss) ! Suc i) \<and> th (length tr + Suc i))"
          by blast
        then show "\<not> (may_raise (planned ss ! i) \<and> th (length (tr @ [e]) + i))" using Do by simp
      qed
      from Cons.IH [OF a a' b c d] n Do p Suc show ?thesis by (auto simp: exec_Do_plain)
    qed
  qed
qed

lemma caught_first_raise:
  assumes k: "k \<le> length (before_threads ss)"
    and kl: "k < length (planned ss)"
    and m: "may_raise (planned ss ! k)"
    and t: "throws env k"
    and f: "\<forall>i<k. \<not> (may_raise (planned ss ! i) \<and> throws env i)"
  shows "finish env (exec (throws env) body ss [] [] [])
    = \<lparr>outcome = (if throws env (k + 2) then Escapes else Returns EXIT_FAILURE),
       trace = take (Suc k) (planned ss)
         @ [Print ErrorInRateTest, Unmake (if throws env 0 then None else Some (device env))],
       joined = []\<rparr>"
proof -
  have a: "k \<le> length (takeWhile (\<lambda>e. \<not> is_thread_op e) (planned ss))"
    using k by (simp add: before_threads_def)
  have c: "throws env (length ([] :: event list) + k)" using t by simp
  have d: "\<forall>i<k. \<not> (may_raise (planned ss ! i) \<and> throws env (length ([] :: event list) + i))"
    using f by simp
  have l: "length (take (Suc k) (planned ss)) = Suc k" using kl by simp
  from exec_first_raise [OF a kl m c d, of body "[]"] l show ?thesis
    by (simp add: finish_def)
qed

lemma exec_skip:
  "list_all (\<lambda>e. \<not> is_thread_op e) evs
   \<Longrightarrow> \<forall>i<length evs. \<not> (may_raise (evs ! i) \<and> th (length tr + i))
   \<Longrightarrow> exec th body (map Do evs @ ss) j tr jd = exec th body ss j (tr @ evs) jd"
proof (induction evs arbitrary: tr)
  case Nil
  then show ?case by simp
next
  case (Cons e evs)
  from Cons.prems(2) have n: "\<not> (may_raise e \<and> th (length tr))" by auto
  have d: "\<forall>i<length evs. \<not> (may_raise (evs ! i) \<and> th (length (tr @ [e]) + i))"
  proof (intro allI impI)
    fix i assume "i < length evs"
    then have "Suc i < length (e # evs)" by simp
    with Cons.prems(2) have "\<not> (may_raise ((e # evs) ! Suc i) \<and> th (length tr + Suc i))" by blast
    then show "\<not> (may_raise (evs ! i) \<and> th (length (tr @ [e]) + i))" by simp
  qed
  from Cons.prems(1) have p: "\<not> is_thread_op e" and ps: "list_all (\<lambda>e. \<not> is_thread_op e) evs"
    by simp_all
  from Cons.IH [OF ps d] n p show ?case by (auto simp: exec_Do_plain)
qed

lemma thread_phase_raise:
  assumes pl: "list_all (\<lambda>e. \<not> is_thread_op e) P"
    and q: "Q = P @ [Spawn RxThread, Sleep 2, Print CreateTxThread, Spawn TxThread,
                     Print JoinRxThread, Join RxThread, Join TxThread,
                     CloseStream rxS, CloseStream txS, Unmake d]"
    and f: "\<forall>i<k. \<not> (may_raise (Q ! i) \<and> th i)"
    and t: "th k"
  shows "k = length P + 3 \<Longrightarrow> exec th body (map Do Q) [] [] [] = (Terminated, take (Suc k) Q, [])"
    and "k = length P + 5 \<Longrightarrow> exec th body (map Do Q) [] [] [] = (Terminated, take (Suc k) Q, [])"
    and "k = length P + 6 \<Longrightarrow> body RxThread = Inr rxCalls
         \<Longrightarrow> exec th body (map Do Q) [] [] [] = (Terminated, take (Suc k) Q, [(RxThread, rxCalls)])"
    and "length P + 7 \<le> k \<Longrightarrow> k < length Q \<Longrightarrow> body RxThread = Inr rxCalls
         \<Longrightarrow> body TxThread = Inr txCalls
         \<Longrightarrow> exec th body (map Do Q) [] [] []
             = (Thrown, take (Suc k) Q, [(RxThread, rxCalls), (TxThread, txCalls)])"
proof -
  let ?tail = "[Spawn RxThread, Sleep 2, Print CreateTxThread, Spawn TxThread,
                Print JoinRxThread, Join RxThread, Join TxThread,
                CloseStream rxS, CloseStream txS, Unmake d]"
  have g: "\<not> th (length P + j)" if "length P + j < k" "j < 10" "may_raise (?tail ! j)" for j
  proof -
    from f that(1) have "\<not> (may_raise (Q ! (length P + j)) \<and> th (length P + j))" by blast
    moreover have "Q ! (length P + j) = ?tail ! j" unfolding q by (simp only: nth_append_length_plus)
    ultimately show ?thesis using that(3) by simp
  qed
  have sk: "exec th body (map Do Q) [] [] [] = exec th body (map Do ?tail) [] P []"
    if "length P \<le> k"
  proof -
    have "\<forall>i<length P. \<not> (may_raise (P ! i) \<and> th (length ([] :: event list) + i))"
    proof (intro allI impI)
      fix i assume i: "i < length P"
      with that have "i < k" by simp
      with f have "\<not> (may_raise (Q ! i) \<and> th i)" by blast
      moreover have "Q ! i = P ! i" using i unfolding q by (simp add: nth_append)
      ultimately show "\<not> (may_raise (P ! i) \<and> th (length ([] :: event list) + i))" by simp
    qed
    from exec_skip [OF pl this, of body "map Do ?tail" "[]" "[]"] show ?thesis
      unfolding q by simp
  qed
  have tk: "take (Suc (length P + j)) Q = P @ take (Suc j) ?tail" for j
    unfolding q by simp
  {
    assume k: "k = length P + 3"
    have "\<not> th (length P)" using g [of 0] k by simp
    with sk t k show "exec th body (map Do Q) [] [] [] = (Terminated, take (Suc k) Q, [])"
      unfolding k tk by (simp add: exec_Do_Spawn exec_Do_Join exec_Do_plain eval_nat_numeral)
  }
  {
    assume k: "k = length P + 5"
    have "\<not> th (length P)" "\<not> th (length P + 3)" using g [of 0] g [of 3] k by simp_all
    with sk t k show "exec th body (map Do Q) [] [] [] = (Terminated, take (Suc k) Q, [])"
      unfolding k tk by (simp add: exec_Do_Spawn exec_Do_Join exec_Do_plain eval_nat_numeral)
  }
  {
    assume k: "k = length P + 6" and rx: "body RxThread = Inr rxCalls"
    have "\<not> th (length P)" "\<not> th (length P + 3)" "\<not> th (length P + 5)"
      using g [of 0] g [of 3] g [of 5] k by simp_all
    with sk t k rx
    show "exec th body (map Do Q) [] [] [] = (Terminated, take (Suc k) Q, [(RxThread, rxCalls)])"
      unfolding k tk by (simp add: exec_Do_Spawn exec_Do_Join exec_Do_plain eval_nat_numeral)
  }
  {
    assume k: "length P + 7 \<le> k" "k < length Q" and rx: "body RxThread = Inr rxCalls"
      and tx: "body TxThread = Inr txCalls"
    have n: "\<not> th (length P)" "\<not> th (length P + 3)" "\<not> th (length P + 5)" "\<not> th (length P + 6)"
      using g [of 0] g [of 3] g [of 5] g [of 6] k by simp_all
    from k have "k = length P + 7 \<or> k = length P + 8 \<or> k = length P + 9" unfolding q by auto
    then show "exec th body (map Do Q) [] [] []
        = (Thrown, take (Suc k) Q, [(RxThread, rxCalls), (TxThread, txCalls)])"
    proof (elim disjE)
      assume e: "k = length P + 7"
      with sk t n rx tx show ?thesis
        unfolding e tk by (simp add: exec_Do_Spawn exec_Do_Join exec_Do_plain eval_nat_numeral)
    next
      assume e: "k = length P + 8"
      have "\<not> th (length P + 7)" using g [of 7] e by simp
      with sk t n rx tx e show ?thesis
        unfolding e tk by (simp add: exec_Do_Spawn exec_Do_Join exec_Do_plain eval_nat_numeral)
    next
      assume e: "k = length P + 9"
      have "\<not> th (length P + 7)" "\<not> th (length P + 8)" using g [of 7] g [of 8] e by simp_all
      with sk t n rx tx e show ?thesis
        unfolding e tk by (simp add: exec_Do_Spawn exec_Do_Join exec_Do_plain eval_nat_numeral)
    qed
  }
qed

lemma tryBlock_plan:
  assumes ne: "channels \<noteq> []"
  shows "Do (Make argStr) # tryBlock c env frequency bandwidth sampleRate rxGain txGain formatStr channels
    = map Do
       ((Make argStr
         # concat (map (configureChannel c frequency bandwidth sampleRate rxGain txGain) channels)
         @ nativeFormatCall c formatStr channels
         @ [SetupStream (SOAPY_SDR_RX c) (streamFormat c env formatStr channels) channels
              (setupStream env (SOAPY_SDR_RX c) (streamFormat c env formatStr channels) channels)]
         @ nativeFormatCall c formatStr channels
         @ [SetupStream (SOAPY_SDR_TX c) (streamFormat c env formatStr channels) channels
              (setupStream env (SOAPY_SDR_TX c) (streamFormat c env formatStr channels) channels),
            Print (Formats (streamFormat c env formatStr channels) (streamFormat c env formatStr channels)),
            Print (NumChannels (length channels)),
            Print (ElementSizes (formatToSize env (streamFormat c env formatStr channels))
                                (formatToSize env (streamFormat c env formatStr channels))),
            Print (BeginRateTest (Quotient (FromDouble sampleRate) (FromDouble 1000000))),
            SignalSIGINT, SetLogLevel, Print CreateRxThread])
        @ [Spawn RxThread, Sleep 2, Print CreateTxThread, Spawn TxThread,
           Print JoinRxThread, Join RxThread, Join TxThread,
           CloseStream (setupStream env (SOAPY_SDR_RX c) (streamFormat c env formatStr channels) channels),
           CloseStream (setupStream env (SOAPY_SDR_TX c) (streamFormat c env formatStr channels) channels),
           Unmake (Some (device env))])"
  unfolding tryBlock_def Let_def nativeFormatStmt_calls [OF ne] by simp

lemma tryBlock_part_000_plan:
  assumes ne: "channels \<noteq> []"
  shows "Do (Make argStr) # tryBlock_part_000 c env frequency sampleRate formatStr channels
    = map Do
       ((Make argStr
         # concat (map (configureChannel_part_000 c frequency sampleRate) channels)
         @ nativeFormatCall c formatStr channels
         @ [SetupStream (SOAPY_SDR_RX c) (streamFormat c env formatStr channels) channels
              (setupStream env (SOAPY_SDR_RX c) (streamFormat c env formatStr channels) channels)]
         @ nativeFormatCall c formatStr channels
         @ [SetupStream (SOAPY_SDR_TX c) (streamFormat c env formatStr channels) channels
              (setupStream env (SOAPY_SDR_TX c) (streamFormat c env formatStr channels) channels),
            Print (Formats (streamFormat c env formatStr channels) (streamFormat c env formatStr channels)),
            Print (NumChannels (length channels)),
            Print (ElementSizes (formatToSize env (streamFormat c env formatStr channels))
                                (formatToSize env (streamFormat c env formatStr channels))),
            Print (BeginRateTest (Quotient (FromDouble sampleRate) (FromDouble 1000000))),
            SignalSIGINT, Print CreateRxThread])
        @ [Spawn RxThread, Sleep 2, Print CreateTxThread, Spawn TxThread,
           Print JoinRxThread, Join RxThread,
           CloseStream (setupStream env (SOAPY_SDR_RX c) (streamFormat c env formatStr channels) channels),
           CloseStream (setupStream env (SOAPY_SDR_TX c) (streamFormat c env formatStr channels) channels),
           Unmake (Some (device env))])"
  unfolding tryBlock_part_000_def Let_def nativeFormatStmt_calls [OF ne] by simp

lemma setup_phase_plain:
  "list_all (\<lambda>e. \<not> is_thread_op e)
     (Make argStr
      # concat (map (configureChannel c frequency bandwidth sampleRate rxGain txGain) channels)
      @ nativeFormatCall c formatStr channels
      @ [SetupStream d1 f1 channels s1]
      @ nativeFormatCall c formatStr channels
      @ [SetupStream d2 f2 channels s2, Print m1, Print m2, Print m3, Print m4,
         SignalSIGINT, SetLogLevel, Print CreateRxThread])"
  by simp

lemma setup_phase_part_000_plain:
  "list_all (\<lambda>e. \<not> is_thread_op e)
     (Make argStr
      # concat (map (configureChannel_part_000 c frequency sampleRate) channels)
      @ nativeFormatCall c formatStr channels
      @ [SetupStream d1 f1 channels s1]
      @ nativeFormatCall c formatStr channels
      @ [SetupStream d2 f2 channels s2, Print m1, Print m2, Print m3, Print m4,
         SignalSIGINT, Print CreateRxThread])"
  by simp

lemma before_threads_plan:
  "list_all (\<lambda>e. \<not> is_thread_op e) P \<Longrightarrow> before_threads (map Do (P @ Spawn t # rest)) = P"
  by (simp add: before_threads_def planned_map_Do takeWhile_plain_append)

lemma no_channels_caught:
  "finish env (exec (throws env) body [Do (Make argStr), Raise] [] [] [])
    = \<lparr>outcome = (if throws env 2 then Escapes else Returns EXIT_FAILURE),
       trace = [Make argStr, Print ErrorInRateTest,
                Unmake (if throws env 0 then None else Some (device env))],
       joined = []\<rparr>"
  by (simp add: exec_Do_plain finish_def numeral_2_eq_2)

lemma finish_Thrown:
  "x = (Thrown, tr, jd) \<Longrightarrow> length tr = Suc k \<Longrightarrow>
     finish env x
       = \<lparr>outcome = (if throws env (k + 2) then Escapes else Returns EXIT_FAILURE),
          trace = tr @ [Print ErrorInRateTest, Unmake (if throws env 0 then None else Some (device env))],
          joined = jd\<rparr>"
  by (simp add: finish_def)

lemma finish_Terminated:
  "x = (Terminated, tr, jd) \<Longrightarrow> outcome (finish env x) = Terminates \<and> trace (finish env x) = tr"
  by (simp add: finish_def)

text \<open>
  C8, as amended. \<open>SoapySDRRateTest\<close> never returns \<open>EXIT_SUCCESS\<close> (both files). An exception
  raised in the main thread while no started thread is unjoined is caught: the function
  has made the calls up to the one that raised, prints the error, releases the device (a
  null device if \<open>Device::make\<close> itself raised) and returns \<open>EXIT_FAILURE\<close>, unless
  releasing the device raises again and the exception leaves the function. These are
  (both files) a channel key that is not a number and the first raising call when it is
  one of the calls up to and including the construction of \<open>rxThread\<close>, and (in
  src/SoapyRateTest.cpp, when both stream loops return) the first raising call when it is
  \<open>closeStream\<close> or \<open>unmake\<close> after the two joins. In src/SoapyRateTest.cpp, when the
  first raising call is the construction of \<open>txThread\<close> or a \<open>join\<close>, a thread object is
  destroyed while it can be joined and the program is terminated. When no call raises
  and both stream loops return, src/SoapyRateTest.cpp releases the device and returns
  \<open>EXIT_FAILURE\<close> without having printed an error.
\<close>

theorem always_exit_failure:
  "outcome (SoapySDRRateTest c env argStr frequency bandwidth sampleRate rxGain txGain formatStr channelStr)
     \<noteq> Returns EXIT_SUCCESS
   \<and> outcome (SoapySDRRateTest_part_000 c env argStr frequency sampleRate formatStr channelStr)
     \<noteq> Returns EXIT_SUCCESS
   \<and> (buildChannels (stoi env) (KwargsFromString env channelStr) = None \<longrightarrow>
        SoapySDRRateTest c env argStr frequency bandwidth sampleRate rxGain txGain formatStr channelStr
          = \<lparr>outcome = (if throws env 2 then Escapes else Returns EXIT_FAILURE),
            trace = [Make argStr, Print ErrorInRateTest,
                     Unmake (if throws env 0 then None else Some (device env))],
            joined = []\<rparr>
        \<and> SoapySDRRateTest_part_000 c env argStr frequency sampleRate formatStr channelStr
          = \<lparr>outcome = (if throws env 2 then Escapes else Returns EXIT_FAILURE),
            trace = [Make argStr, Print ErrorInRateTest,
                     Unmake (if throws env 0 then None else Some (device env))],
            joined = []\<rparr>)
   \<and> (buildChannels (stoi env) (KwargsFromString env channelStr) = Some channels \<longrightarrow>
        before_threads (Do (Make argStr) # tryBlock c env frequency bandwidth sampleRate rxGain txGain formatStr channels)
          = Make argStr
            # concat (map (configureChannel c frequency bandwidth sampleRate rxGain txGain) channels)
            @ nativeFormatCall c formatStr channels
            @ [SetupStream (SOAPY_SDR_RX c) (streamFormat c env formatStr channels) channels
                 (setupStream env (SOAPY_SDR_RX c) (streamFormat c env formatStr channels) channels)]
            @ nativeFormatCall c formatStr channels
            @ [SetupStream (SOAPY_SDR_TX c) (streamFormat c env formatStr channels) channels
                 (setupStream env (SOAPY_SDR_TX c) (streamFormat c env formatStr channels) channels),
               Print (Formats (streamFormat c env formatStr channels) (streamFormat c env formatStr channels)),
               Print (NumChannels (length channels)),
               Print (ElementSizes (formatToSize env (streamFormat c env formatStr channels))
                                   (formatToSize env (streamFormat c env formatStr channels))),
               Print (BeginRateTest (Quotient (FromDouble sampleRate) (FromDouble 1000000))),
               SignalSIGINT, SetLogLevel, Print CreateRxThread]
        \<and> planned (Do (Make argStr) # tryBlock c env frequency bandwidth sampleRate rxGain txGain formatStr channels)
          = before_threads (Do (Make argStr) # tryBlock c env frequency bandwidth sampleRate rxGain txGain formatStr channels)
            @ [Spawn RxThread, Sleep 2, Print CreateTxThread, Spawn TxThread,
               Print JoinRxThread, Join RxThread, Join TxThread,
               CloseStream (setupStream env (SOAPY_SDR_RX c) (streamFormat c env formatStr channels) channels),
               CloseStream (setupStream env (SOAPY_SDR_TX c) (streamFormat c env formatStr channels) channels),
               Unmake (Some (device env))]
        \<and> before_threads (Do (Make argStr) # tryBlock_part_000 c env frequency sampleRate formatStr channels)
          = Make argStr
            # concat (map (configureChannel_part_000 c frequency sampleRate) channels)
            @ nativeFormatCall c formatStr channels
            @ [SetupStream (SOAPY_SDR_RX c) (streamFormat c env formatStr channels) channels
                 (setupStream env (SOAPY_SDR_RX c) (streamFormat c env formatStr channels) channels)]
            @ nativeFormatCall c formatStr channels
            @ [SetupStream (SOAPY_SDR_TX c) (streamFormat c env formatStr channels) channels
                 (setupStream env (SOAPY_SDR_TX c) (streamFormat c env formatStr channels) channels),
               Print (Formats (streamFormat c env formatStr channels) (streamFormat c env formatStr channels)),
               Print (NumChannels (length channels)),
               Print (ElementSizes (formatToSize env (streamFormat c env formatStr channels))
                                   (formatToSize env (streamFormat c env formatStr channels))),
               Print (BeginRateTest (Quotient (FromDouble sampleRate) (FromDouble 1000000))),
               SignalSIGINT, Print CreateRxThread]
        \<and> planned (Do (Make argStr) # tryBlock_part_000 c env frequency sampleRate formatStr channels)
          = before_threads (Do (Make argStr) # tryBlock_part_000 c env frequency sampleRate formatStr channels)
            @ [Spawn RxThread, Sleep 2, Print CreateTxThread, Spawn TxThread,
               Print JoinRxThread, Join RxThread,
               CloseStream (setupStream env (SOAPY_SDR_RX c) (streamFormat c env formatStr channels) channels),
               CloseStream (setupStream env (SOAPY_SDR_TX c) (streamFormat c env formatStr channels) channels),
               Unmake (Some (device env))])
   \<and> (buildChannels (stoi env) (KwargsFromString env channelStr) = Some channels
        \<and> k < length (planned (Do (Make argStr) # tryBlock c env frequency bandwidth sampleRate rxGain txGain formatStr channels))
        \<and> may_raise (planned (Do (Make argStr) # tryBlock c env frequency bandwidth sampleRate rxGain txGain formatStr channels) ! k)
        \<and> throws env k
        \<and> (\<forall>i<k. \<not> (may_raise (planned (Do (Make argStr) # tryBlock c env frequency bandwidth sampleRate rxGain txGain formatStr channels) ! i)
                    \<and> throws env i)) \<longrightarrow>
        (k \<le> length (before_threads (Do (Make argStr) # tryBlock c env frequency bandwidth sampleRate rxGain txGain formatStr channels)) \<longrightarrow>
           SoapySDRRateTest c env argStr frequency bandwidth sampleRate rxGain txGain formatStr channelStr
             = \<lparr>outcome = (if throws env (k + 2) then Escapes else Returns EXIT_FAILURE),
                trace = take (Suc k) (planned (Do (Make argStr) # tryBlock c env frequency bandwidth sampleRate rxGain txGain formatStr channels))
                  @ [Print ErrorInRateTest, Unmake (if throws env 0 then None else Some (device env))],
                joined = []\<rparr>)
        \<and> (length (before_threads (Do (Make argStr) # tryBlock c env frequency bandwidth sampleRate rxGain txGain formatStr channels)) + 7 \<le> k
            \<and> threadBody c env frequency sampleRate formatStr channels RxThread = Inr rxCalls
            \<and> threadBody c env frequency sampleRate formatStr channels TxThread = Inr txCalls \<longrightarrow>
           SoapySDRRateTest c env argStr frequency bandwidth sampleRate rxGain txGain formatStr channelStr
             = \<lparr>outcome = (if throws env (k + 2) then Escapes else Returns EXIT_FAILURE),
                trace = take (Suc k) (planned (Do (Make argStr) # tryBlock c env frequency bandwidth sampleRate rxGain txGain formatStr channels))
                  @ [Print ErrorInRateTest, Unmake (if throws env 0 then None else Some (device env))],
                joined = [(RxThread, rxCalls), (TxThread, txCalls)]\<rparr>)
        \<and> (k = length (before_threads (Do (Make argStr) # tryBlock c env frequency bandwidth sampleRate rxGain txGain formatStr channels)) + 3
            \<or> k = length (before_threads (Do (Make argStr) # tryBlock c env frequency bandwidth sampleRate rxGain txGain formatStr channels)) + 5
            \<or> k = length (before_threads (Do (Make argStr) # tryBlock c env frequency bandwidth sampleRate rxGain txGain formatStr channels)) + 6
              \<and> threadBody c env frequency sampleRate formatStr channels RxThread = Inr rxCalls \<longrightarrow>
           outcome (SoapySDRRateTest c env argStr frequency bandwidth sampleRate rxGain txGain formatStr channelStr) = Terminates
           \<and> trace (SoapySDRRateTest c env argStr frequency bandwidth sampleRate rxGain txGain formatStr channelStr)
             = take (Suc k) (planned (Do (Make argStr) # tryBlock c env frequency bandwidth sampleRate rxGain txGain formatStr channels))))
   \<and> (buildChannels (stoi env) (KwargsFromString env channelStr) = Some channels
        \<and> k0 < length (planned (Do (Make argStr) # tryBlock_part_000 c env frequency sampleRate formatStr channels))
        \<and> may_raise (planned (Do (Make argStr) # tryBlock_part_000 c env frequency sampleRate formatStr channels) ! k0)
        \<and> throws env k0
        \<and> (\<forall>i<k0. \<not> (may_raise (planned (Do (Make argStr) # tryBlock_part_000 c env frequency sampleRate formatStr channels) ! i)
                    \<and> throws env i))
        \<and> k0 \<le> length (before_threads (Do (Make argStr) # tryBlock_part_000 c env frequency sampleRate formatStr channels)) \<longrightarrow>
        SoapySDRRateTest_part_000 c env argStr frequency sampleRate formatStr channelStr
          = \<lparr>outcome = (if throws env (k0 + 2) then Escapes else Returns EXIT_FAILURE),
             trace = take (Suc k0) (planned (Do (Make argStr) # tryBlock_part_000 c env frequency sampleRate formatStr channels))
               @ [Print ErrorInRateTest, Unmake (if throws env 0 then None else Some (device env))],
             joined = []\<rparr>)
   \<and> ((\<forall>n. \<not> throws env n)
        \<and> buildChannels (stoi env) (KwargsFromString env channelStr) = Some channels
        \<and> threadBody c env frequency sampleRate formatStr channels RxThread = Inr rxCalls
        \<and> threadBody c env frequency sampleRate formatStr channels TxThread = Inr txCalls
      \<longrightarrow> outcome (SoapySDRRateTest c env argStr frequency bandwidth sampleRate rxGain txGain formatStr channelStr)
            = Returns EXIT_FAILURE
          \<and> Print ErrorInRateTest
            \<notin> set (trace (SoapySDRRateTest c env argStr frequency bandwidth sampleRate rxGain txGain formatStr channelStr))
          \<and> last (trace (SoapySDRRateTest c env argStr frequency bandwidth sampleRate rxGain txGain formatStr channelStr))
            = Unmake (Some (device env)))"
proof -
  have a: "outcome (SoapySDRRateTest c env argStr frequency bandwidth sampleRate rxGain txGain formatStr channelStr)
     \<noteq> Returns EXIT_SUCCESS"
    by (simp add: SoapySDRRateTest_def finish_outcome)
  have b: "outcome (SoapySDRRateTest_part_000 c env argStr frequency sampleRate formatStr channelStr)
     \<noteq> Returns EXIT_SUCCESS"
    by (simp add: SoapySDRRateTest_part_000_def finish_outcome)
  have n: "buildChannels (stoi env) (KwargsFromString env channelStr) = None \<longrightarrow>
        SoapySDRRateTest c env argStr frequency bandwidth sampleRate rxGain txGain formatStr channelStr
          = \<lparr>outcome = (if throws env 2 then Escapes else Returns EXIT_FAILURE),
            trace = [Make argStr, Print ErrorInRateTest,
                     Unmake (if throws env 0 then None else Some (device env))],
            joined = []\<rparr>
        \<and> SoapySDRRateTest_part_000 c env argStr frequency sampleRate formatStr channelStr
          = \<lparr>outcome = (if throws env 2 then Escapes else Returns EXIT_FAILURE),
            trace = [Make argStr, Print ErrorInRateTest,
                     Unmake (if throws env 0 then None else Some (device env))],
            joined = []\<rparr>"
    by (simp add: SoapySDRRateTest_def SoapySDRRateTest_part_000_def no_channels_caught)
  have x: "before_threads (Do (Make argStr) # tryBlock c env frequency bandwidth sampleRate rxGain txGain formatStr channels)
          = Make argStr
            # concat (map (configureChannel c frequency bandwidth sampleRate rxGain txGain) channels)
            @ nativeFormatCall c formatStr channels
            @ [SetupStream (SOAPY_SDR_RX c) (streamFormat c env formatStr channels) channels
                 (setupStream env (SOAPY_SDR_RX c) (streamFormat c env formatStr channels) channels)]
            @ nativeFormatCall c formatStr channels
            @ [SetupStream (SOAPY_SDR_TX c) (streamFormat c env formatStr channels) channels
                 (setupStream env (SOAPY_SDR_TX c) (streamFormat c env formatStr channels) channels),
               Print (Formats (streamFormat c env formatStr channels) (streamFormat c env formatStr channels)),
               Print (NumChannels (length channels)),
               Print (ElementSizes (formatToSize env (streamFormat c env formatStr channels))
                                   (formatToSize env (streamFormat c env formatStr channels))),
               Print (BeginRateTest (Quotient (FromDouble sampleRate) (FromDouble 1000000))),
               SignalSIGINT, SetLogLevel, Print CreateRxThread]
        \<and> planned (Do (Make argStr) # tryBlock c env frequency bandwidth sampleRate rxGain txGain formatStr channels)
          = before_threads (Do (Make argStr) # tryBlock c env frequency bandwidth sampleRate rxGain txGain formatStr channels)
            @ [Spawn RxThread, Sleep 2, Print CreateTxThread, Spawn TxThread,
               Print JoinRxThread, Join RxThread, Join TxThread,
               CloseStream (setupStream env (SOAPY_SDR_RX c) (streamFormat c env formatStr channels) channels),
               CloseStream (setupStream env (SOAPY_SDR_TX c) (streamFormat c env formatStr channels) channels),
               Unmake (Some (device env))]
        \<and> before_threads (Do (Make argStr) # tryBlock_part_000 c env frequency sampleRate formatStr channels)
          = Make argStr
            # concat (map (configureChannel_part_000 c frequency sampleRate) channels)
            @ nativeFormatCall c formatStr channels
            @ [SetupStream (SOAPY_SDR_RX c) (streamFormat c env formatStr channels) channels
                 (setupStream env (SOAPY_SDR_RX c) (streamFormat c env formatStr channels) channels)]
            @ nativeFormatCall c formatStr channels
            @ [SetupStream (SOAPY_SDR_TX c) (streamFormat c env formatStr channels) channels
                 (setupStream env (SOAPY_SDR_TX c) (streamFormat c env formatStr channels) channels),
               Print (Formats (streamFormat c env formatStr channels) (streamFormat c env formatStr channels)),
               Print (NumChannels (length channels)),
               Print (ElementSizes (formatToSize env (streamFormat c env formatStr channels))
                                   (formatToSize env (streamFormat c env formatStr channels))),
               Print (BeginRateTest (Quotient (FromDouble sampleRate) (FromDouble 1000000))),
               SignalSIGINT, Print CreateRxThread]
        \<and> planned (Do (Make argStr) # tryBlock_part_000 c env frequency sampleRate formatStr channels)
          = before_threads (Do (Make argStr) # tryBlock_part_000 c env frequency sampleRate formatStr channels)
            @ [Spawn RxThread, Sleep 2, Print CreateTxThread, Spawn TxThread,
               Print JoinRxThread, Join RxThread,
               CloseStream (setupStream env (SOAPY_SDR_RX c) (streamFormat c env formatStr channels) channels),
               CloseStream (setupStream env (SOAPY_SDR_TX c) (streamFormat c env formatStr channels) channels),
               Unmake (Some (device env))]" if ch: "buildChannels (stoi env) (KwargsFromString env channelStr) = Some channels"
  proof -
    from ch have ne: "channels \<noteq> []" by (rule buildChannels_nonempty)
    show ?thesis
      unfolding tryBlock_plan [OF ne] tryBlock_part_000_plan [OF ne] planned_map_Do_only
        before_threads_plan [OF setup_phase_plain] before_threads_plan [OF setup_phase_part_000_plain]
      by simp
  qed
  have f: "(k \<le> length (before_threads (Do (Make argStr) # tryBlock c env frequency bandwidth sampleRate rxGain txGain formatStr channels)) \<longrightarrow>
           SoapySDRRateTest c env argStr frequency bandwidth sampleRate rxGain txGain formatStr channelStr
             = \<lparr>outcome = (if throws env (k + 2) then Escapes else Returns EXIT_FAILURE),
                trace = take (Suc k) (planned (Do (Make argStr) # tryBlock c env frequency bandwidth sampleRate rxGain txGain formatStr channels))
                  @ [Print ErrorInRateTest, Unmake (if throws env 0 then None else Some (device env))],
                joined = []\<rparr>)
        \<and> (length (before_threads (Do (Make argStr) # tryBlock c env frequency bandwidth sampleRate rxGain txGain formatStr channels)) + 7 \<le> k
            \<and> threadBody c env frequency sampleRate formatStr channels RxThread = Inr rxCalls
            \<and> threadBody c env frequency sampleRate formatStr channels TxThread = Inr txCalls \<longrightarrow>
           SoapySDRRateTest c env argStr frequency bandwidth sampleRate rxGain txGain formatStr channelStr
             = \<lparr>outcome = (if throws env (k + 2) then Escapes else Returns EXIT_FAILURE),
                trace = take (Suc k) (planned (Do (Make argStr) # tryBlock c env frequency bandwidth sampleRate rxGain txGain formatStr channels))
                  @ [Print ErrorInRateTest, Unmake (if throws env 0 then None else Some (device env))],
                joined = [(RxThread, rxCalls), (TxThread, txCalls)]\<rparr>)
        \<and> (k = length (before_threads (Do (Make argStr) # tryBlock c env frequency bandwidth sampleRate rxGain txGain formatStr channels)) + 3
            \<or> k = length (before_threads (Do (Make argStr) # tryBlock c env frequency bandwidth sampleRate rxGain txGain formatStr channels)) + 5
            \<or> k = length (before_threads (Do (Make argStr) # tryBlock c env frequency bandwidth sampleRate rxGain txGain formatStr channels)) + 6
              \<and> threadBody c env frequency sampleRate formatStr channels RxThread = Inr rxCalls \<longrightarrow>
           outcome (SoapySDRRateTest c env argStr frequency bandwidth sampleRate rxGain txGain formatStr channelStr) = Terminates
           \<and> trace (SoapySDRRateTest c env argStr frequency bandwidth sampleRate rxGain txGain formatStr channelStr)
             = take (Suc k) (planned (Do (Make argStr) # tryBlock c env frequency bandwidth sampleRate rxGain txGain formatStr channels)))"
    if p: "buildChannels (stoi env) (KwargsFromString env channelStr) = Some channels
        \<and> k < length (planned (Do (Make argStr) # tryBlock c env frequency bandwidth sampleRate rxGain txGain formatStr channels))
        \<and> may_raise (planned (Do (Make argStr) # tryBlock c env frequency bandwidth sampleRate rxGain txGain formatStr channels) ! k)
        \<and> throws env k
        \<and> (\<forall>i<k. \<not> (may_raise (planned (Do (Make argStr) # tryBlock c env frequency bandwidth sampleRate rxGain txGain formatStr channels) ! i)
                    \<and> throws env i))"
  proof -
    from p have ch: "buildChannels (stoi env) (KwargsFromString env channelStr) = Some channels"
      and kl: "k < length (planned (Do (Make argStr) # tryBlock c env frequency bandwidth sampleRate rxGain txGain formatStr channels))"
      and m: "may_raise (planned (Do (Make argStr) # tryBlock c env frequency bandwidth sampleRate rxGain txGain formatStr channels) ! k)"
      and t: "throws env k"
      and fr: "\<forall>i<k. \<not> (may_raise (planned (Do (Make argStr) # tryBlock c env frequency bandwidth sampleRate rxGain txGain formatStr channels) ! i)
                    \<and> throws env i)"
      by simp_all
    from ch have ne: "channels \<noteq> []" by (rule buildChannels_nonempty)
    note xs = x [OF ch]
    note q = xs [THEN conjunct2, THEN conjunct1, unfolded xs [THEN conjunct1]]
    note l = xs [THEN conjunct1]
    have r: "SoapySDRRateTest c env argStr frequency bandwidth sampleRate rxGain txGain formatStr channelStr
      = finish env (exec (throws env) (threadBody c env frequency sampleRate formatStr channels)
          (Do (Make argStr) # tryBlock c env frequency bandwidth sampleRate rxGain txGain formatStr channels) [] [] [])"
      by (simp add: SoapySDRRateTest_def ch)
    have f1: "k \<le> length (before_threads (Do (Make argStr) # tryBlock c env frequency bandwidth sampleRate rxGain txGain formatStr channels)) \<longrightarrow>
           SoapySDRRateTest c env argStr frequency bandwidth sampleRate rxGain txGain formatStr channelStr
             = \<lparr>outcome = (if throws env (k + 2) then Escapes else Returns EXIT_FAILURE),
                trace = take (Suc k) (planned (Do (Make argStr) # tryBlock c env frequency bandwidth sampleRate rxGain txGain formatStr channels))
                  @ [Print ErrorInRateTest, Unmake (if throws env 0 then None else Some (device env))],
                joined = []\<rparr>"
    proof
      assume k: "k \<le> length (before_threads (Do (Make argStr) # tryBlock c env frequency bandwidth sampleRate rxGain txGain formatStr channels))"
      show "SoapySDRRateTest c env argStr frequency bandwidth sampleRate rxGain txGain formatStr channelStr
             = \<lparr>outcome = (if throws env (k + 2) then Escapes else Returns EXIT_FAILURE),
      trace = take (Suc k) (planned (Do (Make argStr) # tryBlock c env frequency bandwidth sampleRate rxGain txGain formatStr channels))
        @ [Print ErrorInRateTest, Unmake (if throws env 0 then None else Some (device env))],
      joined = []\<rparr>"
        unfolding r by (rule caught_first_raise [OF k kl m t fr])
    qed
    have pl: "list_all (\<lambda>e. \<not> is_thread_op e)
        (Make argStr
            # concat (map (configureChannel c frequency bandwidth sampleRate rxGain txGain) channels)
            @ nativeFormatCall c formatStr channels
            @ [SetupStream (SOAPY_SDR_RX c) (streamFormat c env formatStr channels) channels
                 (setupStream env (SOAPY_SDR_RX c) (streamFormat c env formatStr channels) channels)]
            @ nativeFormatCall c formatStr channels
            @ [SetupStream (SOAPY_SDR_TX c) (streamFormat c env formatStr channels) channels
                 (setupStream env (SOAPY_SDR_TX c) (streamFormat c env formatStr channels) channels),
               Print (Formats (streamFormat c env formatStr channels) (streamFormat c env formatStr channels)),
               Print (NumChannels (length channels)),
               Print (ElementSizes (formatToSize env (streamFormat c env formatStr channels))
                                   (formatToSize env (streamFormat c env formatStr channels))),
               Print (BeginRateTest (Quotient (FromDouble sampleRate) (FromDouble 1000000))),
               SignalSIGINT, SetLogLevel, Print CreateRxThread])"
      by (rule setup_phase_plain)
    have lk: "length (take (Suc k) (planned (Do (Make argStr) # tryBlock c env frequency bandwidth sampleRate rxGain txGain formatStr channels))) = Suc k"
      using kl by simp
    have ssq: "map Do (planned (Do (Make argStr) # tryBlock c env frequency bandwidth sampleRate rxGain txGain formatStr channels))
        = Do (Make argStr) # tryBlock c env frequency bandwidth sampleRate rxGain txGain formatStr channels"
      by (simp only: tryBlock_plan [OF ne] planned_map_Do_only)
    have f2: "length (before_threads (Do (Make argStr) # tryBlock c env frequency bandwidth sampleRate rxGain txGain formatStr channels)) + 7 \<le> k
            \<and> threadBody c env frequency sampleRate formatStr channels RxThread = Inr rxCalls
            \<and> threadBody c env frequency sampleRate formatStr channels TxThread = Inr txCalls \<longrightarrow>
           SoapySDRRateTest c env argStr frequency bandwidth sampleRate rxGain txGain formatStr channelStr
             = \<lparr>outcome = (if throws env (k + 2) then Escapes else Returns EXIT_FAILURE),
                trace = take (Suc k) (planned (Do (Make argStr) # tryBlock c env frequency bandwidth sampleRate rxGain txGain formatStr channels))
                  @ [Print ErrorInRateTest, Unmake (if throws env 0 then None else Some (device env))],
                joined = [(RxThread, rxCalls), (TxThread, txCalls)]\<rparr>"
    proof (intro impI, elim conjE)
      assume k: "length (before_threads (Do (Make argStr) # tryBlock c env frequency bandwidth sampleRate rxGain txGain formatStr channels)) + 7 \<le> k"
        and rx: "threadBody c env frequency sampleRate formatStr channels RxThread = Inr rxCalls"
        and tx: "threadBody c env frequency sampleRate formatStr channels TxThread = Inr txCalls"
      from thread_phase_raise(4) [where th = "throws env"
          and body = "threadBody c env frequency sampleRate formatStr channels", OF pl q fr t k [unfolded l] kl rx tx]
      have "exec (throws env) (threadBody c env frequency sampleRate formatStr channels)
          (Do (Make argStr) # tryBlock c env frequency bandwidth sampleRate rxGain txGain formatStr channels) [] [] []
        = (Thrown, take (Suc k) (planned (Do (Make argStr) # tryBlock c env frequency bandwidth sampleRate rxGain txGain formatStr channels)),
           [(RxThread, rxCalls), (TxThread, txCalls)])"
        unfolding ssq .
      then show "SoapySDRRateTest c env argStr frequency bandwidth sampleRate rxGain txGain formatStr channelStr
             = \<lparr>outcome = (if throws env (k + 2) then Escapes else Returns EXIT_FAILURE),
      trace = take (Suc k) (planned (Do (Make argStr) # tryBlock c env frequency bandwidth sampleRate rxGain txGain formatStr channels))
        @ [Print ErrorInRateTest, Unmake (if throws env 0 then None else Some (device env))],
      joined = [(RxThread, rxCalls), (TxThread, txCalls)]\<rparr>"
        unfolding r by (rule finish_Thrown [OF _ lk])
    qed
    have f3: "k = length (before_threads (Do (Make argStr) # tryBlock c env frequency bandwidth sampleRate rxGain txGain formatStr channels)) + 3
            \<or> k = length (before_threads (Do (Make argStr) # tryBlock c env frequency bandwidth sampleRate rxGain txGain formatStr channels)) + 5
            \<or> k = length (before_threads (Do (Make argStr) # tryBlock c env frequency bandwidth sampleRate rxGain txGain formatStr channels)) + 6
              \<and> threadBody c env frequency sampleRate formatStr channels RxThread = Inr rxCalls \<longrightarrow>
           outcome (SoapySDRRateTest c env argStr frequency bandwidth sampleRate rxGain txGain formatStr channelStr) = Terminates
           \<and> trace (SoapySDRRateTest c env argStr frequency bandwidth sampleRate rxGain txGain formatStr channelStr)
             = take (Suc k) (planned (Do (Make argStr) # tryBlock c env frequency bandwidth sampleRate rxGain txGain formatStr channels))"
    proof
      assume "k = length (before_threads (Do (Make argStr) # tryBlock c env frequency bandwidth sampleRate rxGain txGain formatStr channels)) + 3
            \<or> k = length (before_threads (Do (Make argStr) # tryBlock c env frequency bandwidth sampleRate rxGain txGain formatStr channels)) + 5
            \<or> k = length (before_threads (Do (Make argStr) # tryBlock c env frequency bandwidth sampleRate rxGain txGain formatStr channels)) + 6
              \<and> threadBody c env frequency sampleRate formatStr channels RxThread = Inr rxCalls"
      then consider (c3) "k = length (before_threads (Do (Make argStr) # tryBlock c env frequency bandwidth sampleRate rxGain txGain formatStr channels)) + 3"
        | (c5) "k = length (before_threads (Do (Make argStr) # tryBlock c env frequency bandwidth sampleRate rxGain txGain formatStr channels)) + 5"
        | (c6) "k = length (before_threads (Do (Make argStr) # tryBlock c env frequency bandwidth sampleRate rxGain txGain formatStr channels)) + 6"
            "threadBody c env frequency sampleRate formatStr channels RxThread = Inr rxCalls"
        by blast
      then show "outcome (SoapySDRRateTest c env argStr frequency bandwidth sampleRate rxGain txGain formatStr channelStr) = Terminates
           \<and> trace (SoapySDRRateTest c env argStr frequency bandwidth sampleRate rxGain txGain formatStr channelStr)
             = take (Suc k) (planned (Do (Make argStr) # tryBlock c env frequency bandwidth sampleRate rxGain txGain formatStr channels))"
      proof cases
        case c3
        from thread_phase_raise(1) [where th = "throws env"
          and body = "threadBody c env frequency sampleRate formatStr channels", OF pl q fr t c3 [unfolded l]]
        have "exec (throws env) (threadBody c env frequency sampleRate formatStr channels)
            (Do (Make argStr) # tryBlock c env frequency bandwidth sampleRate rxGain txGain formatStr channels) [] [] []
          = (Terminated, take (Suc k) (planned (Do (Make argStr) # tryBlock c env frequency bandwidth sampleRate rxGain txGain formatStr channels)), [])"
          unfolding ssq .
        then show ?thesis unfolding r by (rule finish_Terminated)
      next
        case c5
        from thread_phase_raise(2) [where th = "throws env"
          and body = "threadBody c env frequency sampleRate formatStr channels", OF pl q fr t c5 [unfolded l]]
        have "exec (throws env) (threadBody c env frequency sampleRate formatStr channels)
            (Do (Make argStr) # tryBlock c env frequency bandwidth sampleRate rxGain txGain formatStr channels) [] [] []
          = (Terminated, take (Suc k) (planned (Do (Make argStr) # tryBlock c env frequency bandwidth sampleRate rxGain txGain formatStr channels)), [])"
          unfolding ssq .
        then show ?thesis unfolding r by (rule finish_Terminated)
      next
        case c6
        from thread_phase_raise(3) [where th = "throws env"
          and body = "threadBody c env frequency sampleRate formatStr channels", OF pl q fr t c6(1) [unfolded l] c6(2)]
        have "exec (throws env) (threadBody c env frequency sampleRate formatStr channels)
            (Do (Make argStr) # tryBlock c env frequency bandwidth sampleRate rxGain txGain formatStr channels) [] [] []
          = (Terminated, take (Suc k) (planned (Do (Make argStr) # tryBlock c env frequency bandwidth sampleRate rxGain txGain formatStr channels)), [(RxThread, rxCalls)])"
          unfolding ssq .
        then show ?thesis unfolding r by (rule finish_Terminated)
      qed
    qed
    from f1 f2 f3 show ?thesis by blast
  qed
  have f0: "SoapySDRRateTest_part_000 c env argStr frequency sampleRate formatStr channelStr
          = \<lparr>outcome = (if throws env (k0 + 2) then Escapes else Returns EXIT_FAILURE),
             trace = take (Suc k0) (planned (Do (Make argStr) # tryBlock_part_000 c env frequency sampleRate formatStr channels))
               @ [Print ErrorInRateTest, Unmake (if throws env 0 then None else Some (device env))],
             joined = []\<rparr>"
    if p: "buildChannels (stoi env) (KwargsFromString env channelStr) = Some channels
        \<and> k0 < length (planned (Do (Make argStr) # tryBlock_part_000 c env frequency sampleRate formatStr channels))
        \<and> may_raise (planned (Do (Make argStr) # tryBlock_part_000 c env frequency sampleRate formatStr channels) ! k0)
        \<and> throws env k0
        \<and> (\<forall>i<k0. \<not> (may_raise (planned (Do (Make argStr) # tryBlock_part_000 c env frequency sampleRate formatStr channels) ! i)
                    \<and> throws env i))
        \<and> k0 \<le> length (before_threads (Do (Make argStr) # tryBlock_part_000 c env frequency sampleRate formatStr channels))"
  proof -
    from p have ch: "buildChannels (stoi env) (KwargsFromString env channelStr) = Some channels"
      and kl: "k0 < length (planned (Do (Make argStr) # tryBlock_part_000 c env frequency sampleRate formatStr channels))"
      and m: "may_raise (planned (Do (Make argStr) # tryBlock_part_000 c env frequency sampleRate formatStr channels) ! k0)"
      and t: "throws env k0"
      and fr: "\<forall>i<k0. \<not> (may_raise (planned (Do (Make argStr) # tryBlock_part_000 c env frequency sampleRate formatStr channels) ! i)
                    \<and> throws env i)"
      and k: "k0 \<le> length (before_threads (Do (Make argStr) # tryBlock_part_000 c env frequency sampleRate formatStr channels))"
      by simp_all
    show ?thesis
      unfolding SoapySDRRateTest_part_000_def ch option.case
      by (rule caught_first_raise [OF k kl m t fr])
  qed
  have s: "outcome (SoapySDRRateTest c env argStr frequency bandwidth sampleRate rxGain txGain formatStr channelStr)
            = Returns EXIT_FAILURE
          \<and> Print ErrorInRateTest
            \<notin> set (trace (SoapySDRRateTest c env argStr frequency bandwidth sampleRate rxGain txGain formatStr channelStr))
          \<and> last (trace (SoapySDRRateTest c env argStr frequency bandwidth sampleRate rxGain txGain formatStr channelStr))
            = Unmake (Some (device env))"
    if p: "(\<forall>n. \<not> throws env n)
        \<and> buildChannels (stoi env) (KwargsFromString env channelStr) = Some channels
        \<and> threadBody c env frequency sampleRate formatStr channels RxThread = Inr rxCalls
        \<and> threadBody c env frequency sampleRate formatStr channels TxThread = Inr txCalls"
  proof -
    from p have nt: "\<forall>n. \<not> throws env n"
      and ch: "buildChannels (stoi env) (KwargsFromString env channelStr) = Some channels"
      and rx: "threadBody c env frequency sampleRate formatStr channels RxThread = Inr rxCalls"
      and tx: "threadBody c env frequency sampleRate formatStr channels TxThread = Inr txCalls"
      by simp_all
    show ?thesis
      unfolding rate_test_completes [OF nt ch rx tx] by (auto simp: configureChannel_def)
  qed
  from a b n x f f0 s show ?thesis by blast
qed

text \<open>C8 as stated fails: in the example run of src/SoapyRateTest.cpp where the constructor
  of \<open>txThread\<close> raises, \<open>rxThread\<close> is destroyed while it can be joined and the program is
  terminated: nothing is caught, no error is printed and nothing is returned.\<close>

theorem always_exit_failure_counterexample:
  "SoapySDRRateTest soapy_headers thread_fails_env ''driver=x'' 1 2 3 4 5 ''CF32'' ''0, 1''
   = \<lparr>outcome = Terminates,
      trace = [Make ''driver=x'',
        SetFrequency 1 0 1, SetFrequency 0 0 1, SetBandwidth 1 0 2, SetBandwidth 0 0 2,
        SetSampleRate 1 0 3, SetSampleRate 0 0 3, SetGain 1 0 4, SetGain 0 0 5,
        SetFrequency 1 1 1, SetFrequency 0 1 1, SetBandwidth 1 1 2, SetBandwidth 0 1 2,
        SetSampleRate 1 1 3, SetSampleRate 0 1 3, SetGain 1 1 4, SetGain 0 1 5,
        SetupStream 1 ''CF32'' [0, 1] 10, SetupStream 0 ''CF32'' [0, 1] 20,
        Print (Formats ''CF32'' ''CF32''), Print (NumChannels 2), Print (ElementSizes 8 8),
        Print (BeginRateTest (Quotient (FromDouble 3) (FromDouble 1000000))), SignalSIGINT, SetLogLevel,
        Print CreateRxThread, Spawn RxThread, Sleep 2, Print CreateTxThread, Spawn TxThread],
      joined = []\<rparr>"
  by code_simp

text \<open>C8 as amended: the run of src/SoapyRateTest.cpp where \<open>setupStream\<close> for RX raises, the
  one where \<open>closeStream\<close> for RX raises, the run of part_000 where \<open>Device::make\<close> raises,
  the run with a channel key that is not a number, and the example run.\<close>

theorem always_exit_failure_witness:
  "SoapySDRRateTest soapy_headers (example_env\<lparr>throws := (\<lambda>n. n = 17)\<rparr>) ''driver=x'' 1 2 3 4 5 ''CF32'' ''0, 1''
   = \<lparr>outcome = Returns EXIT_FAILURE,
      trace = [Make ''driver=x'',
        SetFrequency 1 0 1, SetFrequency 0 0 1, SetBandwidth 1 0 2, SetBandwidth 0 0 2,
        SetSampleRate 1 0 3, SetSampleRate 0 0 3, SetGain 1 0 4, SetGain 0 0 5,
        SetFrequency 1 1 1, SetFrequency 0 1 1, SetBandwidth 1 1 2, SetBandwidth 0 1 2,
        SetSampleRate 1 1 3, SetSampleRate 0 1 3, SetGain 1 1 4, SetGain 0 1 5,
        SetupStream 1 ''CF32'' [0, 1] 10, Print ErrorInRateTest, Unmake (Some 42)],
      joined = []\<rparr>
   \<and> SoapySDRRateTest soapy_headers (example_env\<lparr>throws := (\<lambda>n. n = 33)\<rparr>) ''driver=x'' 1 2 3 4 5 ''CF32'' ''0, 1''
   = \<lparr>outcome = Returns EXIT_FAILURE,
      trace = [Make ''driver=x'',
        SetFrequency 1 0 1, SetFrequency 0 0 1, SetBandwidth 1 0 2, SetBandwidth 0 0 2,
        SetSampleRate 1 0 3, SetSampleRate 0 0 3, SetGain 1 0 4, SetGain 0 0 5,
        SetFrequency 1 1 1, SetFrequency 0 1 1, SetBandwidth 1 1 2, SetBandwidth 0 1 2,
        SetSampleRate 1 1 3, SetSampleRate 0 1 3, SetGain 1 1 4, SetGain 0 1 5,
        SetupStream 1 ''CF32'' [0, 1] 10, SetupStream 0 ''CF32'' [0, 1] 20,
        Print (Formats ''CF32'' ''CF32''), Print (NumChannels 2), Print (ElementSizes 8 8),
        Print (BeginRateTest (Quotient (FromDouble 3) (FromDouble 1000000))), SignalSIGINT, SetLogLevel, Print CreateRxThread,
        Spawn RxThread, Sleep 2, Print CreateTxThread, Spawn TxThread, Print JoinRxThread,
        Join RxThread, Join TxThread, CloseStream 10, Print ErrorInRateTest, Unmake (Some 42)],
      joined = [(RxThread, [GetStreamMTU 10, Print Omega, Print (DoubleSample 0), Print (FloatSample 0),
           Print (StartingStream 1), ActivateStream 10, ReadStream 10 1, Print (Spin 0),
           ReadStreamStatus 10, Print (Deactivate 1), DeactivateStream 10]),
                (TxThread, [GetStreamMTU 20, Print Omega, Print (DoubleSample 0), Print (FloatSample 0),
           Print (StartingStream 0), ActivateStream 20,
           WriteStream 20
             [[Computed SampleRe 0 0, Computed SampleRe 0 1, Computed SampleRe 0 2, Computed SampleRe 0 3,
               Computed SampleIm 0 0, Computed SampleIm 0 1, Computed SampleIm 0 2, Computed SampleIm 0 3],
              [Computed SampleRe 0 0, Computed SampleRe 0 1, Computed SampleRe 0 2, Computed SampleRe 0 3,
               Computed SampleIm 0 0, Computed SampleIm 0 1, Computed SampleIm 0 2, Computed SampleIm 0 3]] 1,
           Print (Spin 0), ReadStreamStatus 20, Print (Deactivate 0), DeactivateStream 20])]\<rparr>
   \<and> SoapySDRRateTest_part_000 soapy_headers (example_env\<lparr>throws := (\<lambda>n. n = 0)\<rparr>) ''driver=x'' 1 3 ''CF32'' ''0, 1''
     = \<lparr>outcome = Returns EXIT_FAILURE,
        trace = [Make ''driver=x'', Print ErrorInRateTest, Unmake None], joined = []\<rparr>
   \<and> SoapySDRRateTest soapy_headers bad_channel_env ''driver=x'' 1 2 3 4 5 ''CF32'' ''a''
     = \<lparr>outcome = Returns EXIT_FAILURE,
        trace = [Make ''driver=x'', Print ErrorInRateTest, Unmake (Some 42)], joined = []\<rparr>
   \<and> outcome (SoapySDRRateTest soapy_headers example_env ''driver=x'' 1 2 3 4 5 ''CF32'' ''0, 1'')
     = Returns EXIT_FAILURE
   \<and> last (trace (SoapySDRRateTest soapy_headers example_env ''driver=x'' 1 2 3 4 5 ''CF32'' ''0, 1''))
     = Unmake (Some 42)"
proof -
  have nt: "\<forall>n. \<not> throws example_env n" by (simp add: example_env_def)
  have ch: "buildChannels (stoi example_env) (KwargsFromString example_env ''0, 1'') = Some [0, 1]"
    by code_simp
  have ch17: "buildChannels (stoi (example_env\<lparr>throws := (\<lambda>n. n = 17)\<rparr>)) (KwargsFromString (example_env\<lparr>throws := (\<lambda>n. n = 17)\<rparr>) ''0, 1'') = Some [0, 1]"
    by code_simp
  have ch33: "buildChannels (stoi (example_env\<lparr>throws := (\<lambda>n. n = 33)\<rparr>)) (KwargsFromString (example_env\<lparr>throws := (\<lambda>n. n = 33)\<rparr>) ''0, 1'') = Some [0, 1]"
    by code_simp
  have ch0: "buildChannels (stoi (example_env\<lparr>throws := (\<lambda>n. n = 0)\<rparr>)) (KwargsFromString (example_env\<lparr>throws := (\<lambda>n. n = 0)\<rparr>) ''0, 1'') = Some [0, 1]"
    by code_simp
  have chb: "buildChannels (stoi bad_channel_env) (KwargsFromString bad_channel_env ''a'') = None"
    by code_simp
  have rx: "threadBody soapy_headers example_env 1 3 ''CF32'' [0, 1] RxThread
    = Inr [GetStreamMTU 10, Print Omega, Print (DoubleSample 0), Print (FloatSample 0),
           Print (StartingStream 1), ActivateStream 10, ReadStream 10 1, Print (Spin 0),
           ReadStreamStatus 10, Print (Deactivate 1), DeactivateStream 10]"
    by code_simp
  have tx: "threadBody soapy_headers example_env 1 3 ''CF32'' [0, 1] TxThread
    = Inr [GetStreamMTU 20, Print Omega, Print (DoubleSample 0), Print (FloatSample 0),
           Print (StartingStream 0), ActivateStream 20,
           WriteStream 20
             [[Computed SampleRe 0 0, Computed SampleRe 0 1, Computed SampleRe 0 2, Computed SampleRe 0 3,
               Computed SampleIm 0 0, Computed SampleIm 0 1, Computed SampleIm 0 2, Computed SampleIm 0 3],
              [Computed SampleRe 0 0, Computed SampleRe 0 1, Computed SampleRe 0 2, Computed SampleRe 0 3,
               Computed SampleIm 0 0, Computed SampleIm 0 1, Computed SampleIm 0 2, Computed SampleIm 0 3]] 1,
           Print (Spin 0), ReadStreamStatus 20, Print (Deactivate 0), DeactivateStream 20]"
    by code_simp
  have rx33: "threadBody soapy_headers (example_env\<lparr>throws := (\<lambda>n. n = 33)\<rparr>) 1 3 ''CF32'' [0, 1] RxThread
    = Inr [GetStreamMTU 10, Print Omega, Print (DoubleSample 0), Print (FloatSample 0),
           Print (StartingStream 1), ActivateStream 10, ReadStream 10 1, Print (Spin 0),
           ReadStreamStatus 10, Print (Deactivate 1), DeactivateStream 10]"
    by code_simp
  have tx33: "threadBody soapy_headers (example_env\<lparr>throws := (\<lambda>n. n = 33)\<rparr>) 1 3 ''CF32'' [0, 1] TxThread
    = Inr [GetStreamMTU 20, Print Omega, Print (DoubleSample 0), Print (FloatSample 0),
           Print (StartingStream 0), ActivateStream 20,
           WriteStream 20
             [[Computed SampleRe 0 0, Computed SampleRe 0 1, Computed SampleRe 0 2, Computed SampleRe 0 3,
               Computed SampleIm 0 0, Computed SampleIm 0 1, Computed SampleIm 0 2, Computed SampleIm 0 3],
              [Computed SampleRe 0 0, Computed SampleRe 0 1, Computed SampleRe 0 2, Computed SampleRe 0 3,
               Computed SampleIm 0 0, Computed SampleIm 0 1, Computed SampleIm 0 2, Computed SampleIm 0 3]] 1,
           Print (Spin 0), ReadStreamStatus 20, Print (Deactivate 0), DeactivateStream 20]"
    by code_simp
  have d: "device example_env = 42" "device bad_channel_env = 42" "\<not> throws bad_channel_env 0"
    "\<not> throws bad_channel_env 2" "device (example_env\<lparr>throws := (\<lambda>n. n = 17)\<rparr>) = 42" "throws (example_env\<lparr>throws := (\<lambda>n. n = 17)\<rparr>) = (\<lambda>n. n = 17)"
    "device (example_env\<lparr>throws := (\<lambda>n. n = 33)\<rparr>) = 42" "throws (example_env\<lparr>throws := (\<lambda>n. n = 33)\<rparr>) = (\<lambda>n. n = 33)"
    "throws (example_env\<lparr>throws := (\<lambda>n. n = 0)\<rparr>) = (\<lambda>n. n = 0)"
    by (simp_all add: example_env_def bad_channel_env_def)
  have q17: "planned (Do (Make ''driver=x'') # tryBlock soapy_headers (example_env\<lparr>throws := (\<lambda>n. n = 17)\<rparr>) 1 2 3 4 5 ''CF32'' [0, 1])
    = [Make ''driver=x'',
        SetFrequency 1 0 1, SetFrequency 0 0 1, SetBandwidth 1 0 2, SetBandwidth 0 0 2,
        SetSampleRate 1 0 3, SetSampleRate 0 0 3, SetGain 1 0 4, SetGain 0 0 5,
        SetFrequency 1 1 1, SetFrequency 0 1 1, SetBandwidth 1 1 2, SetBandwidth 0 1 2,
        SetSampleRate 1 1 3, SetSampleRate 0 1 3, SetGain 1 1 4, SetGain 0 1 5,
        SetupStream 1 ''CF32'' [0, 1] 10, SetupStream 0 ''CF32'' [0, 1] 20,
        Print (Formats ''CF32'' ''CF32''), Print (NumChannels 2), Print (ElementSizes 8 8),
        Print (BeginRateTest (Quotient (FromDouble 3) (FromDouble 1000000))), SignalSIGINT, SetLogLevel, Print CreateRxThread,
        Spawn RxThread, Sleep 2, Print CreateTxThread, Spawn TxThread, Print JoinRxThread,
        Join RxThread, Join TxThread, CloseStream 10, CloseStream 20, Unmake (Some 42)]"
    by code_simp
  have b17: "before_threads (Do (Make ''driver=x'') # tryBlock soapy_headers (example_env\<lparr>throws := (\<lambda>n. n = 17)\<rparr>) 1 2 3 4 5 ''CF32'' [0, 1])
    = [Make ''driver=x'',
        SetFrequency 1 0 1, SetFrequency 0 0 1, SetBandwidth 1 0 2, SetBandwidth 0 0 2,
        SetSampleRate 1 0 3, SetSampleRate 0 0 3, SetGain 1 0 4, SetGain 0 0 5,
        SetFrequency 1 1 1, SetFrequency 0 1 1, SetBandwidth 1 1 2, SetBandwidth 0 1 2,
        SetSampleRate 1 1 3, SetSampleRate 0 1 3, SetGain 1 1 4, SetGain 0 1 5,
        SetupStream 1 ''CF32'' [0, 1] 10, SetupStream 0 ''CF32'' [0, 1] 20,
        Print (Formats ''CF32'' ''CF32''), Print (NumChannels 2), Print (ElementSizes 8 8),
        Print (BeginRateTest (Quotient (FromDouble 3) (FromDouble 1000000))), SignalSIGINT, SetLogLevel, Print CreateRxThread]"
    by code_simp
  have q33: "planned (Do (Make ''driver=x'') # tryBlock soapy_headers (example_env\<lparr>throws := (\<lambda>n. n = 33)\<rparr>) 1 2 3 4 5 ''CF32'' [0, 1])
    = [Make ''driver=x'',
        SetFrequency 1 0 1, SetFrequency 0 0 1, SetBandwidth 1 0 2, SetBandwidth 0 0 2,
        SetSampleRate 1 0 3, SetSampleRate 0 0 3, SetGain 1 0 4, SetGain 0 0 5,
        SetFrequency 1 1 1, SetFrequency 0 1 1, SetBandwidth 1 1 2, SetBandwidth 0 1 2,
        SetSampleRate 1 1 3, SetSampleRate 0 1 3, SetGain 1 1 4, SetGain 0 1 5,
        SetupStream 1 ''CF32'' [0, 1] 10, SetupStream 0 ''CF32'' [0, 1] 20,
        Print (Formats ''CF32'' ''CF32''), Print (NumChannels 2), Print (ElementSizes 8 8),
        Print (BeginRateTest (Quotient (FromDouble 3) (FromDouble 1000000))), SignalSIGINT, SetLogLevel, Print CreateRxThread,
        Spawn RxThread, Sleep 2, Print CreateTxThread, Spawn TxThread, Print JoinRxThread,
        Join RxThread, Join TxThread, CloseStream 10, CloseStream 20, Unmake (Some 42)]"
    by code_simp
  have b33: "before_threads (Do (Make ''driver=x'') # tryBlock soapy_headers (example_env\<lparr>throws := (\<lambda>n. n = 33)\<rparr>) 1 2 3 4 5 ''CF32'' [0, 1])
    = [Make ''driver=x'',
        SetFrequency 1 0 1, SetFrequency 0 0 1, SetBandwidth 1 0 2, SetBandwidth 0 0 2,
        SetSampleRate 1 0 3, SetSampleRate 0 0 3, SetGain 1 0 4, SetGain 0 0 5,
        SetFrequency 1 1 1, SetFrequency 0 1 1, SetBandwidth 1 1 2, SetBandwidth 0 1 2,
        SetSampleRate 1 1 3, SetSampleRate 0 1 3, SetGain 1 1 4, SetGain 0 1 5,
        SetupStream 1 ''CF32'' [0, 1] 10, SetupStream 0 ''CF32'' [0, 1] 20,
        Print (Formats ''CF32'' ''CF32''), Print (NumChannels 2), Print (ElementSizes 8 8),
        Print (BeginRateTest (Quotient (FromDouble 3) (FromDouble 1000000))), SignalSIGINT, SetLogLevel, Print CreateRxThread]"
    by code_simp
  have q0: "planned (Do (Make ''driver=x'') # tryBlock_part_000 soapy_headers (example_env\<lparr>throws := (\<lambda>n. n = 0)\<rparr>) 1 3 ''CF32'' [0, 1])
    = [Make ''driver=x'',
        SetFrequency 1 0 1, SetFrequency 0 0 1, SetSampleRate 1 0 3, SetSampleRate 0 0 3,
        SetFrequency 1 1 1, SetFrequency 0 1 1, SetSampleRate 1 1 3, SetSampleRate 0 1 3,
        SetupStream 1 ''CF32'' [0, 1] 10, SetupStream 0 ''CF32'' [0, 1] 20,
        Print (Formats ''CF32'' ''CF32''), Print (NumChannels 2), Print (ElementSizes 8 8),
        Print (BeginRateTest (Quotient (FromDouble 3) (FromDouble 1000000))), SignalSIGINT, Print CreateRxThread,
        Spawn RxThread, Sleep 2, Print CreateTxThread, Spawn TxThread, Print JoinRxThread,
        Join RxThread, CloseStream 10, CloseStream 20, Unmake (Some 42)]"
    by code_simp
  have b0: "before_threads (Do (Make ''driver=x'') # tryBlock_part_000 soapy_headers (example_env\<lparr>throws := (\<lambda>n. n = 0)\<rparr>) 1 3 ''CF32'' [0, 1])
    = [Make ''driver=x'',
        SetFrequency 1 0 1, SetFrequency 0 0 1, SetSampleRate 1 0 3, SetSampleRate 0 0 3,
        SetFrequency 1 1 1, SetFrequency 0 1 1, SetSampleRate 1 1 3, SetSampleRate 0 1 3,
        SetupStream 1 ''CF32'' [0, 1] 10, SetupStream 0 ''CF32'' [0, 1] 20,
        Print (Formats ''CF32'' ''CF32''), Print (NumChannels 2), Print (ElementSizes 8 8),
        Print (BeginRateTest (Quotient (FromDouble 3) (FromDouble 1000000))), SignalSIGINT, Print CreateRxThread]"
    by code_simp
  have h17: "(17::nat) < length (planned (Do (Make ''driver=x'') # tryBlock soapy_headers (example_env\<lparr>throws := (\<lambda>n. n = 17)\<rparr>) 1 2 3 4 5 ''CF32'' [0, 1]))
      \<and> may_raise (planned (Do (Make ''driver=x'') # tryBlock soapy_headers (example_env\<lparr>throws := (\<lambda>n. n = 17)\<rparr>) 1 2 3 4 5 ''CF32'' [0, 1]) ! 17)
      \<and> throws (example_env\<lparr>throws := (\<lambda>n. n = 17)\<rparr>) 17
      \<and> (\<forall>i<17. \<not> (may_raise (planned (Do (Make ''driver=x'') # tryBlock soapy_headers (example_env\<lparr>throws := (\<lambda>n. n = 17)\<rparr>) 1 2 3 4 5 ''CF32'' [0, 1]) ! i)
                    \<and> throws (example_env\<lparr>throws := (\<lambda>n. n = 17)\<rparr>) i))"
    unfolding q17 d by simp
  have h33: "(33::nat) < length (planned (Do (Make ''driver=x'') # tryBlock soapy_headers (example_env\<lparr>throws := (\<lambda>n. n = 33)\<rparr>) 1 2 3 4 5 ''CF32'' [0, 1]))
      \<and> may_raise (planned (Do (Make ''driver=x'') # tryBlock soapy_headers (example_env\<lparr>throws := (\<lambda>n. n = 33)\<rparr>) 1 2 3 4 5 ''CF32'' [0, 1]) ! 33)
      \<and> throws (example_env\<lparr>throws := (\<lambda>n. n = 33)\<rparr>) 33
      \<and> (\<forall>i<33. \<not> (may_raise (planned (Do (Make ''driver=x'') # tryBlock soapy_headers (example_env\<lparr>throws := (\<lambda>n. n = 33)\<rparr>) 1 2 3 4 5 ''CF32'' [0, 1]) ! i)
                    \<and> throws (example_env\<lparr>throws := (\<lambda>n. n = 33)\<rparr>) i))"
    unfolding q33 d by simp
  have h0: "(0::nat) < length (planned (Do (Make ''driver=x'') # tryBlock_part_000 soapy_headers (example_env\<lparr>throws := (\<lambda>n. n = 0)\<rparr>) 1 3 ''CF32'' [0, 1]))
      \<and> may_raise (planned (Do (Make ''driver=x'') # tryBlock_part_000 soapy_headers (example_env\<lparr>throws := (\<lambda>n. n = 0)\<rparr>) 1 3 ''CF32'' [0, 1]) ! 0)
      \<and> throws (example_env\<lparr>throws := (\<lambda>n. n = 0)\<rparr>) 0
      \<and> (\<forall>i<0. \<not> (may_raise (planned (Do (Make ''driver=x'') # tryBlock_part_000 soapy_headers (example_env\<lparr>throws := (\<lambda>n. n = 0)\<rparr>) 1 3 ''CF32'' [0, 1]) ! i)
                    \<and> throws (example_env\<lparr>throws := (\<lambda>n. n = 0)\<rparr>) i))
      \<and> (0::nat) \<le> length (before_threads (Do (Make ''driver=x'') # tryBlock_part_000 soapy_headers (example_env\<lparr>throws := (\<lambda>n. n = 0)\<rparr>) 1 3 ''CF32'' [0, 1]))"
    unfolding q0 d by simp
  have l17: "(17::nat) \<le> length (before_threads (Do (Make ''driver=x'') # tryBlock soapy_headers (example_env\<lparr>throws := (\<lambda>n. n = 17)\<rparr>) 1 2 3 4 5 ''CF32'' [0, 1]))"
    unfolding b17 by simp
  have l33: "length (before_threads (Do (Make ''driver=x'') # tryBlock soapy_headers (example_env\<lparr>throws := (\<lambda>n. n = 33)\<rparr>) 1 2 3 4 5 ''CF32'' [0, 1])) + 7 \<le> (33::nat)
      \<and> threadBody soapy_headers (example_env\<lparr>throws := (\<lambda>n. n = 33)\<rparr>) 1 3 ''CF32'' [0, 1] RxThread
        = Inr [GetStreamMTU 10, Print Omega, Print (DoubleSample 0), Print (FloatSample 0),
           Print (StartingStream 1), ActivateStream 10, ReadStream 10 1, Print (Spin 0),
           ReadStreamStatus 10, Print (Deactivate 1), DeactivateStream 10]
      \<and> threadBody soapy_headers (example_env\<lparr>throws := (\<lambda>n. n = 33)\<rparr>) 1 3 ''CF32'' [0, 1] TxThread
        = Inr [GetStreamMTU 20, Print Omega, Print (DoubleSample 0), Print (FloatSample 0),
           Print (StartingStream 0), ActivateStream 20,
           WriteStream 20
             [[Computed SampleRe 0 0, Computed SampleRe 0 1, Computed SampleRe 0 2, Computed SampleRe 0 3,
               Computed SampleIm 0 0, Computed SampleIm 0 1, Computed SampleIm 0 2, Computed SampleIm 0 3],
              [Computed SampleRe 0 0, Computed SampleRe 0 1, Computed SampleRe 0 2, Computed SampleRe 0 3,
               Computed SampleIm 0 0, Computed SampleIm 0 1, Computed SampleIm 0 2, Computed SampleIm 0 3]] 1,
           Print (Spin 0), ReadStreamStatus 20, Print (Deactivate 0), DeactivateStream 20]"
    unfolding b33 using rx33 tx33 by simp
  note t17 = always_exit_failure [where c = soapy_headers and env = "(example_env\<lparr>throws := (\<lambda>n. n = 17)\<rparr>)" and argStr = "''driver=x''"
      and frequency = 1 and bandwidth = 2 and sampleRate = 3 and rxGain = 4 and txGain = 5
      and formatStr = "''CF32''" and channelStr = "''0, 1''" and channels = "[0, 1]" and k = 17]
  note t33 = always_exit_failure [where c = soapy_headers and env = "(example_env\<lparr>throws := (\<lambda>n. n = 33)\<rparr>)" and argStr = "''driver=x''"
      and frequency = 1 and bandwidth = 2 and sampleRate = 3 and rxGain = 4 and txGain = 5
      and formatStr = "''CF32''" and channelStr = "''0, 1''" and channels = "[0, 1]"
      and k = 33 and rxCalls = "[GetStreamMTU 10, Print Omega, Print (DoubleSample 0), Print (FloatSample 0),
           Print (StartingStream 1), ActivateStream 10, ReadStream 10 1, Print (Spin 0),
           ReadStreamStatus 10, Print (Deactivate 1), DeactivateStream 10]"
      and txCalls = "[GetStreamMTU 20, Print Omega, Print (DoubleSample 0), Print (FloatSample 0),
           Print (StartingStream 0), ActivateStream 20,
           WriteStream 20
             [[Computed SampleRe 0 0, Computed SampleRe 0 1, Computed SampleRe 0 2, Computed SampleRe 0 3,
               Computed SampleIm 0 0, Computed SampleIm 0 1, Computed SampleIm 0 2, Computed SampleIm 0 3],
              [Computed SampleRe 0 0, Computed SampleRe 0 1, Computed SampleRe 0 2, Computed SampleRe 0 3,
               Computed SampleIm 0 0, Computed SampleIm 0 1, Computed SampleIm 0 2, Computed SampleIm 0 3]] 1,
           Print (Spin 0), ReadStreamStatus 20, Print (Deactivate 0), DeactivateStream 20]"]
  note t0 = always_exit_failure [where c = soapy_headers and env = "(example_env\<lparr>throws := (\<lambda>n. n = 0)\<rparr>)" and argStr = "''driver=x''"
      and frequency = 1 and sampleRate = 3
      and formatStr = "''CF32''" and channelStr = "''0, 1''" and channels = "[0, 1]" and ?k0.0 = 0]
  note tb = always_exit_failure [where c = soapy_headers and env = bad_channel_env and argStr = "''driver=x''"
      and frequency = 1 and bandwidth = 2 and sampleRate = 3 and rxGain = 4 and txGain = 5
      and formatStr = "''CF32''" and channelStr = "''a''"]
  note te = always_exit_failure [where c = soapy_headers and env = "example_env" and argStr = "''driver=x''"
      and frequency = 1 and bandwidth = 2 and sampleRate = 3 and rxGain = 4 and txGain = 5
      and formatStr = "''CF32''" and channelStr = "''0, 1''" and channels = "[0, 1]"
      and rxCalls = "[GetStreamMTU 10, Print Omega, Print (DoubleSample 0), Print (FloatSample 0),
           Print (StartingStream 1), ActivateStream 10, ReadStream 10 1, Print (Spin 0),
           ReadStreamStatus 10, Print (Deactivate 1), DeactivateStream 10]"]
  have r17: "SoapySDRRateTest soapy_headers (example_env\<lparr>throws := (\<lambda>n. n = 17)\<rparr>) ''driver=x'' 1 2 3 4 5 ''CF32'' ''0, 1''
   = \<lparr>outcome = Returns EXIT_FAILURE,
      trace = [Make ''driver=x'',
        SetFrequency 1 0 1, SetFrequency 0 0 1, SetBandwidth 1 0 2, SetBandwidth 0 0 2,
        SetSampleRate 1 0 3, SetSampleRate 0 0 3, SetGain 1 0 4, SetGain 0 0 5,
        SetFrequency 1 1 1, SetFrequency 0 1 1, SetBandwidth 1 1 2, SetBandwidth 0 1 2,
        SetSampleRate 1 1 3, SetSampleRate 0 1 3, SetGain 1 1 4, SetGain 0 1 5,
        SetupStream 1 ''CF32'' [0, 1] 10, Print ErrorInRateTest, Unmake (Some 42)],
      joined = []\<rparr>"
    using t17 [THEN conjunct2, THEN conjunct2, THEN conjunct2, THEN conjunct2, THEN conjunct1, THEN mp, OF conjI [OF ch17 h17], THEN conjunct1, THEN mp, OF l17]
    unfolding q17 d by simp
  have r33: "SoapySDRRateTest soapy_headers (example_env\<lparr>throws := (\<lambda>n. n = 33)\<rparr>) ''driver=x'' 1 2 3 4 5 ''CF32'' ''0, 1''
   = \<lparr>outcome = Returns EXIT_FAILURE,
      trace = [Make ''driver=x'',
        SetFrequency 1 0 1, SetFrequency 0 0 1, SetBandwidth 1 0 2, SetBandwidth 0 0 2,
        SetSampleRate 1 0 3, SetSampleRate 0 0 3, SetGain 1 0 4, SetGain 0 0 5,
        SetFrequency 1 1 1, SetFrequency 0 1 1, SetBandwidth 1 1 2, SetBandwidth 0 1 2,
        SetSampleRate 1 1 3, SetSampleRate 0 1 3, SetGain 1 1 4, SetGain 0 1 5,
        SetupStream 1 ''CF32'' [0, 1] 10, SetupStream 0 ''CF32'' [0, 1] 20,
        Print (Formats ''CF32'' ''CF32''), Print (NumChannels 2), Print (ElementSizes 8 8),
        Print (BeginRateTest (Quotient (FromDouble 3) (FromDouble 1000000))), SignalSIGINT, SetLogLevel, Print CreateRxThread,
        Spawn RxThread, Sleep 2, Print CreateTxThread, Spawn TxThread, Print JoinRxThread,
        Join RxThread, Join TxThread, CloseStream 10, Print ErrorInRateTest, Unmake (Some 42)],
      joined = [(RxThread, [GetStreamMTU 10, Print Omega, Print (DoubleSample 0), Print (FloatSample 0),
           Print (StartingStream 1), ActivateStream 10, ReadStream 10 1, Print (Spin 0),
           ReadStreamStatus 10, Print (Deactivate 1), DeactivateStream 10]),
                (TxThread, [GetStreamMTU 20, Print Omega, Print (DoubleSample 0), Print (FloatSample 0),
           Print (StartingStream 0), ActivateStream 20,
           WriteStream 20
             [[Computed SampleRe 0 0, Computed SampleRe 0 1, Computed SampleRe 0 2, Computed SampleRe 0 3,
               Computed SampleIm 0 0, Computed SampleIm 0 1, Computed SampleIm 0 2, Computed SampleIm 0 3],
              [Computed SampleRe 0 0, Computed SampleRe 0 1, Computed SampleRe 0 2, Computed SampleRe 0 3,
               Computed SampleIm 0 0, Computed SampleIm 0 1, Computed SampleIm 0 2, Computed SampleIm 0 3]] 1,
           Print (Spin 0), ReadStreamStatus 20, Print (Deactivate 0), DeactivateStream 20])]\<rparr>"
    using t33 [THEN conjunct2, THEN conjunct2, THEN conjunct2, THEN conjunct2, THEN conjunct1, THEN mp, OF conjI [OF ch33 h33], THEN conjunct2, THEN conjunct1, THEN mp, OF l33]
    unfolding q33 d by simp
  have r0: "SoapySDRRateTest_part_000 soapy_headers (example_env\<lparr>throws := (\<lambda>n. n = 0)\<rparr>) ''driver=x'' 1 3 ''CF32'' ''0, 1''
     = \<lparr>outcome = Returns EXIT_FAILURE,
        trace = [Make ''driver=x'', Print ErrorInRateTest, Unmake None], joined = []\<rparr>"
    using t0 [THEN conjunct2, THEN conjunct2, THEN conjunct2, THEN conjunct2, THEN conjunct2, THEN conjunct1, THEN mp, OF conjI [OF ch0 h0]]
    unfolding q0 d by simp
  have rb: "SoapySDRRateTest soapy_headers bad_channel_env ''driver=x'' 1 2 3 4 5 ''CF32'' ''a''
     = \<lparr>outcome = Returns EXIT_FAILURE,
        trace = [Make ''driver=x'', Print ErrorInRateTest, Unmake (Some 42)], joined = []\<rparr>"
    using tb [THEN conjunct2, THEN conjunct2, THEN conjunct1, THEN mp, OF chb, THEN conjunct1] d
    by simp
  from te [THEN conjunct2, THEN conjunct2, THEN conjunct2, THEN conjunct2, THEN conjunct2, THEN conjunct2,
      THEN mp, OF conjI [OF nt conjI [OF ch conjI [OF rx tx]]]] d
  have re: "outcome (SoapySDRRateTest soapy_headers example_env ''driver=x'' 1 2 3 4 5 ''CF32'' ''0, 1'')
     = Returns EXIT_FAILURE
   \<and> last (trace (SoapySDRRateTest soapy_headers example_env ''driver=x'' 1 2 3 4 5 ''CF32'' ''0, 1''))
     = Unmake (Some 42)" by simp
  from r17 r33 r0 rb re show ?thesis by blast
qed

end
